theory Spec2Isabelle
  imports Complex_Main "HOL-Library.Product_Lexorder"
begin

section \<open>Strings, numbers and dates\<close>

text \<open>
  The billing engine (\<^verbatim>\<open>src/routes/billingEngine.js\<close>) computes on JavaScript strings and
  numbers and stores its results in MySQL tables. Strings are modelled as \<^typ>\<open>string\<close>,
  identifiers and counters as \<^typ>\<open>nat\<close>, monetary amounts, quantities and exchange rates
  as exact rationals (\<^typ>\<open>rat\<close>; the rounding error of IEEE doubles is abstracted away),
  a \<^verbatim>\<open>DATE\<close> column as a triple (year, month, day) ordered lexicographically, and a
  nullable column as an \<^typ>\<open>'a option\<close>.
\<close>

type_synonym date = "nat \<times> nat \<times> nat"

definition is_digit :: "char \<Rightarrow> bool" where
  "is_digit c = (48 \<le> (of_char c :: nat) \<and> (of_char c :: nat) \<le> 57)"

definition digit_val :: "char \<Rightarrow> nat" where
  "digit_val c = (of_char c :: nat) - 48"

definition digit_char :: "nat \<Rightarrow> char" where
  "digit_char n = char_of (48 + n)"

text \<open>\<^verbatim>\<open>Number(s)\<close> on a string of decimal digits (the empty string gives 0); any other
  string is \<^verbatim>\<open>NaN\<close> for the strings that occur here, modelled as \<^const>\<open>None\<close>.\<close>

definition js_Number :: "string \<Rightarrow> nat option" where
  "js_Number s =
     (if list_all is_digit s then Some (foldl (\<lambda>a c. 10 * a + digit_val c) 0 s) else None)"

text \<open>\<^verbatim>\<open>String(n)\<close> for a non-negative integer: its decimal digits, no padding.\<close>

fun js_String :: "nat \<Rightarrow> string" where
  "js_String n = (if n < 10 then [digit_char n] else js_String (n div 10) @ [digit_char (n mod 10)])"

declare js_String.simps [simp del]

definition padStart :: "nat \<Rightarrow> char \<Rightarrow> string \<Rightarrow> string" where
  "padStart n c s = replicate (n - length s) c @ s"

text \<open>\<^verbatim>\<open>s.split(c)\<close> for a one-character separator.\<close>

fun split_on :: "char \<Rightarrow> string \<Rightarrow> string list" where
  "split_on c [] = [[]]"
| "split_on c (x # xs) =
     (if x = c then [] # split_on c xs
      else (case split_on c xs of [] \<Rightarrow> [[x]] | w # ws \<Rightarrow> (x # w) # ws))"

text \<open>\<^verbatim>\<open>s.replace(c, "")\<close> with a string pattern: only the first occurrence is removed.\<close>

fun remove_first :: "char \<Rightarrow> string \<Rightarrow> string" where
  "remove_first c [] = []"
| "remove_first c (x # xs) = (if x = c then xs else x # remove_first c xs)"

text \<open>How the database reads a date literal \<^verbatim>\<open>Y-M-D\<close>.\<close>

definition parse_date :: "string \<Rightarrow> date option" where
  "parse_date s =
     (case map js_Number (split_on CHR ''-'' s) of
        [Some y, Some m, Some d] \<Rightarrow> Some (y, m, d)
      | _ \<Rightarrow> None)"

section \<open>Truncation and the billing window\<close>

text \<open>\<^verbatim>\<open>trunc100\<close> (billingEngine.js, lines 12-15): \<^verbatim>\<open>Math.floor(value / 100) * 100\<close>.\<close>

definition trunc100 :: "rat \<Rightarrow> rat" where
  "trunc100 input = of_int (\<lfloor>input / 100\<rfloor>) * 100"

record month_range =
  range_from :: string
  range_to :: string

text \<open>\<^verbatim>\<open>monthRange\<close> (billingEngine.js, lines 17-22). The two components of the split are
  read with \<^verbatim>\<open>Number\<close>; the request schema only lets strings of the shape
  \<^verbatim>\<open>dddd-dd\<close> through, for which both are numbers.\<close>

definition monthRange :: "string \<Rightarrow> month_range option" where
  "monthRange invoiceMonth =
     (case map js_Number (split_on CHR ''-'' invoiceMonth) of
        Some year # Some month # _ \<Rightarrow>
          Some \<lparr> range_from = invoiceMonth @ ''-01'',
                 range_to = (if month = 12 then js_String (year + 1) @ ''-01-01''
                             else js_String year @ ''-'' @ padStart 2 CHR ''0'' (js_String (month + 1)) @ ''-01'') \<rparr>
      | _ \<Rightarrow> None)"

text \<open>The settlement module's own \<^verbatim>\<open>monthRange\<close> (lines 1171-1176 of the same file).\<close>

definition settlement_monthRange :: "string \<Rightarrow> month_range option" where
  "settlement_monthRange billingMonth =
     (case map js_Number (split_on CHR ''-'' billingMonth) of
        Some y # Some m # _ \<Rightarrow>
          Some \<lparr> range_from = billingMonth @ ''-01'',
                 range_to = (if m = 12 then js_String (y + 1) @ ''-01-01''
                             else js_String y @ ''-'' @ padStart 2 CHR ''0'' (js_String (m + 1)) @ ''-01'') \<rparr>
      | _ \<Rightarrow> None)"

text \<open>The request schemas' pattern \<^verbatim>\<open>^\d{4}-\d{2}$\<close>.\<close>

definition month_regex :: "string \<Rightarrow> bool" where
  "month_regex s =
     (case s of
        [a, b, c, d, h, e, f] \<Rightarrow>
          is_digit a \<and> is_digit b \<and> is_digit c \<and> is_digit d \<and> h = CHR ''-'' \<and> is_digit e \<and> is_digit f
      | _ \<Rightarrow> False)"

text \<open>The selection \<^verbatim>\<open>event_date >= from AND event_date < to\<close> of the generation query.\<close>

definition in_window :: "month_range \<Rightarrow> date \<Rightarrow> bool" where
  "in_window r d =
     (case (parse_date (range_from r), parse_date (range_to r)) of
        (Some lo, Some hi) \<Rightarrow> lo \<le> d \<and> d < hi
      | _ \<Rightarrow> False)"


section \<open>The tables\<close>

text \<open>
  Each table is the list of its rows in insertion order. A soft-deleted row keeps its place
  and carries the time of deletion in its \<^verbatim>\<open>deleted_at\<close> column. The status columns hold
  one of a fixed set of literals and are modelled as datatypes (the handlers' lower-casing
  of a status is the identity on these literals).
\<close>

type_synonym timestamp = nat

datatype invoice_status = Draft | Issued | Paid
datatype event_status = PENDING | INVOICED
datatype pricing_policy = THB_BASED | KRW_FIXED
datatype rate_status = RateDraft | RateActive | RateSuperseded
datatype active_status = Active | Inactive
datatype batch_status = Calculating | Reviewed | Open | Closed
datatype request_status = Requested | Approved | Rejected

record exchange_rate =
  er_id :: nat
  er_rate_date :: date
  er_base_currency :: string
  er_quote_currency :: string
  er_rate :: rat
  er_source :: string
  er_locked :: nat
  er_status :: rate_status
  er_deleted_at :: "timestamp option"

record billing_event =
  be_id :: nat
  be_client_id :: nat
  be_service_code :: string
  be_event_date :: date
  be_qty :: "rat option"
  be_pricing_policy :: pricing_policy
  be_unit_price_thb :: "rat option"
  be_amount_thb :: "rat option"
  be_unit_price_krw :: "rat option"
  be_amount_krw :: "rat option"
  be_fx_rate_thbkrw :: "rat option"
  be_status :: event_status
  be_invoice_id :: "nat option"
  be_deleted_at :: "timestamp option"

record invoice =
  inv_id :: nat
  inv_settlement_batch_id :: "nat option"
  inv_client_id :: nat
  inv_invoice_month :: "string option"
  inv_invoice_no :: string
  inv_status :: invoice_status
  inv_issue_date :: string
  inv_invoice_date :: "string option"
  inv_due_date :: string
  inv_recipient_email :: "string option"
  inv_currency :: string
  inv_fx_rate_thbkrw :: "rat option"
  inv_subtotal_krw :: "rat option"
  inv_vat_krw :: "rat option"
  inv_total_krw :: "rat option"
  inv_total_amount :: "rat option"
  inv_created_by :: nat
  inv_deleted_at :: "timestamp option"

record invoice_item =
  ii_id :: nat
  ii_invoice_id :: nat
  ii_service_code :: string
  ii_description :: string
  ii_qty :: rat
  ii_unit_price_krw :: rat
  ii_amount_krw :: rat
  ii_deleted_at :: "timestamp option"

record invoice_sequence =
  seq_id :: nat
  seq_client_id :: nat
  seq_yyyymm :: string
  seq_last_seq :: nat
  seq_deleted_at :: "timestamp option"

record service_catalog_row =
  sc_id :: nat
  sc_service_code :: string
  sc_service_name :: "string option"
  sc_service_name_kr :: "string option"
  sc_billing_basis :: string
  sc_status :: active_status
  sc_deleted_at :: "timestamp option"

record price_policy =
  pp_id :: nat
  pp_client_id :: nat
  pp_service_id :: nat
  pp_unit_price :: rat
  pp_currency :: string
  pp_status :: active_status
  pp_effective_from :: date
  pp_effective_to :: "date option"
  pp_deleted_at :: "timestamp option"

record service_event =
  se_id :: nat
  se_client_id :: nat
  se_service_id :: nat
  se_outbound_order_id :: nat
  se_stock_transaction_id :: nat
  se_event_date :: timestamp
  se_source_type :: string
  se_basis_applied :: string
  se_qty :: rat
  se_box_count :: rat
  se_unit_price :: rat
  se_amount :: rat
  se_currency :: string
  se_remark :: "string option"
  se_deleted_at :: "timestamp option"

record settlement_batch =
  sb_id :: nat
  sb_client_id :: nat
  sb_billing_month :: string
  sb_status :: batch_status
  sb_total_krw :: "rat option"
  sb_closed_at :: "timestamp option"
  sb_closed_by :: "nat option"
  sb_deleted_at :: "timestamp option"

record settlement_line =
  sl_id :: nat
  sl_settlement_batch_id :: nat
  sl_service_id :: nat
  sl_line_type :: string
  sl_description :: string
  sl_qty :: rat
  sl_basis :: string
  sl_currency :: string
  sl_unit_price :: rat
  sl_amount :: rat
  sl_extra_amount :: rat
  sl_total_amount :: rat
  sl_deleted_at :: "timestamp option"

record invoice_line =
  il_id :: nat
  il_invoice_id :: nat
  il_settlement_line_id :: nat
  il_service_id :: nat
  il_line_type :: string
  il_description :: string
  il_qty :: rat
  il_unit :: string
  il_currency :: string
  il_unit_price :: rat
  il_amount :: rat
  il_extra_amount :: rat
  il_total_amount :: rat

record reopen_request =
  rr_id :: nat
  rr_settlement_batch_id :: nat
  rr_requested_by :: nat
  rr_reason :: string
  rr_status :: request_status
  rr_approved_by :: "nat option"
  rr_approved_at :: "timestamp option"
  rr_deleted_at :: "timestamp option"

record reopen_log =
  rl_id :: nat
  rl_settlement_batch_id :: nat
  rl_request_id :: "nat option"
  rl_actor_id :: nat
  rl_action :: string
  rl_reason :: "string option"
  rl_acted_at :: timestamp

record db =
  exchange_rates :: "exchange_rate list"
  billing_events :: "billing_event list"
  invoices :: "invoice list"
  invoice_items :: "invoice_item list"
  invoice_sequences :: "invoice_sequence list"
  service_catalog :: "service_catalog_row list"
  price_policies :: "price_policy list"
  service_events :: "service_event list"
  settlement_batches :: "settlement_batch list"
  settlement_lines :: "settlement_line list"
  invoice_lines :: "invoice_line list"
  settlement_reopen_requests :: "reopen_request list"
  settlement_reopen_logs :: "reopen_log list"

datatype error_code =
    VALIDATION_ERROR | ADMIN_ONLY | NOT_FOUND | DUPLICATE_ENTRY | EXCHANGE_RATE_LOCKED
  | INVOICE_ALREADY_ISSUED | FX_NOT_FOUND | NO_PENDING_EVENTS | INVALID_STATUS
  | EVENTS_NOT_FOUND | EVENTS_LOCKED
  | BATCH_NOT_FOUND | ALREADY_CLOSED | REQUEST_EXISTS | REQUEST_NOT_FOUND

text \<open>The \<^verbatim>\<open>insertId\<close> of an auto-increment key: above every id the table holds
  (rows are never removed, only soft-deleted).\<close>

definition fresh_id :: "nat list \<Rightarrow> nat" where
  "fresh_id ids = Suc (foldr max ids 0)"

text \<open>\<^verbatim>\<open>ORDER BY key DESC LIMIT 1\<close>: a row with the greatest key, if there is a row.\<close>

fun first_desc :: "('a \<Rightarrow> 'k::linorder) \<Rightarrow> 'a list \<Rightarrow> 'a option" where
  "first_desc key [] = None"
| "first_desc key (x # xs) =
     (case first_desc key xs of
        None \<Rightarrow> Some x
      | Some y \<Rightarrow> (if key x < key y then Some y else Some x))"

text \<open>\<^verbatim>\<open>Number(v || 0)\<close> on a nullable numeric column.\<close>

definition num0 :: "rat option \<Rightarrow> rat" where
  "num0 v = (case v of None \<Rightarrow> 0 | Some x \<Rightarrow> x)"


text \<open>The decimal value of a digit string, as folded by \<^const>\<open>js_Number\<close>.\<close>

definition dec_val :: "string \<Rightarrow> nat" where
  "dec_val s = foldl (\<lambda>a c. 10 * a + digit_val c) 0 s"

text \<open>
  Modelled from the spec: \<^verbatim>\<open>withTransaction\<close> of \<^verbatim>\<open>services/stock.js\<close>, which is not among
  the sources. Section 5 of the specification: every multi-step workflow runs inside one
  all-or-nothing transaction, and a failure at any step rolls back all prior writes in that
  transaction. The callback's writes are kept when it reports success and discarded when
  it reports a failure.
\<close>

definition withTransaction :: "(db \<Rightarrow> (error_code + 'a) \<times> db) \<Rightarrow> db \<Rightarrow> (error_code + 'a) \<times> db" where
  "withTransaction body s =
     (case body s of
        (Inl e, _) \<Rightarrow> (Inl e, s)
      | (Inr r, s') \<Rightarrow> (Inr r, s'))"

text \<open>\<^verbatim>\<open>requireAdmin\<close> (lines 37-47): the role of the authenticated user must be
  \<^verbatim>\<open>admin\<close>.\<close>

definition requireAdmin :: "string option \<Rightarrow> bool" where
  "requireAdmin role = (role = Some ''admin'')"

text \<open>\<^verbatim>\<open>parseCreator\<close> (lines 24-28): the payload's creator if truthy, else the
  authenticated user's id if it is a positive number, else 1.\<close>

definition parseCreator :: "int option \<Rightarrow> nat option \<Rightarrow> nat" where
  "parseCreator user_sub payloadCreatedBy =
     (case payloadCreatedBy of
        Some c \<Rightarrow> if c \<noteq> 0 then c else
                   (case user_sub of Some u \<Rightarrow> if u > 0 then nat u else 1 | None \<Rightarrow> 1)
      | None \<Rightarrow> (case user_sub of Some u \<Rightarrow> if u > 0 then nat u else 1 | None \<Rightarrow> 1))"


section \<open>Invoice sequence numbers\<close>

text \<open>\<^verbatim>\<open>resolveInvoiceSequence\<close> (lines 62-84): the counter row of (client, yyyymm) is
  created with 1 or incremented; the new value is returned.\<close>

definition resolveInvoiceSequence :: "nat \<Rightarrow> string \<Rightarrow> db \<Rightarrow> nat \<times> db" where
  "resolveInvoiceSequence clientId yyyymm s =
     (case find (\<lambda>q. seq_client_id q = clientId \<and> seq_yyyymm q = yyyymm \<and> seq_deleted_at q = None)
             (invoice_sequences s) of
        None \<Rightarrow>
          (1, s\<lparr>invoice_sequences := invoice_sequences s @
                  [\<lparr>seq_id = fresh_id (map seq_id (invoice_sequences s)), seq_client_id = clientId,
                    seq_yyyymm = yyyymm, seq_last_seq = 1, seq_deleted_at = None\<rparr>]\<rparr>)
      | Some row \<Rightarrow>
          (let nextSeq = seq_last_seq row + 1
           in (nextSeq, s\<lparr>invoice_sequences :=
                 map (\<lambda>q. if seq_id q = seq_id row then q\<lparr>seq_last_seq := nextSeq\<rparr> else q)
                   (invoice_sequences s)\<rparr>)))"

section \<open>The invoice generator: POST /billing/invoices/generate\<close>

record generate_request =
  rq_client_id :: "int option"
  rq_invoice_month :: "string option"
  rq_invoice_date :: "string option"
  rq_regenerate_draft :: "int option"
  rq_created_by :: "int option"

record generate_payload =
  gp_client_id :: nat
  gp_invoice_month :: string
  gp_invoice_date :: string
  gp_regenerate_draft :: nat
  gp_created_by :: "nat option"

text \<open>The pattern \<^verbatim>\<open>^\d{4}-\d{2}-\d{2}$\<close>.\<close>

definition date_regex :: "string \<Rightarrow> bool" where
  "date_regex s =
     (case s of
        [a, b, c, d, h, e, f, i, g, j] \<Rightarrow>
          is_digit a \<and> is_digit b \<and> is_digit c \<and> is_digit d \<and> h = CHR ''-'' \<and> is_digit e \<and> is_digit f
          \<and> i = CHR ''-'' \<and> is_digit g \<and> is_digit j
      | _ \<Rightarrow> False)"

text \<open>\<^verbatim>\<open>generateInvoiceSchema\<close> (lines 134-140). A request field is \<^const>\<open>None\<close> when the
  body does not carry it; \<^verbatim>\<open>created_by\<close> is optional, \<^verbatim>\<open>regenerate_draft\<close> defaults
  to 0.\<close>

definition validate_generateInvoiceSchema :: "generate_request \<Rightarrow> error_code + generate_payload" where
  "validate_generateInvoiceSchema rq =
     (case (rq_client_id rq, rq_invoice_month rq, rq_invoice_date rq) of
        (Some c, Some m, Some d) \<Rightarrow>
          if 0 < c \<and> month_regex m \<and> date_regex d
             \<and> (case rq_regenerate_draft rq of None \<Rightarrow> True | Some r \<Rightarrow> 0 \<le> r \<and> r \<le> 1)
             \<and> (case rq_created_by rq of None \<Rightarrow> True | Some u \<Rightarrow> 0 < u)
          then Inr \<lparr>gp_client_id = nat c, gp_invoice_month = m, gp_invoice_date = d,
                    gp_regenerate_draft = (case rq_regenerate_draft rq of None \<Rightarrow> 0 | Some r \<Rightarrow> nat r),
                    gp_created_by = map_option nat (rq_created_by rq)\<rparr>
          else Inl VALIDATION_ERROR
      | _ \<Rightarrow> Inl VALIDATION_ERROR)"

text \<open>Step 1 (lines 713-723): the latest live invoice of (client, month).\<close>

definition existing_invoice :: "nat \<Rightarrow> string \<Rightarrow> db \<Rightarrow> invoice option" where
  "existing_invoice clientId invoiceMonth s =
     first_desc inv_id
       (filter (\<lambda>i. inv_client_id i = clientId \<and> inv_invoice_month i = Some invoiceMonth
                     \<and> inv_deleted_at i = None) (invoices s))"

text \<open>Step 2 (lines 742-749): regeneration releases the draft's events and tombstones its
  items and the draft itself.\<close>

definition release_draft :: "timestamp \<Rightarrow> nat \<Rightarrow> db \<Rightarrow> db" where
  "release_draft now existingId s =
     s\<lparr>billing_events :=
         map (\<lambda>b. if be_invoice_id b = Some existingId \<and> be_deleted_at b = None
                   then b\<lparr>be_status := PENDING, be_invoice_id := None, be_fx_rate_thbkrw := None\<rparr>
                   else b) (billing_events s),
       invoice_items :=
         map (\<lambda>it. if ii_invoice_id it = existingId \<and> ii_deleted_at it = None
                    then it\<lparr>ii_deleted_at := Some now\<rparr> else it) (invoice_items s),
       invoices :=
         map (\<lambda>i. if inv_id i = existingId then i\<lparr>inv_deleted_at := Some now\<rparr> else i) (invoices s)\<rparr>"

definition date_le_literal :: "date \<Rightarrow> string \<Rightarrow> bool" where
  "date_le_literal d lit = (case parse_date lit of Some x \<Rightarrow> d \<le> x | None \<Rightarrow> False)"

text \<open>Step 3 (lines 752-764): the latest active THB/KRW rate on or before the invoice date.\<close>

definition select_fx_rate :: "string \<Rightarrow> db \<Rightarrow> exchange_rate option" where
  "select_fx_rate invoiceDate s =
     first_desc (\<lambda>r. (er_rate_date r, er_id r))
       (filter (\<lambda>r. er_base_currency r = ''THB'' \<and> er_quote_currency r = ''KRW''
                     \<and> er_deleted_at r = None \<and> er_status r = RateActive
                     \<and> date_le_literal (er_rate_date r) invoiceDate) (exchange_rates s))"

text \<open>Step 4 (line 776).\<close>

definition lock_rate :: "nat \<Rightarrow> db \<Rightarrow> db" where
  "lock_rate fxRateId s =
     s\<lparr>exchange_rates :=
         map (\<lambda>r. if er_id r = fxRateId then r\<lparr>er_locked := 1\<rparr> else r) (exchange_rates s)\<rparr>"

text \<open>Step 5 (lines 778-789): the client's live PENDING events of the month, by id.\<close>

definition pending_events :: "nat \<Rightarrow> string \<Rightarrow> db \<Rightarrow> billing_event list" where
  "pending_events clientId invoiceMonth s =
     sort_key be_id
       (filter (\<lambda>b. be_client_id b = clientId \<and> be_status b = PENDING \<and> be_deleted_at b = None
                     \<and> (case monthRange invoiceMonth of
                           Some r \<Rightarrow> in_window r (be_event_date b)
                         | None \<Rightarrow> False)) (billing_events s))"

text \<open>The description of an invoice item (lines 821-826 and 871): the catalogue name of the
  service code (a later catalogue row wins), or the code itself.\<close>

definition service_name_for :: "db \<Rightarrow> string \<Rightarrow> string" where
  "service_name_for s code =
     (case find (\<lambda>r. sc_service_code r = code) (rev (filter (\<lambda>r. sc_deleted_at r = None) (service_catalog s))) of
        None \<Rightarrow> code
      | Some r \<Rightarrow>
          (case (case sc_service_name r of Some n \<Rightarrow> Some n | None \<Rightarrow> sc_service_name_kr r) of
             None \<Rightarrow> code
           | Some n \<Rightarrow> if n = [] then code else n))"

text \<open>Step 8, the amount of one event in KRW (lines 830-843).\<close>

definition normalized_amount :: "rat \<Rightarrow> billing_event \<Rightarrow> rat" where
  "normalized_amount fx event =
     (if be_pricing_policy event = THB_BASED then
        (let amountThb = (case be_amount_thb event of
                            Some a \<Rightarrow> a
                          | None \<Rightarrow> num0 (be_unit_price_thb event) * num0 (be_qty event))
         in trunc100 (amountThb * fx))
      else
        (let amountKrw = (case be_amount_krw event of
                            Some a \<Rightarrow> a
                          | None \<Rightarrow> num0 (be_unit_price_krw event) * num0 (be_qty event))
         in trunc100 amountKrw))"

record group_agg =
  agg_qty :: rat
  agg_amount_krw :: rat

text \<open>The \<^verbatim>\<open>grouped\<close> map (lines 852-857): a JavaScript \<^verbatim>\<open>Map\<close> iterates in the order
  in which its keys were first set, so it is an association list.\<close>

fun grouped_add :: "string \<Rightarrow> rat \<Rightarrow> rat \<Rightarrow> (string \<times> group_agg) list \<Rightarrow> (string \<times> group_agg) list" where
  "grouped_add code q a [] = [(code, \<lparr>agg_qty = 0 + q, agg_amount_krw = 0 + a\<rparr>)]"
| "grouped_add code q a ((c, g) # rest) =
     (if c = code
      then (c, g\<lparr>agg_qty := agg_qty g + q, agg_amount_krw := agg_amount_krw g + a\<rparr>) # rest
      else (c, g) # grouped_add code q a rest)"

text \<open>The loop over the events (lines 829-858).\<close>

fun invoice_events ::
  "rat \<Rightarrow> nat \<Rightarrow> billing_event list \<Rightarrow> (string \<times> group_agg) list \<Rightarrow> db \<Rightarrow> (string \<times> group_agg) list \<times> db" where
  "invoice_events fx invoiceId [] grouped s = (grouped, s)"
| "invoice_events fx invoiceId (event # events) grouped s =
     (let normalizedAmount = normalized_amount fx event;
          s' = s\<lparr>billing_events :=
                 map (\<lambda>b. if be_id b = be_id event
                           then b\<lparr>be_amount_krw := Some normalizedAmount, be_fx_rate_thbkrw := Some fx,
                                  be_status := INVOICED, be_invoice_id := Some invoiceId\<rparr>
                           else b) (billing_events s)\<rparr>
      in invoice_events fx invoiceId events
           (grouped_add (be_service_code event) (num0 (be_qty event)) normalizedAmount grouped) s')"

text \<open>The loop over the groups (lines 860-873): one item per service code; the running
  subtotal is returned.\<close>

fun insert_items :: "nat \<Rightarrow> (string \<times> group_agg) list \<Rightarrow> rat \<Rightarrow> db \<Rightarrow> rat \<times> db" where
  "insert_items invoiceId [] subtotalKrw s = (subtotalKrw, s)"
| "insert_items invoiceId ((serviceCode, agg) # rest) subtotalKrw s =
     (let qty = agg_qty agg;
          lineAmount = trunc100 (agg_amount_krw agg);
          unitDisplay = (if qty > 0 then trunc100 (lineAmount / qty) else lineAmount);
          item = \<lparr>ii_id = fresh_id (map ii_id (invoice_items s)), ii_invoice_id = invoiceId,
                  ii_service_code = serviceCode, ii_description = service_name_for s serviceCode,
                  ii_qty = qty, ii_unit_price_krw = unitDisplay, ii_amount_krw = lineAmount,
                  ii_deleted_at = None\<rparr>
      in insert_items invoiceId rest (subtotalKrw + lineAmount)
           (s\<lparr>invoice_items := invoice_items s @ [item]\<rparr>))"

datatype generate_result = Reused nat | Generated "invoice option" nat nat

text \<open>The invoice row of the INSERT of lines 803-818: a draft with zero totals.\<close>

definition draft_invoice_row :: "nat \<Rightarrow> generate_payload \<Rightarrow> rat \<Rightarrow> string \<Rightarrow> nat \<Rightarrow> invoice" where
  "draft_invoice_row createdBy payload fx invoiceNo invoiceId =
     \<lparr>inv_id = invoiceId, inv_settlement_batch_id = None,
      inv_client_id = gp_client_id payload,
      inv_invoice_month = Some (gp_invoice_month payload), inv_invoice_no = invoiceNo,
      inv_status = Draft, inv_issue_date = gp_invoice_date payload,
      inv_invoice_date = Some (gp_invoice_date payload),
      inv_due_date = gp_invoice_date payload, inv_recipient_email = None,
      inv_currency = ''KRW'', inv_fx_rate_thbkrw = Some fx,
      inv_subtotal_krw = Some 0, inv_vat_krw = Some 0, inv_total_krw = Some 0,
      inv_total_amount = Some 0, inv_created_by = createdBy, inv_deleted_at = None\<rparr>"

text \<open>The synthetic VAT item of lines 879-884.\<close>

definition vat_item :: "nat \<Rightarrow> nat \<Rightarrow> rat \<Rightarrow> invoice_item" where
  "vat_item itemId invoiceId vatKrw =
     \<lparr>ii_id = itemId, ii_invoice_id = invoiceId, ii_service_code = ''VAT_7'',
      ii_description = ''VAT 7%'', ii_qty = 1, ii_unit_price_krw = vatKrw, ii_amount_krw = vatKrw,
      ii_deleted_at = None\<rparr>"

text \<open>The UPDATE of lines 886-891 on one invoice row.\<close>

definition set_totals :: "rat \<Rightarrow> rat \<Rightarrow> rat \<Rightarrow> invoice \<Rightarrow> invoice" where
  "set_totals subtotalKrw vatKrw totalKrw i =
     i\<lparr>inv_subtotal_krw := Some subtotalKrw, inv_vat_krw := Some vatKrw,
       inv_total_krw := Some totalKrw, inv_total_amount := Some totalKrw\<rparr>"

text \<open>Steps 6 to 10 (lines 799-909): number, invoice row, events, items, VAT line, totals.
  The result carries the invoice row read back, the number of events and the id of the
  rate.\<close>

definition create_invoice ::
  "nat \<Rightarrow> generate_payload \<Rightarrow> exchange_rate \<Rightarrow> billing_event list \<Rightarrow> db \<Rightarrow> generate_result \<times> db" where
  "create_invoice createdBy payload fxRow events s =
     (let fx = er_rate fxRow;
          yyyymm = remove_first CHR ''-'' (gp_invoice_month payload);
          (nextSeq, s1) = resolveInvoiceSequence (gp_client_id payload) yyyymm s;
          invoiceNo = ''KRW-'' @ js_String (gp_client_id payload) @ ''-'' @ yyyymm @ ''-''
                        @ padStart 4 CHR ''0'' (js_String nextSeq);
          invoiceId = fresh_id (map inv_id (invoices s1));
          s2 = s1\<lparr>invoices := invoices s1 @ [draft_invoice_row createdBy payload fx invoiceNo invoiceId]\<rparr>;
          (grouped, s3) = invoice_events fx invoiceId events [] s2;
          (itemSum, s4) = insert_items invoiceId grouped 0 s3;
          subtotalKrw = trunc100 itemSum;
          vatKrw = trunc100 (subtotalKrw * (7 / 100));
          totalKrw = trunc100 (subtotalKrw + vatKrw);
          s5 = s4\<lparr>invoice_items := invoice_items s4 @
                 [vat_item (fresh_id (map ii_id (invoice_items s4))) invoiceId vatKrw]\<rparr>;
          s6 = s5\<lparr>invoices :=
                 map (\<lambda>i. if inv_id i = invoiceId then set_totals subtotalKrw vatKrw totalKrw i else i)
                   (invoices s5)\<rparr>
      in (Generated (find (\<lambda>i. inv_id i = invoiceId) (invoices s6)) (length events) (er_id fxRow), s6))"

text \<open>Steps 3 to 10: what the handler does once no live invoice stands in the way.\<close>

definition generate_fresh :: "nat \<Rightarrow> generate_payload \<Rightarrow> db \<Rightarrow> (error_code + generate_result) \<times> db" where
  "generate_fresh createdBy payload s =
     (case select_fx_rate (gp_invoice_date payload) s of
        None \<Rightarrow> (Inl FX_NOT_FOUND, s)
      | Some fxRow \<Rightarrow>
          (let s1 = lock_rate (er_id fxRow) s;
               events = pending_events (gp_client_id payload) (gp_invoice_month payload) s1
           in if events = [] then (Inl NO_PENDING_EVENTS, s1)
              else (case create_invoice createdBy payload fxRow events s1 of
                      (r, s2) \<Rightarrow> (Inr r, s2))))"

text \<open>The callback that the handler passes to \<^verbatim>\<open>withTransaction\<close> (lines 708-910). A
  failure is a returned \<^verbatim>\<open>{ok: false, code}\<close>, here \<^const>\<open>Inl\<close>; the second component
  is the database as the callback has written it when it returns.\<close>

definition generate_body ::
  "timestamp \<Rightarrow> int option \<Rightarrow> generate_payload \<Rightarrow> db \<Rightarrow> (error_code + generate_result) \<times> db" where
  "generate_body now user_sub payload s =
     (let createdBy = parseCreator user_sub (gp_created_by payload)
      in case existing_invoice (gp_client_id payload) (gp_invoice_month payload) s of
           Some existing \<Rightarrow>
             if inv_status existing \<noteq> Draft then (Inl INVOICE_ALREADY_ISSUED, s)
             else if gp_regenerate_draft payload = 0 then (Inr (Reused (inv_id existing)), s)
             else generate_fresh createdBy payload (release_draft now (inv_id existing) s)
         | None \<Rightarrow> generate_fresh createdBy payload s)"

text \<open>The route: schema validation, then the callback inside the transaction.\<close>

definition POST_billing_invoices_generate ::
  "timestamp \<Rightarrow> int option \<Rightarrow> generate_request \<Rightarrow> db \<Rightarrow> (error_code + generate_result) \<times> db" where
  "POST_billing_invoices_generate now user_sub rq s =
     (case validate_generateInvoiceSchema rq of
        Inl e \<Rightarrow> (Inl e, s)
      | Inr payload \<Rightarrow> withTransaction (generate_body now user_sub payload) s)"

text \<open>The id a successful generation reports: of the reused draft or of the new invoice.\<close>

definition result_invoice_id :: "generate_result \<Rightarrow> nat option" where
  "result_invoice_id r =
     (case r of Reused i \<Rightarrow> Some i | Generated row _ _ \<Rightarrow> map_option inv_id row)"




section \<open>Issuing a generated invoice: POST /billing/invoices/:id/issue\<close>

text \<open>The callback of lines 920-932. The request carries the invoice id and nothing
  else.\<close>

definition billing_issue_body :: "nat \<Rightarrow> db \<Rightarrow> (error_code + nat \<times> invoice_status) \<times> db" where
  "billing_issue_body invoiceId s =
     (case find (\<lambda>i. inv_id i = invoiceId \<and> inv_deleted_at i = None) (invoices s) of
        None \<Rightarrow> (Inl NOT_FOUND, s)
      | Some row \<Rightarrow>
          if inv_status row \<noteq> Draft then (Inl INVALID_STATUS, s)
          else (Inr (invoiceId, Issued),
                s\<lparr>invoices := map (\<lambda>i. if inv_id i = invoiceId then i\<lparr>inv_status := Issued\<rparr> else i)
                                 (invoices s)\<rparr>))"

section \<open>Duplicating an issued invoice: POST /billing/invoices/:id/duplicate-admin\<close>

text \<open>The loop of the INSERT ... SELECT of lines 1002-1008: the live items of the source are
  copied to the new invoice.\<close>

fun copy_items :: "nat \<Rightarrow> invoice_item list \<Rightarrow> db \<Rightarrow> db" where
  "copy_items newInvoiceId [] s = s"
| "copy_items newInvoiceId (it # rest) s =
     copy_items newInvoiceId rest
       (s\<lparr>invoice_items := invoice_items s @
            [it\<lparr>ii_id := fresh_id (map ii_id (invoice_items s)), ii_invoice_id := newInvoiceId,
                ii_deleted_at := None\<rparr>]\<rparr>)"

text \<open>The callback of lines 966-1018. The source must not be a draft; the copy is a draft of
  the same client and month with a number of its own. (\<^verbatim>\<open>String(invoice_month)\<close> of a
  null month is the text \<^verbatim>\<open>null\<close>.)\<close>

definition duplicate_admin_body :: "nat \<Rightarrow> db \<Rightarrow> (error_code + invoice option) \<times> db" where
  "duplicate_admin_body sourceInvoiceId s =
     (case find (\<lambda>i. inv_id i = sourceInvoiceId \<and> inv_deleted_at i = None) (invoices s) of
        None \<Rightarrow> (Inl NOT_FOUND, s)
      | Some source \<Rightarrow>
          if inv_status source = Draft then (Inl INVALID_STATUS, s)
          else
            (let yyyymm = remove_first CHR ''-''
                            (case inv_invoice_month source of Some m \<Rightarrow> m | None \<Rightarrow> ''null'');
                 (nextSeq, s1) = resolveInvoiceSequence (inv_client_id source) yyyymm s;
                 newInvoiceNo = ''KRW-'' @ js_String (inv_client_id source) @ ''-'' @ yyyymm @ ''-''
                                  @ padStart 4 CHR ''0'' (js_String nextSeq);
                 newInvoiceId = fresh_id (map inv_id (invoices s1));
                 s2 = s1\<lparr>invoices := invoices s1 @
                        [source\<lparr>inv_id := newInvoiceId, inv_settlement_batch_id := None,
                                inv_invoice_no := newInvoiceNo, inv_status := Draft,
                                inv_currency := ''KRW'', inv_total_amount := inv_total_krw source,
                                inv_deleted_at := None\<rparr>]\<rparr>;
                 s3 = copy_items newInvoiceId
                        (filter (\<lambda>it. ii_invoice_id it = sourceInvoiceId \<and> ii_deleted_at it = None)
                           (invoice_items s2)) s2
             in (Inr (find (\<lambda>i. inv_id i = newInvoiceId) (invoices s3)), s3)))"

section \<open>Exchange rates: PUT and DELETE /billing/settings/exchange-rates/:id\<close>

text \<open>\<^verbatim>\<open>getExchangeRateUsageCount\<close> (lines 49-60): the live invoices of a billing month
  whose stored rate equals the rate of the row with the given id.\<close>

definition getExchangeRateUsageCount :: "db \<Rightarrow> nat \<Rightarrow> nat" where
  "getExchangeRateUsageCount s exchangeRateId =
     length (concat (map (\<lambda>i. filter (\<lambda>er. er_id er = exchangeRateId \<and> inv_deleted_at i = None
                                          \<and> inv_invoice_month i \<noteq> None
                                          \<and> inv_fx_rate_thbkrw i = Some (er_rate er))
                                (exchange_rates s))
                         (invoices s)))"

record exchange_rate_payload =
  erp_rate_date :: date
  erp_rate :: rat
  erp_source :: string
  erp_locked :: nat
  erp_status :: rate_status

text \<open>The PUT handler (lines 451-497) on a payload that has passed the schema. The unique
  key on the rate date is declared in the database schema, which is not among the sources:
  \<open>dup_entry\<close> tells whether the update would violate it.\<close>

definition PUT_exchange_rate ::
  "(db \<Rightarrow> nat \<Rightarrow> exchange_rate_payload \<Rightarrow> bool) \<Rightarrow> string option \<Rightarrow> nat \<Rightarrow> exchange_rate_payload \<Rightarrow> db
     \<Rightarrow> (error_code + exchange_rate option) \<times> db" where
  "PUT_exchange_rate dup_entry role rateId payload s =
     (if \<not> requireAdmin role then (Inl ADMIN_ONLY, s)
      else case find (\<lambda>r. er_id r = rateId \<and> er_deleted_at r = None) (exchange_rates s) of
             None \<Rightarrow> (Inl NOT_FOUND, s)
           | Some row \<Rightarrow>
               (let usedCount = getExchangeRateUsageCount s rateId
                in if er_locked row = 1 \<or> usedCount > 0 then (Inl EXCHANGE_RATE_LOCKED, s)
                   else if dup_entry s rateId payload then (Inl DUPLICATE_ENTRY, s)
                   else
                     (let s' = s\<lparr>exchange_rates :=
                                 map (\<lambda>r. if er_id r = rateId \<and> er_deleted_at r = None
                                           then r\<lparr>er_rate_date := erp_rate_date payload,
                                                  er_rate := erp_rate payload,
                                                  er_source := erp_source payload,
                                                  er_locked := erp_locked payload,
                                                  er_status := erp_status payload\<rparr>
                                           else r) (exchange_rates s)\<rparr>
                      in (Inr (find (\<lambda>r. er_id r = rateId \<and> er_deleted_at r = None) (exchange_rates s')),
                          s'))))"

text \<open>The DELETE handler (lines 499-524).\<close>

definition DELETE_exchange_rate ::
  "timestamp \<Rightarrow> string option \<Rightarrow> nat \<Rightarrow> db \<Rightarrow> (error_code + unit) \<times> db" where
  "DELETE_exchange_rate now role rateId s =
     (if \<not> requireAdmin role then (Inl ADMIN_ONLY, s)
      else case find (\<lambda>r. er_id r = rateId \<and> er_deleted_at r = None) (exchange_rates s) of
             None \<Rightarrow> (Inl NOT_FOUND, s)
           | Some row \<Rightarrow>
               (let usedCount = getExchangeRateUsageCount s rateId
                in if er_locked row = 1 \<or> usedCount > 0 then (Inl EXCHANGE_RATE_LOCKED, s)
                   else (Inr (),
                         s\<lparr>exchange_rates :=
                             map (\<lambda>r. if er_id r = rateId \<and> er_deleted_at r = None
                                       then r\<lparr>er_deleted_at := Some now\<rparr> else r) (exchange_rates s)\<rparr>)))"

text \<open>Some live invoice stores exactly this rate value as its THB/KRW rate.\<close>

definition rate_referenced :: "db \<Rightarrow> rat \<Rightarrow> bool" where
  "rate_referenced s rate =
     list_ex (\<lambda>i. inv_deleted_at i = None \<and> inv_fx_rate_thbkrw i = Some rate) (invoices s)"

text \<open>What every insertion into \<^verbatim>\<open>invoices\<close> keeps: a stored rate comes with a billing
  month (the settlement path stores neither).\<close>

definition fx_implies_month :: "db \<Rightarrow> bool" where
  "fx_implies_month s =
     list_all (\<lambda>i. inv_fx_rate_thbkrw i \<noteq> None \<longrightarrow> inv_invoice_month i \<noteq> None) (invoices s)"

section \<open>Releasing events: POST /billing/events/mark-pending\<close>

text \<open>The rows of the locking query (lines 595-602): each live event with one of the ids,
  left-joined with the live invoice it is linked to.\<close>

definition mark_pending_rows :: "nat list \<Rightarrow> db \<Rightarrow> (billing_event \<times> invoice_status option) list" where
  "mark_pending_rows ids s =
     concat (map (\<lambda>b. case filter (\<lambda>i. be_invoice_id b = Some (inv_id i) \<and> inv_deleted_at i = None)
                               (invoices s) of
                         [] \<Rightarrow> [(b, None)]
                       | js \<Rightarrow> map (\<lambda>i. (b, Some (inv_status i))) js)
                 (filter (\<lambda>b. be_id b \<in> set ids \<and> be_deleted_at b = None) (billing_events s)))"

text \<open>The callback of lines 592-625; on success it reports the number of rows found.\<close>

definition mark_pending_body :: "nat list \<Rightarrow> db \<Rightarrow> (error_code + nat) \<times> db" where
  "mark_pending_body ids s =
     (let rows = mark_pending_rows ids s
      in if rows = [] then (Inl EVENTS_NOT_FOUND, s)
         else
           (let blocked = filter (\<lambda>r. snd r = Some Issued \<or> snd r = Some Paid) rows
            in if blocked \<noteq> [] then (Inl EVENTS_LOCKED, s)
               else (Inr (length rows),
                     s\<lparr>billing_events :=
                         map (\<lambda>b. if be_id b \<in> set ids \<and> be_deleted_at b = None
                                   then b\<lparr>be_status := PENDING, be_invoice_id := None,
                                          be_fx_rate_thbkrw := None\<rparr>
                                   else b) (billing_events s)\<rparr>)))"

definition POST_billing_events_mark_pending ::
  "string option \<Rightarrow> nat list \<Rightarrow> db \<Rightarrow> (error_code + nat) \<times> db" where
  "POST_billing_events_mark_pending role ids s =
     (if ids = [] \<or> 0 \<in> set ids then (Inl VALIDATION_ERROR, s)
      else if \<not> requireAdmin role then (Inl ADMIN_ONLY, s)
      else withTransaction (mark_pending_body ids) s)"

text \<open>An event is linked to a live invoice that is issued or paid.\<close>

definition linked_to_issued_or_paid :: "db \<Rightarrow> billing_event \<Rightarrow> bool" where
  "linked_to_issued_or_paid s b =
     list_ex (\<lambda>i. be_invoice_id b = Some (inv_id i) \<and> inv_deleted_at i = None
                  \<and> (inv_status i = Issued \<or> inv_status i = Paid)) (invoices s)"

section \<open>Price resolution and outbound service events (services/billing.js)\<close>

record policy_row =
  pr_id :: nat
  pr_service_id :: nat
  pr_unit_price :: rat
  pr_currency :: string
  pr_billing_basis :: string

text \<open>The condition of \<^verbatim>\<open>resolveActivePricePolicy\<close> on a policy joined with its service
  (lines 6-12).\<close>

definition policy_active_on :: "nat \<Rightarrow> date \<Rightarrow> price_policy \<times> service_catalog_row \<Rightarrow> bool" where
  "policy_active_on clientId orderDate j =
     (case j of (pp, sc) \<Rightarrow>
        sc_id sc = pp_service_id pp
        \<and> pp_client_id pp = clientId \<and> pp_status pp = Active \<and> pp_deleted_at pp = None
        \<and> sc_status sc = Active \<and> sc_deleted_at sc = None
        \<and> pp_effective_from pp \<le> orderDate
        \<and> (case pp_effective_to pp of None \<Rightarrow> True | Some t \<Rightarrow> orderDate \<le> t))"

definition policy_candidates :: "db \<Rightarrow> nat \<Rightarrow> date \<Rightarrow> (price_policy \<times> service_catalog_row) list" where
  "policy_candidates s clientId orderDate =
     filter (policy_active_on clientId orderDate)
       (concat (map (\<lambda>pp. map (\<lambda>sc. (pp, sc)) (service_catalog s)) (price_policies s)))"

text \<open>\<^verbatim>\<open>resolveActivePricePolicy\<close> (lines 1-18).\<close>

definition resolveActivePricePolicy :: "db \<Rightarrow> nat \<Rightarrow> date \<Rightarrow> policy_row option" where
  "resolveActivePricePolicy s clientId orderDate =
     map_option (\<lambda>j. case j of (pp, sc) \<Rightarrow>
                   \<lparr>pr_id = pp_id pp, pr_service_id = pp_service_id pp, pr_unit_price = pp_unit_price pp,
                    pr_currency = pp_currency pp, pr_billing_basis = sc_billing_basis sc\<rparr>)
       (first_desc (\<lambda>j. (pp_effective_from (fst j), pp_id (fst j))) (policy_candidates s clientId orderDate))"

text \<open>\<^verbatim>\<open>calcAmountByBasis\<close> (lines 20-28), the basis units.\<close>

definition calcAmountByBasis :: "string \<Rightarrow> rat \<Rightarrow> rat \<Rightarrow> rat" where
  "calcAmountByBasis basis qty boxCount =
     (if basis = ''QTY'' then qty
      else if basis = ''BOX'' then boxCount
      else if basis = ''ORDER'' then 1
      else 0)"

text \<open>\<^verbatim>\<open>Number(x.toFixed(4))\<close>: to four decimals, halves away from zero.\<close>

definition toFixed4 :: "rat \<Rightarrow> rat" where
  "toFixed4 x =
     (if 0 \<le> x then of_int \<lfloor>x * 10000 + 1 / 2\<rfloor> / 10000
      else - (of_int \<lfloor>- x * 10000 + 1 / 2\<rfloor> / 10000))"

record outbound_event_params =
  oe_clientId :: nat
  oe_outboundOrderId :: nat
  oe_stockTransactionId :: nat
  oe_orderDate :: date
  oe_qty :: rat
  oe_boxCount :: rat
  oe_remark :: "string option"

definition or_null :: "string option \<Rightarrow> string option" where
  "or_null v = (case v of Some [] \<Rightarrow> None | _ \<Rightarrow> v)"

text \<open>\<^verbatim>\<open>upsertOutboundServiceEvent\<close> (lines 30-104): returns \<^verbatim>\<open>null\<close> without a write
  when no policy is active, else the id of the inserted or updated event.\<close>

definition upsertOutboundServiceEvent :: "timestamp \<Rightarrow> outbound_event_params \<Rightarrow> db \<Rightarrow> nat option \<times> db" where
  "upsertOutboundServiceEvent now params s =
     (case resolveActivePricePolicy s (oe_clientId params) (oe_orderDate params) of
        None \<Rightarrow> (None, s)
      | Some policy \<Rightarrow>
          (let basisUnits = calcAmountByBasis (pr_billing_basis policy) (oe_qty params) (oe_boxCount params);
               unitPrice = pr_unit_price policy;
               amount = toFixed4 (unitPrice * basisUnits)
           in case find (\<lambda>e. se_source_type e = ''outbound_shipped''
                              \<and> se_stock_transaction_id e = oe_stockTransactionId params) (service_events s) of
                None \<Rightarrow>
                  (let newId = fresh_id (map se_id (service_events s))
                   in (Some newId,
                       s\<lparr>service_events := service_events s @
                           [\<lparr>se_id = newId, se_client_id = oe_clientId params,
                             se_service_id = pr_service_id policy,
                             se_outbound_order_id = oe_outboundOrderId params,
                             se_stock_transaction_id = oe_stockTransactionId params,
                             se_event_date = now, se_source_type = ''outbound_shipped'',
                             se_basis_applied = pr_billing_basis policy, se_qty = oe_qty params,
                             se_box_count = oe_boxCount params, se_unit_price = unitPrice,
                             se_amount = amount, se_currency = pr_currency policy,
                             se_remark = or_null (oe_remark params), se_deleted_at = None\<rparr>]\<rparr>))
              | Some existing \<Rightarrow>
                  (Some (se_id existing),
                   s\<lparr>service_events :=
                       map (\<lambda>e. if se_id e = se_id existing
                                 then e\<lparr>se_client_id := oe_clientId params,
                                        se_service_id := pr_service_id policy,
                                        se_outbound_order_id := oe_outboundOrderId params,
                                        se_event_date := now,
                                        se_basis_applied := pr_billing_basis policy,
                                        se_qty := oe_qty params, se_box_count := oe_boxCount params,
                                        se_unit_price := unitPrice, se_amount := amount,
                                        se_currency := pr_currency policy,
                                        se_remark := or_null (oe_remark params),
                                        se_deleted_at := None\<rparr>
                                 else e) (service_events s)\<rparr>)))"


section \<open>The settlement module: issuing an invoice from a batch\<close>

record issue_request =
  iq_settlement_batch_id :: "int option"
  iq_issue_date :: "string option"
  iq_due_date :: "string option"
  iq_recipient_email :: "string option"
  iq_created_by :: "int option"

record issue_payload =
  ip_settlement_batch_id :: nat
  ip_issue_date :: string
  ip_due_date :: string
  ip_recipient_email :: "string option"
  ip_created_by :: nat

text \<open>\<^verbatim>\<open>issueInvoiceSchema\<close> (lines 1148-1154); \<open>is_email\<close> is the validation library's
  e-mail pattern.\<close>

definition validate_issueInvoiceSchema :: "(string \<Rightarrow> bool) \<Rightarrow> issue_request \<Rightarrow> error_code + issue_payload" where
  "validate_issueInvoiceSchema is_email rq =
     (case (iq_settlement_batch_id rq, iq_issue_date rq, iq_due_date rq, iq_created_by rq) of
        (Some b, Some i, Some d, Some c) \<Rightarrow>
          if 0 < b \<and> date_regex i \<and> date_regex d \<and> 0 < c
             \<and> (case iq_recipient_email rq of None \<Rightarrow> True | Some e \<Rightarrow> is_email e)
          then Inr \<lparr>ip_settlement_batch_id = nat b, ip_issue_date = i, ip_due_date = d,
                    ip_recipient_email = iq_recipient_email rq, ip_created_by = nat c\<rparr>
          else Inl VALIDATION_ERROR
      | _ \<Rightarrow> Inl VALIDATION_ERROR)"

text \<open>The loop of lines 1442-1462: every settlement line becomes an invoice line.\<close>

fun copy_lines :: "nat \<Rightarrow> settlement_line list \<Rightarrow> db \<Rightarrow> db" where
  "copy_lines invoiceId [] s = s"
| "copy_lines invoiceId (line # rest) s =
     copy_lines invoiceId rest
       (s\<lparr>invoice_lines := invoice_lines s @
            [\<lparr>il_id = fresh_id (map il_id (invoice_lines s)), il_invoice_id = invoiceId,
              il_settlement_line_id = sl_id line, il_service_id = sl_service_id line,
              il_line_type = sl_line_type line, il_description = sl_description line,
              il_qty = sl_qty line, il_unit = sl_basis line, il_currency = sl_currency line,
              il_unit_price = sl_unit_price line, il_amount = sl_amount line,
              il_extra_amount = sl_extra_amount line, il_total_amount = sl_total_amount line\<rparr>]\<rparr>)"

datatype issue_result = IssueReused invoice | IssueCreated "invoice option" nat

text \<open>The callback of POST /invoices/issue (lines 1356-1479). The sequence number comes from
  the handler's own copy of the counter code (lines 1389-1413).\<close>

definition issue_from_batch_body :: "issue_payload \<Rightarrow> db \<Rightarrow> (error_code + issue_result) \<times> db" where
  "issue_from_batch_body payload s =
     (case find (\<lambda>b. sb_id b = ip_settlement_batch_id payload \<and> sb_deleted_at b = None)
             (settlement_batches s) of
        None \<Rightarrow> (Inl BATCH_NOT_FOUND, s)
      | Some batch \<Rightarrow>
          (case find (\<lambda>i. inv_settlement_batch_id i = Some (sb_id batch) \<and> inv_deleted_at i = None)
                  (invoices s) of
             Some existingInvoice \<Rightarrow> (Inr (IssueReused existingInvoice), s)
           | None \<Rightarrow>
               (let yyyymm = remove_first CHR ''-'' (sb_billing_month batch);
                    seqRows = find (\<lambda>q. seq_client_id q = sb_client_id batch \<and> seq_yyyymm q = yyyymm
                                         \<and> seq_deleted_at q = None) (invoice_sequences s);
                    nextSeq = (case seqRows of None \<Rightarrow> 1 | Some row \<Rightarrow> seq_last_seq row + 1);
                    s1 = (case seqRows of
                            None \<Rightarrow>
                              s\<lparr>invoice_sequences := invoice_sequences s @
                                  [\<lparr>seq_id = fresh_id (map seq_id (invoice_sequences s)),
                                    seq_client_id = sb_client_id batch, seq_yyyymm = yyyymm,
                                    seq_last_seq = nextSeq, seq_deleted_at = None\<rparr>]\<rparr>
                          | Some row \<Rightarrow>
                              s\<lparr>invoice_sequences :=
                                  map (\<lambda>q. if seq_id q = seq_id row then q\<lparr>seq_last_seq := nextSeq\<rparr> else q)
                                    (invoice_sequences s)\<rparr>);
                    invoiceNo = ''INV-'' @ js_String (sb_client_id batch) @ ''-'' @ yyyymm @ ''-''
                                  @ padStart 4 CHR ''0'' (js_String nextSeq);
                    invoiceId = fresh_id (map inv_id (invoices s1));
                    s2 = s1\<lparr>invoices := invoices s1 @
                           [\<lparr>inv_id = invoiceId, inv_settlement_batch_id = Some (sb_id batch),
                             inv_client_id = sb_client_id batch, inv_invoice_month = None,
                             inv_invoice_no = invoiceNo, inv_status = Issued,
                             inv_issue_date = ip_issue_date payload, inv_invoice_date = None,
                             inv_due_date = ip_due_date payload,
                             inv_recipient_email = or_null (ip_recipient_email payload),
                             inv_currency = ''KRW'', inv_fx_rate_thbkrw = None,
                             inv_subtotal_krw = None, inv_vat_krw = None, inv_total_krw = None,
                             inv_total_amount = sb_total_krw batch,
                             inv_created_by = ip_created_by payload, inv_deleted_at = None\<rparr>]\<rparr>;
                    settlementLines = sort_key sl_id
                      (filter (\<lambda>l. sl_settlement_batch_id l = sb_id batch \<and> sl_deleted_at l = None)
                         (settlement_lines s2));
                    s3 = copy_lines invoiceId settlementLines s2
                in (Inr (IssueCreated (find (\<lambda>i. inv_id i = invoiceId) (invoices s3))
                           (length settlementLines)), s3))))"

definition POST_invoices_issue ::
  "(string \<Rightarrow> bool) \<Rightarrow> issue_request \<Rightarrow> db \<Rightarrow> (error_code + issue_result) \<times> db" where
  "POST_invoices_issue is_email rq s =
     (case validate_issueInvoiceSchema is_email rq of
        Inl e \<Rightarrow> (Inl e, s)
      | Inr payload \<Rightarrow> withTransaction (issue_from_batch_body payload) s)"

section \<open>The settlement module: close and reopen\<close>

record close_request =
  cq_closed_by :: "int option"
  cq_reason :: "string option"

record close_payload =
  cp_closed_by :: nat
  cp_reason :: "string option"

text \<open>\<^verbatim>\<open>closeBatchSchema\<close> (lines 1156-1159).\<close>

definition validate_closeBatchSchema :: "close_request \<Rightarrow> error_code + close_payload" where
  "validate_closeBatchSchema rq =
     (case cq_closed_by rq of
        Some c \<Rightarrow>
          if 0 < c \<and> (case cq_reason rq of None \<Rightarrow> True | Some r \<Rightarrow> length r \<le> 2000)
          then Inr \<lparr>cp_closed_by = nat c, cp_reason = cq_reason rq\<rparr>
          else Inl VALIDATION_ERROR
      | None \<Rightarrow> Inl VALIDATION_ERROR)"

record reopen_request_request =
  rrq_requested_by :: "int option"
  rrq_reason :: "string option"

record reopen_request_payload =
  rrp_requested_by :: nat
  rrp_reason :: string

text \<open>\<^verbatim>\<open>reopenRequestSchema\<close> (lines 1161-1164).\<close>

definition validate_reopenRequestSchema :: "reopen_request_request \<Rightarrow> error_code + reopen_request_payload" where
  "validate_reopenRequestSchema rq =
     (case (rrq_requested_by rq, rrq_reason rq) of
        (Some c, Some r) \<Rightarrow>
          if 0 < c \<and> 1 \<le> length r \<and> length r \<le> 2000
          then Inr \<lparr>rrp_requested_by = nat c, rrp_reason = r\<rparr>
          else Inl VALIDATION_ERROR
      | _ \<Rightarrow> Inl VALIDATION_ERROR)"

record decision_request =
  dq_approved_by :: "int option"
  dq_reason :: "string option"

record decision_payload =
  dp_approved_by :: nat
  dp_reason :: "string option"

text \<open>\<^verbatim>\<open>reopenDecisionSchema\<close> (lines 1166-1169).\<close>

definition validate_reopenDecisionSchema :: "decision_request \<Rightarrow> error_code + decision_payload" where
  "validate_reopenDecisionSchema rq =
     (case dq_approved_by rq of
        Some c \<Rightarrow>
          if 0 < c \<and> (case dq_reason rq of None \<Rightarrow> True | Some r \<Rightarrow> length r \<le> 2000)
          then Inr \<lparr>dp_approved_by = nat c, dp_reason = dq_reason rq\<rparr>
          else Inl VALIDATION_ERROR
      | None \<Rightarrow> Inl VALIDATION_ERROR)"

text \<open>The callback of POST /settlement-batches/:id/close (lines 1527-1585).\<close>

definition close_body ::
  "timestamp \<Rightarrow> nat \<Rightarrow> close_payload \<Rightarrow> db \<Rightarrow> (error_code + settlement_batch option) \<times> db" where
  "close_body now batchId payload s =
     (case find (\<lambda>b. sb_id b = batchId \<and> sb_deleted_at b = None) (settlement_batches s) of
        None \<Rightarrow> (Inl BATCH_NOT_FOUND, s)
      | Some row \<Rightarrow>
          if sb_status row = Closed then (Inl ALREADY_CLOSED, s)
          else if \<not> (sb_status row = Reviewed \<or> sb_status row = Open) then (Inl INVALID_STATUS, s)
          else
            (let s1 = s\<lparr>settlement_batches :=
                        map (\<lambda>b. if sb_id b = batchId
                                  then b\<lparr>sb_status := Closed, sb_closed_at := Some now,
                                         sb_closed_by := Some (cp_closed_by payload)\<rparr>
                                  else b) (settlement_batches s)\<rparr>;
                 s2 = s1\<lparr>settlement_reopen_logs := settlement_reopen_logs s1 @
                        [\<lparr>rl_id = fresh_id (map rl_id (settlement_reopen_logs s1)),
                          rl_settlement_batch_id = batchId, rl_request_id = None,
                          rl_actor_id = cp_closed_by payload, rl_action = ''close'',
                          rl_reason = or_null (cp_reason payload), rl_acted_at = now\<rparr>]\<rparr>
             in (Inr (find (\<lambda>b. sb_id b = batchId) (settlement_batches s2)), s2)))"

text \<open>The callback of POST /settlement-batches/:id/reopen-requests (lines 1602-1659).\<close>

definition reopen_request_body ::
  "nat \<Rightarrow> reopen_request_payload \<Rightarrow> db \<Rightarrow> (error_code + reopen_request option) \<times> db" where
  "reopen_request_body batchId payload s =
     (case find (\<lambda>b. sb_id b = batchId \<and> sb_deleted_at b = None) (settlement_batches s) of
        None \<Rightarrow> (Inl BATCH_NOT_FOUND, s)
      | Some row \<Rightarrow>
          if sb_status row \<noteq> Closed then (Inl INVALID_STATUS, s)
          else
            (case find (\<lambda>r. rr_settlement_batch_id r = batchId \<and> rr_status r = Requested
                            \<and> rr_deleted_at r = None) (settlement_reopen_requests s) of
               Some pending \<Rightarrow> (Inl REQUEST_EXISTS, s)
             | None \<Rightarrow>
                 (let newId = fresh_id (map rr_id (settlement_reopen_requests s));
                      s1 = s\<lparr>settlement_reopen_requests := settlement_reopen_requests s @
                             [\<lparr>rr_id = newId, rr_settlement_batch_id = batchId,
                               rr_requested_by = rrp_requested_by payload,
                               rr_reason = rrp_reason payload, rr_status = Requested,
                               rr_approved_by = None, rr_approved_at = None, rr_deleted_at = None\<rparr>]\<rparr>
                  in (Inr (find (\<lambda>r. rr_id r = newId) (settlement_reopen_requests s1)), s1))))"

text \<open>\<^verbatim>\<open>payload.reason || reqRows[0].reason || null\<close> (line 1741).\<close>

definition decision_reason :: "string option \<Rightarrow> string \<Rightarrow> string option" where
  "decision_reason payloadReason requestReason =
     (case or_null payloadReason of
        Some r \<Rightarrow> Some r
      | None \<Rightarrow> or_null (Some requestReason))"

text \<open>The callback of POST /settlement-reopen-requests/:id/approve (lines 1691-1752).\<close>

definition approve_body ::
  "timestamp \<Rightarrow> nat \<Rightarrow> decision_payload \<Rightarrow> db \<Rightarrow> (error_code + reopen_request option) \<times> db" where
  "approve_body now requestId payload s =
     (case find (\<lambda>r. rr_id r = requestId \<and> rr_deleted_at r = None) (settlement_reopen_requests s) of
        None \<Rightarrow> (Inl REQUEST_NOT_FOUND, s)
      | Some rq \<Rightarrow>
          if rr_status rq \<noteq> Requested then (Inl INVALID_STATUS, s)
          else
            (let s1 = s\<lparr>settlement_reopen_requests :=
                        map (\<lambda>r. if rr_id r = requestId
                                  then r\<lparr>rr_status := Approved,
                                         rr_approved_by := Some (dp_approved_by payload),
                                         rr_approved_at := Some now\<rparr>
                                  else r) (settlement_reopen_requests s)\<rparr>;
                 s2 = s1\<lparr>settlement_batches :=
                        map (\<lambda>b. if sb_id b = rr_settlement_batch_id rq
                                  then b\<lparr>sb_status := Reviewed, sb_closed_at := None, sb_closed_by := None\<rparr>
                                  else b) (settlement_batches s1)\<rparr>;
                 s3 = s2\<lparr>settlement_reopen_logs := settlement_reopen_logs s2 @
                        [\<lparr>rl_id = fresh_id (map rl_id (settlement_reopen_logs s2)),
                          rl_settlement_batch_id = rr_settlement_batch_id rq,
                          rl_request_id = Some requestId, rl_actor_id = dp_approved_by payload,
                          rl_action = ''reopen'',
                          rl_reason = decision_reason (dp_reason payload) (rr_reason rq),
                          rl_acted_at = now\<rparr>]\<rparr>
             in (Inr (find (\<lambda>r. rr_id r = requestId) (settlement_reopen_requests s3)), s3)))"

text \<open>The callback of POST /settlement-reopen-requests/:id/reject (lines 1769-1811).\<close>

definition reject_body ::
  "timestamp \<Rightarrow> nat \<Rightarrow> decision_payload \<Rightarrow> db \<Rightarrow> (error_code + reopen_request option) \<times> db" where
  "reject_body now requestId payload s =
     (case find (\<lambda>r. rr_id r = requestId \<and> rr_deleted_at r = None) (settlement_reopen_requests s) of
        None \<Rightarrow> (Inl REQUEST_NOT_FOUND, s)
      | Some rq \<Rightarrow>
          if rr_status rq \<noteq> Requested then (Inl INVALID_STATUS, s)
          else
            (let s1 = s\<lparr>settlement_reopen_requests :=
                        map (\<lambda>r. if rr_id r = requestId
                                  then r\<lparr>rr_status := Rejected,
                                         rr_approved_by := Some (dp_approved_by payload),
                                         rr_approved_at := Some now\<rparr>
                                  else r) (settlement_reopen_requests s)\<rparr>
             in (Inr (find (\<lambda>r. rr_id r = requestId) (settlement_reopen_requests s1)), s1)))"

text \<open>The four routes: schema validation, then the callback inside the transaction.\<close>

definition POST_settlement_batches_close ::
  "timestamp \<Rightarrow> nat \<Rightarrow> close_request \<Rightarrow> db \<Rightarrow> (error_code + settlement_batch option) \<times> db" where
  "POST_settlement_batches_close now batchId rq s =
     (case validate_closeBatchSchema rq of
        Inl e \<Rightarrow> (Inl e, s)
      | Inr payload \<Rightarrow> withTransaction (close_body now batchId payload) s)"

definition POST_settlement_batches_reopen_requests ::
  "nat \<Rightarrow> reopen_request_request \<Rightarrow> db \<Rightarrow> (error_code + reopen_request option) \<times> db" where
  "POST_settlement_batches_reopen_requests batchId rq s =
     (case validate_reopenRequestSchema rq of
        Inl e \<Rightarrow> (Inl e, s)
      | Inr payload \<Rightarrow> withTransaction (reopen_request_body batchId payload) s)"

definition POST_settlement_reopen_requests_approve ::
  "timestamp \<Rightarrow> nat \<Rightarrow> decision_request \<Rightarrow> db \<Rightarrow> (error_code + reopen_request option) \<times> db" where
  "POST_settlement_reopen_requests_approve now requestId rq s =
     (case validate_reopenDecisionSchema rq of
        Inl e \<Rightarrow> (Inl e, s)
      | Inr payload \<Rightarrow> withTransaction (approve_body now requestId payload) s)"

definition POST_settlement_reopen_requests_reject ::
  "timestamp \<Rightarrow> nat \<Rightarrow> decision_request \<Rightarrow> db \<Rightarrow> (error_code + reopen_request option) \<times> db" where
  "POST_settlement_reopen_requests_reject now requestId rq s =
     (case validate_reopenDecisionSchema rq of
        Inl e \<Rightarrow> (Inl e, s)
      | Inr payload \<Rightarrow> withTransaction (reject_body now requestId payload) s)"

text \<open>The number of outstanding reopen requests of a batch: live and \<^verbatim>\<open>requested\<close>.\<close>

definition outstanding_requests :: "nat \<Rightarrow> db \<Rightarrow> nat" where
  "outstanding_requests batchId s =
     length (filter (\<lambda>r. rr_settlement_batch_id r = batchId \<and> rr_status r = Requested
                         \<and> rr_deleted_at r = None) (settlement_reopen_requests s))"

text \<open>One step of the system as far as reopen requests are concerned: one of the four
  callbacks, or anything else, which leaves the table of reopen requests as it is (no other
  statement in the sources writes it).\<close>

inductive reopen_step :: "db \<Rightarrow> db \<Rightarrow> bool" where
  step_close: "reopen_step s (snd (close_body now batchId cp s))"
| step_request: "reopen_step s (snd (reopen_request_body batchId rp s))"
| step_approve: "reopen_step s (snd (approve_body now requestId dp s))"
| step_reject: "reopen_step s (snd (reject_body now requestId dp s))"
| step_other: "settlement_reopen_requests s' = settlement_reopen_requests s \<Longrightarrow> reopen_step s s'"

text \<open>The states the system can be in, starting without reopen requests.\<close>

inductive reachable :: "db \<Rightarrow> bool" where
  reach_init: "settlement_reopen_requests s = [] \<Longrightarrow> reachable s"
| reach_step: "reachable s \<Longrightarrow> reopen_step s s' \<Longrightarrow> reachable s'"

section \<open>Example databases\<close>

definition empty_db :: db where
  "empty_db = \<lparr>exchange_rates = [], billing_events = [], invoices = [], invoice_items = [],
     invoice_sequences = [], service_catalog = [], price_policies = [], service_events = [],
     settlement_batches = [], settlement_lines = [], invoice_lines = [],
     settlement_reopen_requests = [], settlement_reopen_logs = []\<rparr>"

text \<open>The scenario of the specification: client 7, one THB-based event of 120 THB on
  2026-02-10, one active rate of 40 KRW per THB dated 2026-02-01.\<close>

definition rate40 :: exchange_rate where
  "rate40 = \<lparr>er_id = 1, er_rate_date = (2026, 2, 1), er_base_currency = ''THB'',
     er_quote_currency = ''KRW'', er_rate = 40, er_source = ''manual'', er_locked = 0,
     er_status = RateActive, er_deleted_at = None\<rparr>"

definition event120 :: billing_event where
  "event120 = \<lparr>be_id = 1, be_client_id = 7, be_service_code = ''TH_SHIPPING'',
     be_event_date = (2026, 2, 10), be_qty = Some 1, be_pricing_policy = THB_BASED,
     be_unit_price_thb = Some 120, be_amount_thb = Some 120, be_unit_price_krw = None,
     be_amount_krw = None, be_fx_rate_thbkrw = None, be_status = PENDING, be_invoice_id = None,
     be_deleted_at = None\<rparr>"

definition scenario_db :: db where
  "scenario_db = empty_db\<lparr>exchange_rates := [rate40], billing_events := [event120]\<rparr>"

definition scenario_payload :: generate_payload where
  "scenario_payload = \<lparr>gp_client_id = 7, gp_invoice_month = ''2026-02'',
     gp_invoice_date = ''2026-02-28'', gp_regenerate_draft = 0, gp_created_by = None\<rparr>"

definition scenario_request :: generate_request where
  "scenario_request = \<lparr>rq_client_id = Some 7, rq_invoice_month = Some ''2026-02'',
     rq_invoice_date = Some ''2026-02-28'', rq_regenerate_draft = None, rq_created_by = None\<rparr>"


text \<open>A closed settlement batch, and the database after a first reopen request for it.\<close>

definition closed_batch :: settlement_batch where
  "closed_batch = \<lparr>sb_id = 3, sb_client_id = 7, sb_billing_month = ''2026-02'', sb_status = Closed,
     sb_total_krw = Some 5100, sb_closed_at = Some 4, sb_closed_by = Some 2, sb_deleted_at = None\<rparr>"

definition closed_db :: db where
  "closed_db = empty_db\<lparr>settlement_batches := [closed_batch]\<rparr>"

definition reopen_payload :: reopen_request_payload where
  "reopen_payload = \<lparr>rrp_requested_by = 2, rrp_reason = ''recount''\<rparr>"

definition requested_db :: db where
  "requested_db = snd (reopen_request_body 3 reopen_payload closed_db)"

definition close_payload2 :: close_payload where
  "close_payload2 = \<lparr>cp_closed_by = 2, cp_reason = None\<rparr>"

text \<open>The scenario after generation (event 1 invoiced on draft invoice 1), and the same
  with the invoice issued.\<close>

definition event_invoiced :: billing_event where
  "event_invoiced = event120\<lparr>be_amount_krw := Some 4800, be_fx_rate_thbkrw := Some 40,
     be_status := INVOICED, be_invoice_id := Some 1\<rparr>"

definition invoice_draft :: invoice where
  "invoice_draft = \<lparr>inv_id = 1, inv_settlement_batch_id = None, inv_client_id = 7,
     inv_invoice_month = Some ''2026-02'', inv_invoice_no = ''KRW-7-202602-0001'',
     inv_status = Draft, inv_issue_date = ''2026-02-28'', inv_invoice_date = Some ''2026-02-28'',
     inv_due_date = ''2026-02-28'', inv_recipient_email = None, inv_currency = ''KRW'',
     inv_fx_rate_thbkrw = Some 40, inv_subtotal_krw = Some 4800, inv_vat_krw = Some 300,
     inv_total_krw = Some 5100, inv_total_amount = Some 5100, inv_created_by = 1,
     inv_deleted_at = None\<rparr>"

definition draft_db :: db where
  "draft_db = empty_db\<lparr>exchange_rates := [rate40\<lparr>er_locked := 1\<rparr>],
     billing_events := [event_invoiced], invoices := [invoice_draft],
     invoice_items :=
       [\<lparr>ii_id = 1, ii_invoice_id = 1, ii_service_code = ''TH_SHIPPING'',
         ii_description = ''TH_SHIPPING'', ii_qty = 1, ii_unit_price_krw = 4800,
         ii_amount_krw = 4800, ii_deleted_at = None\<rparr>,
        \<lparr>ii_id = 2, ii_invoice_id = 1, ii_service_code = ''VAT_7'', ii_description = ''VAT 7%'',
         ii_qty = 1, ii_unit_price_krw = 300, ii_amount_krw = 300, ii_deleted_at = None\<rparr>],
     invoice_sequences :=
       [\<lparr>seq_id = 1, seq_client_id = 7, seq_yyyymm = ''202602'', seq_last_seq = 1,
         seq_deleted_at = None\<rparr>]\<rparr>"

definition issued_db :: db where
  "issued_db = draft_db\<lparr>invoices := [invoice_draft\<lparr>inv_status := Issued\<rparr>]\<rparr>"

definition rate_payload :: exchange_rate_payload where
  "rate_payload = \<lparr>erp_rate_date = (2026, 2, 2), erp_rate = 41, erp_source = ''manual'',
     erp_locked = 0, erp_status = RateActive\<rparr>"

text \<open>A catalogue with one service and three price policies of client 7: an expired one, and
  two that are effective on 2026-02-10.\<close>

definition shipping_service :: service_catalog_row where
  "shipping_service = \<lparr>sc_id = 1, sc_service_code = ''TH_SHIPPING'', sc_service_name = Some ''Shipping'',
     sc_service_name_kr = None, sc_billing_basis = ''QTY'', sc_status = Active, sc_deleted_at = None\<rparr>"

definition policy_old :: price_policy where
  "policy_old = \<lparr>pp_id = 1, pp_client_id = 7, pp_service_id = 1, pp_unit_price = 100,
     pp_currency = ''THB'', pp_status = Active, pp_effective_from = (2025, 1, 1),
     pp_effective_to = Some (2025, 12, 31), pp_deleted_at = None\<rparr>"

definition policy_jan :: price_policy where
  "policy_jan = \<lparr>pp_id = 2, pp_client_id = 7, pp_service_id = 1, pp_unit_price = 110,
     pp_currency = ''THB'', pp_status = Active, pp_effective_from = (2026, 1, 1),
     pp_effective_to = None, pp_deleted_at = None\<rparr>"

definition policy_feb :: price_policy where
  "policy_feb = \<lparr>pp_id = 3, pp_client_id = 7, pp_service_id = 1, pp_unit_price = 120,
     pp_currency = ''THB'', pp_status = Active, pp_effective_from = (2026, 2, 1),
     pp_effective_to = None, pp_deleted_at = None\<rparr>"

definition priced_db :: db where
  "priced_db = empty_db\<lparr>service_catalog := [shipping_service],
     price_policies := [policy_old, policy_feb, policy_jan]\<rparr>"

definition outbound_params :: outbound_event_params where
  "outbound_params = \<lparr>oe_clientId = 7, oe_outboundOrderId = 11, oe_stockTransactionId = 21,
     oe_orderDate = (2026, 2, 10), oe_qty = 3, oe_boxCount = 1, oe_remark = None\<rparr>"

text \<open>The scenario's request for a month without events.\<close>

definition march_payload :: generate_payload where
  "march_payload = scenario_payload\<lparr>gp_invoice_month := ''2026-03''\<rparr>"

text \<open>A request to issue the invoice of batch 3.\<close>

definition issue_payload7 :: issue_payload where
  "issue_payload7 = \<lparr>ip_settlement_batch_id = 3, ip_issue_date = ''2026-03-01'',
     ip_due_date = ''2026-03-15'', ip_recipient_email = None, ip_created_by = 2\<rparr>"

text \<open>The request from which \<^const>\<open>issue_payload7\<close> is read.\<close>

definition issue_request7 :: issue_request where
  "issue_request7 = \<lparr>iq_settlement_batch_id = Some 3, iq_issue_date = Some ''2026-03-01'',
     iq_due_date = Some ''2026-03-15'', iq_recipient_email = None, iq_created_by = Some 2\<rparr>"

text \<open>Four pending events of client 7 around December 2026: on the last day of November,
  the first and the last day of December, and the first day of January.\<close>

definition event_on :: "nat \<Rightarrow> date \<Rightarrow> billing_event" where
  "event_on i d = event120\<lparr>be_id := i, be_event_date := d\<rparr>"

definition window_db :: db where
  "window_db = empty_db\<lparr>billing_events :=
     [event_on 4 (2027, 1, 1), event_on 3 (2026, 12, 31), event_on 2 (2026, 12, 1),
      event_on 1 (2026, 11, 30)]\<rparr>"

text \<open>The issued scenario invoice duplicated twice, and the second copy issued: invoices
  1 (issued), 2 (draft) and 3 (issued) of client 7 and month 2026-02.\<close>

definition duplicated_db :: db where
  "duplicated_db =
     snd (billing_issue_body 3 (snd (duplicate_admin_body 1 (snd (duplicate_admin_body 1 issued_db)))))"

section \<open>Strings and dates: auxiliary facts\<close>

lemma digit_char_props: "n < 10 \<Longrightarrow> is_digit (digit_char n) \<and> digit_val (digit_char n) = n"
  by (simp add: is_digit_def digit_val_def digit_char_def)

lemma is_digit_not_dash: "is_digit x \<Longrightarrow> x \<noteq> CHR ''-''"
  by (auto simp: is_digit_def)

lemma js_String_digits: "list_all is_digit (js_String n)"
proof (induction n rule: js_String.induct)
  case (1 n)
  show ?case
  proof (cases "n < 10")
    case True
    then show ?thesis by (subst js_String.simps) (simp add: digit_char_props)
  next
    case False
    with 1 show ?thesis by (subst js_String.simps) (simp add: digit_char_props)
  qed
qed

lemma dec_val_snoc: "dec_val (s @ [c]) = 10 * dec_val s + digit_val c"
  by (simp add: dec_val_def)

lemma dec_val_js_String: "dec_val (js_String n) = n"
proof (induction n rule: js_String.induct)
  case (1 n)
  show ?case
  proof (cases "n < 10")
    case True
    then show ?thesis by (subst js_String.simps) (simp add: dec_val_def digit_char_props)
  next
    case False
    with 1 show ?thesis by (subst js_String.simps) (simp add: dec_val_snoc digit_char_props)
  qed
qed

lemma js_Number_js_String: "js_Number (js_String n) = Some n"
  using dec_val_js_String [of n] js_String_digits [of n] by (simp add: js_Number_def dec_val_def)

lemma foldl_zeros: "foldl (\<lambda>a c. 10 * a + digit_val c) 0 (replicate k CHR ''0'') = 0"
  by (induction k) (simp_all add: digit_val_def)

lemma zeros_digits: "list_all is_digit (replicate k CHR ''0'')"
  by (induction k) (simp_all add: is_digit_def)

lemma js_Number_padStart: "js_Number (padStart k CHR ''0'' (js_String n)) = Some n"
  using dec_val_js_String [of n] js_String_digits [of n]
  by (simp add: js_Number_def padStart_def foldl_zeros zeros_digits dec_val_def)

lemma padStart_digits: "list_all is_digit (padStart k CHR ''0'' (js_String n))"
  by (simp add: padStart_def zeros_digits js_String_digits)

lemma split_on_none: "c \<notin> set xs \<Longrightarrow> split_on c xs = [xs]"
  by (induction xs) auto

lemma split_on_first: "c \<notin> set xs \<Longrightarrow> split_on c (xs @ c # ys) = xs # split_on c ys"
  by (induction xs) auto

lemma digits_no_dash: "list_all is_digit s \<Longrightarrow> CHR ''-'' \<notin> set s"
  by (induction s) (auto dest: is_digit_not_dash)

lemma parse_date_build:
  assumes "list_all is_digit a" "list_all is_digit b" "list_all is_digit c"
  shows "parse_date (a @ ''-'' @ b @ ''-'' @ c) =
           (case (js_Number a, js_Number b, js_Number c) of
              (Some y, Some m, Some d) \<Rightarrow> Some (y, m, d)
            | _ \<Rightarrow> None)"
  using assms by (simp add: parse_date_def split_on_first split_on_none digits_no_dash js_Number_def)

lemma regex_cases:
  assumes "month_regex s"
  obtains a b c d e f where "s = [a, b, c, d, CHR ''-'', e, f]"
    and "list_all is_digit [a, b, c, d]" and "list_all is_digit [e, f]"
  using assms by (auto simp: month_regex_def split: list.splits)

lemma regex_split:
  assumes "month_regex s"
  shows "split_on CHR ''-'' s = [take 4 s, drop 5 s]"
  using assms by (auto simp: month_regex_def split: list.splits dest: is_digit_not_dash)

lemma js_Number_const01: "js_Number ''01'' = Some 1" "list_all is_digit ''01''"
  by (simp_all add: js_Number_def is_digit_def digit_val_def)

lemma parse_from:
  assumes "month_regex s" "js_Number (take 4 s) = Some y" "js_Number (drop 5 s) = Some m"
  shows "parse_date (s @ ''-01'') = Some (y, m, 1)"
proof -
  from assms(1) obtain a b c d e f where s: "s = [a, b, c, d, CHR ''-'', e, f]"
    and d: "list_all is_digit [a, b, c, d]" "list_all is_digit [e, f]"
    by (rule regex_cases)
  show ?thesis
    using parse_date_build [OF d js_Number_const01(2)] assms(2,3) js_Number_const01(1)
    by (simp add: s)
qed

lemma parse_to_dec: "parse_date (js_String (y + 1) @ ''-01-01'') = Some (y + 1, 1, 1)"
  using parse_date_build [OF js_String_digits [of "y + 1"] js_Number_const01(2) js_Number_const01(2)]
  by (simp add: js_Number_js_String js_Number_const01)

lemma parse_to_other:
  "parse_date (js_String y @ ''-'' @ padStart 2 CHR ''0'' (js_String (m + 1)) @ ''-01'') = Some (y, m + 1, 1)"
  using parse_date_build [OF js_String_digits [of y] padStart_digits [of 2 "m + 1"] js_Number_const01(2)]
  by (simp add: js_Number_js_String js_Number_padStart js_Number_const01)

lemma window_month:
  fixes y m dy dm dd :: nat
  assumes "1 \<le> m" "m \<le> 12" "1 \<le> dm" "dm \<le> 12" "1 \<le> dd"
  shows "((y, m, 1) \<le> (dy, dm, dd) \<and> (dy, dm, dd) < (if m = 12 then (y + 1, 1, 1) else (y, m + 1, 1)))
         = (dy = y \<and> dm = m)"
  using assms by auto

section \<open>The billing window\<close>

lemma pending_events_window:
  assumes "monthRange s = Some r"
    and "\<forall>d. in_window r d = (lo \<le> d \<and> d < hi)"
  shows "pending_events c s db =
           sort_key be_id
             (filter (\<lambda>b. be_client_id b = c \<and> be_status b = PENDING \<and> be_deleted_at b = None
                           \<and> lo \<le> be_event_date b \<and> be_event_date b < hi) (billing_events db))"
proof -
  have w: "\<And>b. in_window r (be_event_date b) = (lo \<le> be_event_date b \<and> be_event_date b < hi)"
    using assms(2) by blast
  show ?thesis unfolding pending_events_def assms(1) option.case w by (rule refl)
qed

text \<open>
  Claim C10. For a month string \<open>s\<close> of the shape \<^verbatim>\<open>dddd-dd\<close> that reads as year \<open>y\<close> and
  month \<open>m\<close> with \<open>1 \<le> m \<le> 12\<close>, both copies of \<^verbatim>\<open>monthRange\<close> return the same window. Its
  lower bound is the literal \<open>s\<close> followed by \<^verbatim>\<open>-01\<close>, which is the date (y, m, 1); its upper
  bound reads as the first day of the following month, which for \<open>m = 12\<close> is (y + 1, 1, 1).
  The selection \<^verbatim>\<open>event_date >= from AND event_date < to\<close> is half-open and holds of a
  calendar date exactly when the date lies in year \<open>y\<close> and month \<open>m\<close>. The events that the
  generator selects for the month (lines 778-789) are the client's live PENDING events dated
  from (y, m, 1) inclusive to the first day of the following month exclusive, in the order
  of their ids; among events with a calendar date these are the events of year \<open>y\<close> and
  month \<open>m\<close>.
\<close>

theorem monthRange_window:
  assumes "month_regex s"
    and "js_Number (take 4 s) = Some y" and "js_Number (drop 5 s) = Some m"
    and "1 \<le> m" and "m \<le> 12"
  shows "(\<exists>r. monthRange s = Some r \<and> settlement_monthRange s = Some r
            \<and> range_from r = s @ ''-01''
            \<and> parse_date (range_from r) = Some (y, m, 1)
            \<and> parse_date (range_to r) = Some (if m = 12 then (y + 1, 1, 1) else (y, m + 1, 1))
            \<and> (\<forall>d. in_window r d = ((y, m, 1) \<le> d \<and> d < (if m = 12 then (y + 1, 1, 1) else (y, m + 1, 1))))
            \<and> (\<forall>dy dm dd. 1 \<le> dm \<and> dm \<le> 12 \<and> 1 \<le> dd \<longrightarrow>
                   in_window r (dy, dm, dd) = (dy = y \<and> dm = m)))
       \<and> (\<forall>c db. pending_events c s db =
             sort_key be_id
               (filter (\<lambda>b. be_client_id b = c \<and> be_status b = PENDING \<and> be_deleted_at b = None
                             \<and> (y, m, 1) \<le> be_event_date b
                             \<and> be_event_date b < (if m = 12 then (y + 1, 1, 1) else (y, m + 1, 1)))
                  (billing_events db)))
       \<and> (\<forall>c db b dy dm dd. be_event_date b = (dy, dm, dd) \<and> 1 \<le> dm \<and> dm \<le> 12 \<and> 1 \<le> dd \<longrightarrow>
             (b \<in> set (pending_events c s db)) =
               (b \<in> set (billing_events db) \<and> be_client_id b = c \<and> be_status b = PENDING
                \<and> be_deleted_at b = None \<and> dy = y \<and> dm = m))"
proof -
  define r where "r = \<lparr> range_from = s @ ''-01'',
      range_to = (if m = 12 then js_String (y + 1) @ ''-01-01''
                  else js_String y @ ''-'' @ padStart 2 CHR ''0'' (js_String (m + 1)) @ ''-01'') \<rparr>"
  have sp: "split_on CHR ''-'' s = [take 4 s, drop 5 s]"
    using regex_split [OF assms(1)] by simp
  have mr: "monthRange s = Some r" "settlement_monthRange s = Some r"
    using assms(2,3) by (simp_all add: monthRange_def settlement_monthRange_def sp r_def)
  have pf: "parse_date (range_from r) = Some (y, m, 1)"
    using parse_from [OF assms(1-3)] by (simp add: r_def)
  have pt: "parse_date (range_to r) = Some (if m = 12 then (y + 1, 1, 1) else (y, m + 1, 1))"
    using parse_to_dec [of y] parse_to_other [of y m] by (simp add: r_def)
  have half: "\<forall>d. in_window r d = ((y, m, 1) \<le> d \<and> d < (if m = 12 then (y + 1, 1, 1) else (y, m + 1, 1)))"
    unfolding in_window_def pf pt by simp
  have win: "\<forall>dy dm dd. 1 \<le> dm \<and> dm \<le> 12 \<and> 1 \<le> dd \<longrightarrow>
                   in_window r (dy, dm, dd) = (dy = y \<and> dm = m)"
  proof (intro allI impI)
    fix dy dm dd :: nat
    assume a: "1 \<le> dm \<and> dm \<le> 12 \<and> 1 \<le> dd"
    have "in_window r (dy, dm, dd) =
        ((y, m, 1) \<le> (dy, dm, dd) \<and> (dy, dm, dd) < (if m = 12 then (y + 1, 1, 1) else (y, m + 1, 1)))"
      using half by blast
    also have "\<dots> = (dy = y \<and> dm = m)"
      using window_month [OF assms(4,5), of dm dd y dy] a by blast
    finally show "in_window r (dy, dm, dd) = (dy = y \<and> dm = m)" .
  qed
  have first: "\<exists>r. monthRange s = Some r \<and> settlement_monthRange s = Some r
            \<and> range_from r = s @ ''-01''
            \<and> parse_date (range_from r) = Some (y, m, 1)
            \<and> parse_date (range_to r) = Some (if m = 12 then (y + 1, 1, 1) else (y, m + 1, 1))
            \<and> (\<forall>d. in_window r d = ((y, m, 1) \<le> d \<and> d < (if m = 12 then (y + 1, 1, 1) else (y, m + 1, 1))))
            \<and> (\<forall>dy dm dd. 1 \<le> dm \<and> dm \<le> 12 \<and> 1 \<le> dd \<longrightarrow>
                   in_window r (dy, dm, dd) = (dy = y \<and> dm = m))"
    using mr pf pt half win by (intro exI [of _ r]) (simp add: r_def)
  have sel: "pending_events c s db =
             sort_key be_id
               (filter (\<lambda>b. be_client_id b = c \<and> be_status b = PENDING \<and> be_deleted_at b = None
                             \<and> (y, m, 1) \<le> be_event_date b
                             \<and> be_event_date b < (if m = 12 then (y + 1, 1, 1) else (y, m + 1, 1)))
                  (billing_events db))" for c db
    by (rule pending_events_window [OF mr(1) half])
  have mem: "(b \<in> set (pending_events c s db)) =
               (b \<in> set (billing_events db) \<and> be_client_id b = c \<and> be_status b = PENDING
                \<and> be_deleted_at b = None \<and> dy = y \<and> dm = m)"
    if d: "be_event_date b = (dy, dm, dd) \<and> 1 \<le> dm \<and> dm \<le> 12 \<and> 1 \<le> dd" for c db b dy dm dd
  proof -
    have eq: "be_event_date b = (dy, dm, dd)" using d by (rule conjunct1)
    have c: "1 \<le> dm \<and> dm \<le> 12 \<and> 1 \<le> dd" using d by (rule conjunct2)
    have "in_window r (dy, dm, dd) = (dy = y \<and> dm = m)" by (rule win [rule_format, OF c])
    then have k1: "in_window r (be_event_date b) = (dy = y \<and> dm = m)" by (simp only: eq)
    have k2: "in_window r (be_event_date b) =
        ((y, m, 1) \<le> be_event_date b
         \<and> be_event_date b < (if m = 12 then (y + 1, 1, 1) else (y, m + 1, 1)))"
      using half by (rule spec)
    have k: "((y, m, 1) \<le> be_event_date b
                  \<and> be_event_date b < (if m = 12 then (y + 1, 1, 1) else (y, m + 1, 1)))
                = (dy = y \<and> dm = m)"
      using k2 k1 by (rule trans [OF sym])
    have "(b \<in> set (pending_events c s db)) =
            (b \<in> set (billing_events db) \<and> be_client_id b = c \<and> be_status b = PENDING
             \<and> be_deleted_at b = None
             \<and> ((y, m, 1) \<le> be_event_date b
                  \<and> be_event_date b < (if m = 12 then (y + 1, 1, 1) else (y, m + 1, 1))))"
      unfolding sel set_sort set_filter mem_Collect_eq by (rule refl)
    then show ?thesis by (simp only: k)
  qed
  show ?thesis
    apply (intro conjI allI impI)
      apply (rule first)
     apply (rule sel)
    apply (erule mem)
    done
qed

theorem monthRange_window_witness:
  "monthRange ''2026-12'' = Some \<lparr> range_from = ''2026-12-01'', range_to = ''2027-01-01'' \<rparr>
   \<and> in_window \<lparr> range_from = ''2026-12-01'', range_to = ''2027-01-01'' \<rparr> (2026, 12, 31)
   \<and> \<not> in_window \<lparr> range_from = ''2026-12-01'', range_to = ''2027-01-01'' \<rparr> (2027, 1, 1)
   \<and> map be_event_date (billing_events window_db)
       = [(2027, 1, 1), (2026, 12, 31), (2026, 12, 1), (2026, 11, 30)]
   \<and> map be_event_date (pending_events 7 ''2026-12'' window_db) = [(2026, 12, 1), (2026, 12, 31)]"
proof -
  have h1: "month_regex ''2026-12''" by (simp add: month_regex_def is_digit_def)
  have h2: "js_Number (take 4 ''2026-12'') = Some 2026" by (simp add: js_Number_def is_digit_def digit_val_def)
  have h3: "js_Number (drop 5 ''2026-12'') = Some 12" by (simp add: js_Number_def is_digit_def digit_val_def)
  have h4: "(1::nat) \<le> 12" "(12::nat) \<le> 12" by simp_all
  note t = monthRange_window [OF h1 h2 h3 h4]
  from t obtain r where r: "monthRange ''2026-12'' = Some r"
    and w: "\<forall>dy dm dd. 1 \<le> dm \<and> dm \<le> 12 \<and> 1 \<le> dd \<longrightarrow> in_window r (dy, dm, dd) = (dy = 2026 \<and> dm = 12)"
    by blast
  have e: "monthRange ''2026-12'' = Some \<lparr> range_from = ''2026-12-01'', range_to = ''2027-01-01'' \<rparr>"
    by code_simp
  with r have re: "r = \<lparr> range_from = ''2026-12-01'', range_to = ''2027-01-01'' \<rparr>" by simp
  have "in_window r (2026, 12, 31)" using w by simp
  moreover have "\<not> in_window r (2027, 1, 1)" using w by simp
  moreover have b: "map be_event_date (billing_events window_db)
       = [(2027, 1, 1), (2026, 12, 31), (2026, 12, 1), (2026, 11, 30)]"
    by (simp add: window_db_def empty_db_def event_on_def)
  moreover have "pending_events 7 ''2026-12'' window_db =
             sort_key be_id
               (filter (\<lambda>b. be_client_id b = 7 \<and> be_status b = PENDING \<and> be_deleted_at b = None
                             \<and> (2026, 12, 1) \<le> be_event_date b
                             \<and> be_event_date b < (if (12::nat) = 12 then (2026 + 1, 1, 1) else (2026, 12 + 1, 1)))
                  (billing_events window_db))"
    by (rule t [THEN conjunct2, THEN conjunct1, rule_format])
  then have "map be_event_date (pending_events 7 ''2026-12'' window_db) = [(2026, 12, 1), (2026, 12, 31)]"
    by (simp add: window_db_def empty_db_def event_on_def event120_def)
  ultimately show ?thesis using e re by simp
qed

section \<open>Settlement batches: close and reopen requests\<close>

lemma filter_map_shrinks:
  assumes "\<And>x. P (f x) \<Longrightarrow> P x"
  shows "length (filter (P \<circ> f) xs) \<le> length (filter P xs)"
  using assms by (induction xs) auto

lemma close_body_requests:
  "settlement_reopen_requests (snd (close_body now batchId cp s)) = settlement_reopen_requests s"
  by (simp add: close_body_def Let_def split: option.splits)

lemma approve_body_outstanding:
  "outstanding_requests b (snd (approve_body now requestId dp s)) \<le> outstanding_requests b s"
  by (auto simp: approve_body_def outstanding_requests_def Let_def split: option.splits if_splits
      intro!: filter_map_shrinks)

lemma reject_body_outstanding:
  "outstanding_requests b (snd (reject_body now requestId dp s)) \<le> outstanding_requests b s"
  by (auto simp: reject_body_def outstanding_requests_def Let_def split: option.splits if_splits
      intro!: filter_map_shrinks)

lemma request_body_outstanding:
  assumes "outstanding_requests b s \<le> 1"
  shows "outstanding_requests b (snd (reopen_request_body batchId rp s)) \<le> 1"
proof (cases "fst (reopen_request_body batchId rp s)")
  case (Inl e)
  then have "snd (reopen_request_body batchId rp s) = s"
    by (auto simp: reopen_request_body_def Let_def split: option.splits if_splits)
  with assms show ?thesis by simp
next
  case (Inr r)
  then have none: "find (\<lambda>r. rr_settlement_batch_id r = batchId \<and> rr_status r = Requested
                            \<and> rr_deleted_at r = None) (settlement_reopen_requests s) = None"
    by (auto simp: reopen_request_body_def Let_def split: option.splits if_splits)
  then have empty: "filter (\<lambda>r. rr_settlement_batch_id r = batchId \<and> rr_status r = Requested
                            \<and> rr_deleted_at r = None) (settlement_reopen_requests s) = []"
    by (simp add: find_None_iff filter_empty_conv)
  from Inr none obtain row where
    st: "settlement_reopen_requests (snd (reopen_request_body batchId rp s))
           = settlement_reopen_requests s @ [row]"
    and row: "rr_settlement_batch_id row = batchId"
    by (auto simp: reopen_request_body_def Let_def split: option.splits if_splits)
  show ?thesis
  proof (cases "b = batchId")
    case True
    then show ?thesis using st empty by (simp add: outstanding_requests_def)
  next
    case False
    then show ?thesis using st row assms by (simp add: outstanding_requests_def)
  qed
qed

lemma reopen_step_outstanding:
  assumes "reopen_step s s'" and "outstanding_requests b s \<le> 1"
  shows "outstanding_requests b s' \<le> 1"
  using assms
proof (induction rule: reopen_step.induct)
  case (step_close s now batchId cp)
  then show ?case by (simp add: outstanding_requests_def close_body_requests)
next
  case (step_request s batchId rp)
  then show ?case by (rule request_body_outstanding)
next
  case (step_approve s now requestId dp)
  then show ?case using approve_body_outstanding [of b now requestId dp s] by linarith
next
  case (step_reject s now requestId dp)
  then show ?case using reject_body_outstanding [of b now requestId dp s] by linarith
next
  case (step_other s' s)
  then show ?case by (simp add: outstanding_requests_def)
qed

lemma reachable_outstanding: "reachable s \<Longrightarrow> outstanding_requests b s \<le> 1"
proof (induction rule: reachable.induct)
  case (reach_init s)
  then show ?case by (simp add: outstanding_requests_def)
next
  case (reach_step s s')
  then show ?case by (blast intro: reopen_step_outstanding)
qed

lemma close_closed:
  assumes "find (\<lambda>b. sb_id b = batchId \<and> sb_deleted_at b = None) (settlement_batches s) = Some row"
    and "sb_status row = Closed"
  shows "close_body now batchId cp s = (Inl ALREADY_CLOSED, s)"
  using assms by (simp add: close_body_def)

lemma request_rejected:
  assumes "1 \<le> outstanding_requests batchId s"
  shows "\<exists>e. reopen_request_body batchId rp s = (Inl e, s)
            \<and> (e = BATCH_NOT_FOUND \<or> e = INVALID_STATUS \<or> e = REQUEST_EXISTS)"
proof -
  from assms have "filter (\<lambda>r. rr_settlement_batch_id r = batchId \<and> rr_status r = Requested
                            \<and> rr_deleted_at r = None) (settlement_reopen_requests s) \<noteq> []"
    by (auto simp: outstanding_requests_def)
  then have "find (\<lambda>r. rr_settlement_batch_id r = batchId \<and> rr_status r = Requested
                            \<and> rr_deleted_at r = None) (settlement_reopen_requests s) \<noteq> None"
    by (auto simp: find_None_iff filter_empty_conv)
  then show ?thesis
    by (auto simp: reopen_request_body_def split: option.splits)
qed

lemma request_exists:
  assumes "1 \<le> outstanding_requests batchId s"
    and "find (\<lambda>b. sb_id b = batchId \<and> sb_deleted_at b = None) (settlement_batches s) = Some row"
    and "sb_status row = Closed"
  shows "reopen_request_body batchId rp s = (Inl REQUEST_EXISTS, s)"
  using request_rejected [OF assms(1), of rp] assms(2,3)
  by (auto simp: reopen_request_body_def Let_def split: option.splits)


text \<open>
  Claim C8. Closing a live batch whose status is \<^verbatim>\<open>closed\<close> fails with ALREADY_CLOSED and
  writes nothing. A reopen request for a batch that has a live request in status
  \<^verbatim>\<open>requested\<close> fails and writes nothing; the error is REQUEST_EXISTS when the batch is
  live and closed (a batch that is not found or not closed is reported first). In every
  state the system reaches from a database without reopen requests, a batch has at most one
  outstanding request.
\<close>

theorem settlement_close_and_reopen_guards:
  "(find (\<lambda>b. sb_id b = batchId \<and> sb_deleted_at b = None) (settlement_batches s) = Some row
      \<and> sb_status row = Closed
      \<longrightarrow> close_body now batchId cp s = (Inl ALREADY_CLOSED, s))
   \<and> (1 \<le> outstanding_requests batchId s
      \<longrightarrow> (\<exists>e. reopen_request_body batchId rp s = (Inl e, s))
          \<and> (find (\<lambda>b. sb_id b = batchId \<and> sb_deleted_at b = None) (settlement_batches s) = Some row
                \<and> sb_status row = Closed
              \<longrightarrow> reopen_request_body batchId rp s = (Inl REQUEST_EXISTS, s)))
   \<and> (reachable s \<longrightarrow> outstanding_requests batchId s \<le> 1)"
  using close_closed [of batchId s row now cp] request_rejected [of batchId s rp]
    request_exists [of batchId s row rp] reachable_outstanding [of s batchId]
  by blast

theorem settlement_close_and_reopen_guards_witness:
  "close_body 9 3 close_payload2 requested_db = (Inl ALREADY_CLOSED, requested_db)
   \<and> reopen_request_body 3 reopen_payload requested_db = (Inl REQUEST_EXISTS, requested_db)
   \<and> outstanding_requests 3 requested_db = 1"
proof -
  have f: "find (\<lambda>b. sb_id b = 3 \<and> sb_deleted_at b = None) (settlement_batches requested_db) = Some closed_batch"
    by (simp add: requested_db_def reopen_request_body_def closed_db_def empty_db_def closed_batch_def
        Let_def)
  have c: "sb_status closed_batch = Closed" by (simp add: closed_batch_def)
  have o: "outstanding_requests 3 requested_db = 1"
    by (simp add: outstanding_requests_def requested_db_def reopen_request_body_def closed_db_def
        empty_db_def closed_batch_def Let_def)
  have "reachable closed_db"
    by (rule reach_init) (simp add: closed_db_def empty_db_def)
  then have r: "reachable requested_db"
    unfolding requested_db_def by (rule reach_step) (rule step_request)
  show ?thesis
    using settlement_close_and_reopen_guards [of 3 requested_db closed_batch 9 close_payload2 reopen_payload]
      f c o r by simp
qed

section \<open>Releasing events\<close>

lemma mark_pending_locked:
  assumes "b \<in> set (billing_events s)" and "be_id b \<in> set ids" and "be_deleted_at b = None"
    and "linked_to_issued_or_paid s b"
  shows "mark_pending_body ids s = (Inl EVENTS_LOCKED, s)"
proof -
  from assms(4) obtain i where i: "i \<in> set (invoices s)" "be_invoice_id b = Some (inv_id i)"
    "inv_deleted_at i = None" "inv_status i = Issued \<or> inv_status i = Paid"
    by (auto simp: linked_to_issued_or_paid_def list_ex_iff)
  let ?js = "filter (\<lambda>i. be_invoice_id b = Some (inv_id i) \<and> inv_deleted_at i = None) (invoices s)"
  have "i \<in> set ?js" using i by simp
  then have "?js \<noteq> []" by (metis empty_iff empty_set)
  then have "(b, Some (inv_status i)) \<in> set (case ?js of [] \<Rightarrow> [(b, None)]
                 | js \<Rightarrow> map (\<lambda>i. (b, Some (inv_status i))) js)"
    using \<open>i \<in> set ?js\<close> by (cases ?js) auto
  then have row: "(b, Some (inv_status i)) \<in> set (mark_pending_rows ids s)"
    using assms(1-3) unfolding mark_pending_rows_def by (auto intro!: bexI [of _ b])
  then have ne: "mark_pending_rows ids s \<noteq> []" by auto
  from row i(4) have "filter (\<lambda>r. snd r = Some Issued \<or> snd r = Some Paid) (mark_pending_rows ids s) \<noteq> []"
    by (auto simp: filter_empty_conv intro!: bexI [of _ "(b, Some (inv_status i))"])
  with ne show ?thesis by (simp add: mark_pending_body_def Let_def)
qed

lemma mark_pending_rows_blocked:
  assumes "filter (\<lambda>r. snd r = Some Issued \<or> snd r = Some Paid) (mark_pending_rows ids s) = []"
    and "b \<in> set (billing_events s)" and "be_id b \<in> set ids" and "be_deleted_at b = None"
  shows "\<not> linked_to_issued_or_paid s b"
proof
  assume "linked_to_issued_or_paid s b"
  from mark_pending_locked [OF assms(2-4) this]
  show False using assms(1) by (simp add: mark_pending_body_def Let_def split: if_splits)
qed




lemma mark_pending_failure:
  assumes "mark_pending_body ids s = (Inl e, s')"
  shows "s' = s"
  using assms by (auto simp: mark_pending_body_def Let_def split: if_splits)



section \<open>Exchange rates: the lock\<close>

lemma find_map_update:
  assumes "find P xs = Some x" and "P (g x)"
  shows "find P (map (\<lambda>r. if P r then g r else r) xs) = Some (g x)"
  using assms by (induction xs) (auto split: if_splits)

lemma usage_count_referenced:
  assumes "find (\<lambda>r. er_id r = rateId \<and> er_deleted_at r = None) (exchange_rates s) = Some row"
    and "distinct (map er_id (exchange_rates s))"
    and "fx_implies_month s"
  shows "(getExchangeRateUsageCount s rateId > 0) = rate_referenced s (er_rate row)"
proof -
  from assms(1) have row: "row \<in> set (exchange_rates s)" "er_id row = rateId"
    by (auto simp: find_Some_iff in_set_conv_nth)
  have same: "er = row" if "er \<in> set (exchange_rates s)" "er_id er = rateId" for er
    using that row assms(2) by (auto simp: distinct_map dest: inj_onD)
  have "(getExchangeRateUsageCount s rateId > 0) =
          (\<exists>i \<in> set (invoices s). \<exists>er \<in> set (exchange_rates s).
              er_id er = rateId \<and> inv_deleted_at i = None \<and> inv_invoice_month i \<noteq> None
              \<and> inv_fx_rate_thbkrw i = Some (er_rate er))"
    by (auto simp: getExchangeRateUsageCount_def filter_empty_conv)
  also have "\<dots> = (\<exists>i \<in> set (invoices s). inv_deleted_at i = None \<and> inv_invoice_month i \<noteq> None
              \<and> inv_fx_rate_thbkrw i = Some (er_rate row))"
    using same row by blast
  also have "\<dots> = (\<exists>i \<in> set (invoices s). inv_deleted_at i = None
              \<and> inv_fx_rate_thbkrw i = Some (er_rate row))"
    using assms(3) by (auto simp: fx_implies_month_def list_all_iff)
  finally show ?thesis by (simp add: rate_referenced_def list_ex_iff)
qed

lemma rate_lock_parts:
  assumes "requireAdmin role"
    and "find (\<lambda>r. er_id r = rateId \<and> er_deleted_at r = None) (exchange_rates s) = Some row"
    and "distinct (map er_id (exchange_rates s))"
    and "fx_implies_month s"
  shows "(fst (PUT_exchange_rate dup_entry role rateId payload s) = Inl EXCHANGE_RATE_LOCKED)
           = (er_locked row = 1 \<or> rate_referenced s (er_rate row))"
    and "(fst (DELETE_exchange_rate now role rateId s) = Inl EXCHANGE_RATE_LOCKED)
           = (er_locked row = 1 \<or> rate_referenced s (er_rate row))"
    and "er_locked row = 1 \<or> rate_referenced s (er_rate row) \<Longrightarrow>
           snd (PUT_exchange_rate dup_entry role rateId payload s) = s
           \<and> snd (DELETE_exchange_rate now role rateId s) = s"
    and "\<not> (er_locked row = 1 \<or> rate_referenced s (er_rate row)) \<Longrightarrow>
           DELETE_exchange_rate now role rateId s =
             (Inr (), s\<lparr>exchange_rates :=
                         map (\<lambda>r. if er_id r = rateId \<and> er_deleted_at r = None
                                   then r\<lparr>er_deleted_at := Some now\<rparr> else r) (exchange_rates s)\<rparr>)"
    and "\<not> (er_locked row = 1 \<or> rate_referenced s (er_rate row)) \<Longrightarrow>
           (dup_entry s rateId payload \<longrightarrow>
              PUT_exchange_rate dup_entry role rateId payload s = (Inl DUPLICATE_ENTRY, s))
           \<and> (\<not> dup_entry s rateId payload \<longrightarrow>
              PUT_exchange_rate dup_entry role rateId payload s =
                (Inr (Some (row\<lparr>er_rate_date := erp_rate_date payload, er_rate := erp_rate payload,
                                 er_source := erp_source payload, er_locked := erp_locked payload,
                                 er_status := erp_status payload\<rparr>)),
                 s\<lparr>exchange_rates :=
                     map (\<lambda>r. if er_id r = rateId \<and> er_deleted_at r = None
                               then r\<lparr>er_rate_date := erp_rate_date payload, er_rate := erp_rate payload,
                                      er_source := erp_source payload, er_locked := erp_locked payload,
                                      er_status := erp_status payload\<rparr>
                               else r) (exchange_rates s)\<rparr>))"
proof -
  note u = usage_count_referenced [OF assms(2-4)]
  show "(fst (PUT_exchange_rate dup_entry role rateId payload s) = Inl EXCHANGE_RATE_LOCKED)
           = (er_locked row = 1 \<or> rate_referenced s (er_rate row))"
    using assms(1,2) u by (auto simp: PUT_exchange_rate_def Let_def)
  show "(fst (DELETE_exchange_rate now role rateId s) = Inl EXCHANGE_RATE_LOCKED)
           = (er_locked row = 1 \<or> rate_referenced s (er_rate row))"
    using assms(1,2) u by (auto simp: DELETE_exchange_rate_def Let_def)
  show "er_locked row = 1 \<or> rate_referenced s (er_rate row) \<Longrightarrow>
           snd (PUT_exchange_rate dup_entry role rateId payload s) = s
           \<and> snd (DELETE_exchange_rate now role rateId s) = s"
    using assms(1,2) u by (auto simp: PUT_exchange_rate_def DELETE_exchange_rate_def Let_def)
  show "\<not> (er_locked row = 1 \<or> rate_referenced s (er_rate row)) \<Longrightarrow>
           DELETE_exchange_rate now role rateId s =
             (Inr (), s\<lparr>exchange_rates :=
                         map (\<lambda>r. if er_id r = rateId \<and> er_deleted_at r = None
                                   then r\<lparr>er_deleted_at := Some now\<rparr> else r) (exchange_rates s)\<rparr>)"
    using assms(1,2) u by (auto simp: DELETE_exchange_rate_def Let_def)
  from assms(2) have live: "er_id row = rateId \<and> er_deleted_at row = None"
    by (auto simp: find_Some_iff)
  have found: "find (\<lambda>r. er_id r = rateId \<and> er_deleted_at r = None)
          (map (\<lambda>r. if er_id r = rateId \<and> er_deleted_at r = None
                    then r\<lparr>er_rate_date := erp_rate_date payload, er_rate := erp_rate payload,
                           er_source := erp_source payload, er_locked := erp_locked payload,
                           er_status := erp_status payload\<rparr>
                    else r) (exchange_rates s))
        = Some (row\<lparr>er_rate_date := erp_rate_date payload, er_rate := erp_rate payload,
                     er_source := erp_source payload, er_locked := erp_locked payload,
                     er_status := erp_status payload\<rparr>)"
    using live by (intro find_map_update [OF assms(2)]) simp
  show "\<not> (er_locked row = 1 \<or> rate_referenced s (er_rate row)) \<Longrightarrow>
           (dup_entry s rateId payload \<longrightarrow>
              PUT_exchange_rate dup_entry role rateId payload s = (Inl DUPLICATE_ENTRY, s))
           \<and> (\<not> dup_entry s rateId payload \<longrightarrow>
              PUT_exchange_rate dup_entry role rateId payload s =
                (Inr (Some (row\<lparr>er_rate_date := erp_rate_date payload, er_rate := erp_rate payload,
                                 er_source := erp_source payload, er_locked := erp_locked payload,
                                 er_status := erp_status payload\<rparr>)),
                 s\<lparr>exchange_rates :=
                     map (\<lambda>r. if er_id r = rateId \<and> er_deleted_at r = None
                               then r\<lparr>er_rate_date := erp_rate_date payload, er_rate := erp_rate payload,
                                      er_source := erp_source payload, er_locked := erp_locked payload,
                                      er_status := erp_status payload\<rparr>
                               else r) (exchange_rates s)\<rparr>))"
    using assms(1,2) u found by (auto simp: PUT_exchange_rate_def Let_def)
qed

text \<open>
  Claim C5. For an administrator's request on a live rate (rate ids are unique, and every
  invoice that stores a rate belongs to a billing month), the update and the deletion are
  each refused with EXCHANGE_RATE_LOCKED exactly when the rate has \<^verbatim>\<open>locked = 1\<close> or a
  live invoice stores exactly its rate value; a refused request writes nothing. Otherwise
  the deletion tombstones the rate, and the update reaches its UPDATE statement: it is
  refused only as a duplicate of the unique key, and else writes the payload (date, rate,
  source, lock flag and status) into the row, returns the row as written, and leaves the
  database otherwise as it was. Neither request touches another rate.
\<close>

theorem exchange_rate_lock:
  assumes "requireAdmin role"
    and "find (\<lambda>r. er_id r = rateId \<and> er_deleted_at r = None) (exchange_rates s) = Some row"
    and "distinct (map er_id (exchange_rates s))"
    and "fx_implies_month s"
  shows "((fst (PUT_exchange_rate dup_entry role rateId payload s) = Inl EXCHANGE_RATE_LOCKED)
            = (er_locked row = 1 \<or> rate_referenced s (er_rate row)))
       \<and> ((fst (DELETE_exchange_rate now role rateId s) = Inl EXCHANGE_RATE_LOCKED)
            = (er_locked row = 1 \<or> rate_referenced s (er_rate row)))
       \<and> (er_locked row = 1 \<or> rate_referenced s (er_rate row) \<longrightarrow>
            snd (PUT_exchange_rate dup_entry role rateId payload s) = s
            \<and> snd (DELETE_exchange_rate now role rateId s) = s)
       \<and> (\<not> (er_locked row = 1 \<or> rate_referenced s (er_rate row)) \<longrightarrow>
            DELETE_exchange_rate now role rateId s =
              (Inr (), s\<lparr>exchange_rates :=
                          map (\<lambda>r. if er_id r = rateId \<and> er_deleted_at r = None
                                    then r\<lparr>er_deleted_at := Some now\<rparr> else r) (exchange_rates s)\<rparr>)
            \<and> (dup_entry s rateId payload \<longrightarrow>
                 PUT_exchange_rate dup_entry role rateId payload s = (Inl DUPLICATE_ENTRY, s))
            \<and> (\<not> dup_entry s rateId payload \<longrightarrow>
                 PUT_exchange_rate dup_entry role rateId payload s =
                   (Inr (Some (row\<lparr>er_rate_date := erp_rate_date payload, er_rate := erp_rate payload,
                                    er_source := erp_source payload, er_locked := erp_locked payload,
                                    er_status := erp_status payload\<rparr>)),
                    s\<lparr>exchange_rates :=
                        map (\<lambda>r. if er_id r = rateId \<and> er_deleted_at r = None
                                  then r\<lparr>er_rate_date := erp_rate_date payload, er_rate := erp_rate payload,
                                         er_source := erp_source payload, er_locked := erp_locked payload,
                                         er_status := erp_status payload\<rparr>
                                  else r) (exchange_rates s)\<rparr>))
            \<and> (\<forall>r \<in> set (exchange_rates s). er_id r \<noteq> rateId \<longrightarrow>
                   r \<in> set (exchange_rates (snd (PUT_exchange_rate dup_entry role rateId payload s)))
                   \<and> r \<in> set (exchange_rates (snd (DELETE_exchange_rate now role rateId s)))))"
proof -
  note p = rate_lock_parts [OF assms]
  have 1: "(fst (PUT_exchange_rate dup_entry role rateId payload s) = Inl EXCHANGE_RATE_LOCKED)
            = (er_locked row = 1 \<or> rate_referenced s (er_rate row))"
    by (rule p(1))
  have 2: "(fst (DELETE_exchange_rate now role rateId s) = Inl EXCHANGE_RATE_LOCKED)
            = (er_locked row = 1 \<or> rate_referenced s (er_rate row))"
    by (rule p(2))
  have 3: "\<forall>r \<in> set (exchange_rates s). er_id r \<noteq> rateId \<longrightarrow>
                   r \<in> set (exchange_rates (snd (PUT_exchange_rate dup_entry role rateId payload s)))
                   \<and> r \<in> set (exchange_rates (snd (DELETE_exchange_rate now role rateId s)))"
    by (auto simp: PUT_exchange_rate_def DELETE_exchange_rate_def Let_def split: option.splits
        intro!: image_eqI)
  show ?thesis
    using 1 2 3 p(3) [of dup_entry payload now] p(4) [of now] p(5) [of dup_entry payload]
    by (intro conjI impI) (simp_all only: simp_thms)
qed

theorem exchange_rate_lock_witness:
  "fst (DELETE_exchange_rate 9 (Some ''admin'') 1 draft_db) = Inl EXCHANGE_RATE_LOCKED
   \<and> fst (PUT_exchange_rate (\<lambda>s i p. False) (Some ''admin'') 1 rate_payload draft_db) = Inl EXCHANGE_RATE_LOCKED
   \<and> fst (DELETE_exchange_rate 9 (Some ''admin'') 1 scenario_db) = Inr ()
   \<and> PUT_exchange_rate (\<lambda>s i p. False) (Some ''admin'') 1 rate_payload scenario_db
       = (Inr (Some (rate40\<lparr>er_rate_date := (2026, 2, 2), er_rate := 41\<rparr>)),
          scenario_db\<lparr>exchange_rates := [rate40\<lparr>er_rate_date := (2026, 2, 2), er_rate := 41\<rparr>]\<rparr>)
   \<and> exchange_rates (snd (DELETE_exchange_rate 9 (Some ''admin'') 1 scenario_db))
       = [rate40\<lparr>er_deleted_at := Some 9\<rparr>]"
proof -
  have a: "requireAdmin (Some ''admin'')" by (simp add: requireAdmin_def)
  have f1: "find (\<lambda>r. er_id r = 1 \<and> er_deleted_at r = None) (exchange_rates draft_db)
              = Some (rate40\<lparr>er_locked := 1\<rparr>)"
    by (simp add: draft_db_def empty_db_def rate40_def)
  have d1: "distinct (map er_id (exchange_rates draft_db))"
    by (simp add: draft_db_def empty_db_def)
  have m1: "fx_implies_month draft_db"
    by (simp add: fx_implies_month_def draft_db_def empty_db_def invoice_draft_def)
  have l1: "er_locked (rate40\<lparr>er_locked := 1\<rparr>) = 1" by simp
  have f2: "find (\<lambda>r. er_id r = 1 \<and> er_deleted_at r = None) (exchange_rates scenario_db) = Some rate40"
    by (simp add: scenario_db_def empty_db_def rate40_def)
  have d2: "distinct (map er_id (exchange_rates scenario_db))"
    by (simp add: scenario_db_def empty_db_def)
  have m2: "fx_implies_month scenario_db"
    by (simp add: fx_implies_month_def scenario_db_def empty_db_def)
  have l2: "\<not> (er_locked rate40 = 1 \<or> rate_referenced scenario_db (er_rate rate40))"
    by (simp add: rate40_def rate_referenced_def scenario_db_def empty_db_def)
  have p: "rate40\<lparr>er_rate_date := erp_rate_date rate_payload, er_rate := erp_rate rate_payload,
                  er_source := erp_source rate_payload, er_locked := erp_locked rate_payload,
                  er_status := erp_status rate_payload\<rparr>
             = rate40\<lparr>er_rate_date := (2026, 2, 2), er_rate := 41\<rparr>"
    by (simp add: rate_payload_def rate40_def)
  have e: "exchange_rates scenario_db = [rate40]" "er_id rate40 = 1" "er_deleted_at rate40 = None"
    by (simp_all add: scenario_db_def empty_db_def rate40_def)
  show ?thesis
    using exchange_rate_lock [OF a f1 d1 m1, of "\<lambda>s i p. False" rate_payload 9] l1
      exchange_rate_lock [OF a f2 d2 m2, of "\<lambda>s i p. False" rate_payload 9] l2 p e
    by simp
qed

section \<open>Price resolution\<close>

lemma first_desc_None: "(first_desc key xs = None) = (xs = [])"
  by (cases xs) (auto split: option.splits)

lemma first_desc_greatest:
  assumes "first_desc key xs = Some x"
  shows "x \<in> set xs \<and> (\<forall>y \<in> set xs. key y \<le> key x)"
  using assms
proof (induction xs arbitrary: x)
  case Nil
  then show ?case by simp
next
  case (Cons a xs)
  show ?case
  proof (cases "first_desc key xs")
    case None
    then have "xs = []" by (simp add: first_desc_None)
    with Cons.prems show ?thesis by simp
  next
    case (Some y)
    from Cons.IH [OF Some] have y: "y \<in> set xs" "\<forall>z \<in> set xs. key z \<le> key y" by simp_all
    show ?thesis
    proof (cases "key a < key y")
      case True
      with Some Cons.prems have "x = y" by simp
      with y True show ?thesis by auto
    next
      case False
      with Some Cons.prems have "x = a" by simp
      with y False show ?thesis by (auto intro: order_trans)
    qed
  qed
qed

lemma lex_le_cases:
  fixes a b :: "'a::linorder" and i j :: "'b::linorder"
  assumes "(a, i) \<le> (b, j)"
  shows "a < b \<or> (a = b \<and> i \<le> j)"
  using assms by auto

lemma resolve_None:
  "(resolveActivePricePolicy s clientId orderDate = None) = (policy_candidates s clientId orderDate = [])"
  by (simp add: resolveActivePricePolicy_def first_desc_None)

lemma candidates_iff:
  "(j \<in> set (policy_candidates s clientId orderDate)) =
     (fst j \<in> set (price_policies s) \<and> snd j \<in> set (service_catalog s)
      \<and> policy_active_on clientId orderDate j)"
  by (cases j) (auto simp: policy_candidates_def)

lemma resolve_Some:
  assumes "resolveActivePricePolicy s clientId orderDate = Some p"
  shows "\<exists>pp sc. (pp, sc) \<in> set (policy_candidates s clientId orderDate)
           \<and> p = \<lparr>pr_id = pp_id pp, pr_service_id = pp_service_id pp, pr_unit_price = pp_unit_price pp,
                    pr_currency = pp_currency pp, pr_billing_basis = sc_billing_basis sc\<rparr>
           \<and> (\<forall>j \<in> set (policy_candidates s clientId orderDate).
                  (pp_effective_from (fst j), pp_id (fst j)) \<le> (pp_effective_from pp, pp_id pp))"
proof -
  from assms obtain j where j: "first_desc (\<lambda>j. (pp_effective_from (fst j), pp_id (fst j)))
        (policy_candidates s clientId orderDate) = Some j"
    and p: "p = (case j of (pp, sc) \<Rightarrow>
                   \<lparr>pr_id = pp_id pp, pr_service_id = pp_service_id pp, pr_unit_price = pp_unit_price pp,
                    pr_currency = pp_currency pp, pr_billing_basis = sc_billing_basis sc\<rparr>)"
    by (auto simp: resolveActivePricePolicy_def)
  obtain pp sc where jj: "j = (pp, sc)" by (cases j)
  from first_desc_greatest [OF j] show ?thesis
    using p jj by (intro exI [of _ pp] exI [of _ sc]) auto
qed

text \<open>
  Claim C7. \<^verbatim>\<open>resolveActivePricePolicy\<close> returns nothing exactly when the client has no
  policy that is active on the date (policy and service live and active, effective_from on or
  before the date, effective_to null or on or after it). Otherwise it returns the fields of
  one such policy, and no active policy has a later effective_from, or the same
  effective_from and a higher id. When it returns nothing,
  \<^verbatim>\<open>upsertOutboundServiceEvent\<close> returns \<^verbatim>\<open>null\<close> and leaves the database as it is: it
  writes no event and signals no error to the movement's transaction.
\<close>

theorem price_resolution:
  "((resolveActivePricePolicy s clientId orderDate = None)
      = (\<forall>pp \<in> set (price_policies s). \<forall>sc \<in> set (service_catalog s).
           \<not> policy_active_on clientId orderDate (pp, sc)))
   \<and> (resolveActivePricePolicy s clientId orderDate = Some p \<longrightarrow>
        (\<exists>pp \<in> set (price_policies s). \<exists>sc \<in> set (service_catalog s).
            policy_active_on clientId orderDate (pp, sc)
            \<and> p = \<lparr>pr_id = pp_id pp, pr_service_id = pp_service_id pp, pr_unit_price = pp_unit_price pp,
                     pr_currency = pp_currency pp, pr_billing_basis = sc_billing_basis sc\<rparr>
            \<and> (\<forall>pp' \<in> set (price_policies s). \<forall>sc' \<in> set (service_catalog s).
                   policy_active_on clientId orderDate (pp', sc') \<longrightarrow>
                   pp_effective_from pp' < pp_effective_from pp
                   \<or> (pp_effective_from pp' = pp_effective_from pp \<and> pp_id pp' \<le> pp_id pp))))
   \<and> (resolveActivePricePolicy s (oe_clientId params) (oe_orderDate params) = None \<longrightarrow>
        upsertOutboundServiceEvent now params s = (None, s))"
proof (intro conjI impI)
  show "(resolveActivePricePolicy s clientId orderDate = None)
      = (\<forall>pp \<in> set (price_policies s). \<forall>sc \<in> set (service_catalog s).
           \<not> policy_active_on clientId orderDate (pp, sc))"
    unfolding resolve_None
    using candidates_iff [of _ s clientId orderDate]
    by (metis all_not_in_conv fst_conv set_empty snd_conv surjective_pairing)
next
  assume "resolveActivePricePolicy s clientId orderDate = Some p"
  from resolve_Some [OF this] obtain pp sc where
    c: "(pp, sc) \<in> set (policy_candidates s clientId orderDate)"
    and p: "p = \<lparr>pr_id = pp_id pp, pr_service_id = pp_service_id pp, pr_unit_price = pp_unit_price pp,
                    pr_currency = pp_currency pp, pr_billing_basis = sc_billing_basis sc\<rparr>"
    and g: "\<forall>j \<in> set (policy_candidates s clientId orderDate).
                  (pp_effective_from (fst j), pp_id (fst j)) \<le> (pp_effective_from pp, pp_id pp)"
    by blast
  have best: "pp_effective_from pp' < pp_effective_from pp
                \<or> (pp_effective_from pp' = pp_effective_from pp \<and> pp_id pp' \<le> pp_id pp)"
    if "pp' \<in> set (price_policies s)" "sc' \<in> set (service_catalog s)"
      "policy_active_on clientId orderDate (pp', sc')" for pp' sc'
  proof -
    from that have "(pp', sc') \<in> set (policy_candidates s clientId orderDate)"
      by (simp add: candidates_iff)
    with g have "(pp_effective_from pp', pp_id pp') \<le> (pp_effective_from pp, pp_id pp)" by force
    then show ?thesis by (rule lex_le_cases)
  qed
  from c have "pp \<in> set (price_policies s)" "sc \<in> set (service_catalog s)"
    "policy_active_on clientId orderDate (pp, sc)"
    by (simp_all add: candidates_iff)
  with p best show "\<exists>pp \<in> set (price_policies s). \<exists>sc \<in> set (service_catalog s).
            policy_active_on clientId orderDate (pp, sc)
            \<and> p = \<lparr>pr_id = pp_id pp, pr_service_id = pp_service_id pp, pr_unit_price = pp_unit_price pp,
                     pr_currency = pp_currency pp, pr_billing_basis = sc_billing_basis sc\<rparr>
            \<and> (\<forall>pp' \<in> set (price_policies s). \<forall>sc' \<in> set (service_catalog s).
                   policy_active_on clientId orderDate (pp', sc') \<longrightarrow>
                   pp_effective_from pp' < pp_effective_from pp
                   \<or> (pp_effective_from pp' = pp_effective_from pp \<and> pp_id pp' \<le> pp_id pp))"
    by blast
next
  assume "resolveActivePricePolicy s (oe_clientId params) (oe_orderDate params) = None"
  then show "upsertOutboundServiceEvent now params s = (None, s)"
    by (simp add: upsertOutboundServiceEvent_def)
qed

theorem price_resolution_witness:
  "resolveActivePricePolicy priced_db 7 (2026, 2, 10)
     = Some \<lparr>pr_id = 3, pr_service_id = 1, pr_unit_price = 120, pr_currency = ''THB'',
              pr_billing_basis = ''QTY''\<rparr>
   \<and> pp_effective_from policy_jan < pp_effective_from policy_feb
   \<and> resolveActivePricePolicy priced_db 7 (2024, 1, 1) = None
   \<and> upsertOutboundServiceEvent 50 (outbound_params\<lparr>oe_orderDate := (2024, 1, 1)\<rparr>) priced_db
       = (None, priced_db)"
proof -
  have some: "resolveActivePricePolicy priced_db 7 (2026, 2, 10)
     = Some \<lparr>pr_id = 3, pr_service_id = 1, pr_unit_price = 120, pr_currency = ''THB'',
              pr_billing_basis = ''QTY''\<rparr>"
    by code_simp
  have none: "resolveActivePricePolicy priced_db (oe_clientId (outbound_params\<lparr>oe_orderDate := (2024, 1, 1)\<rparr>))
                (oe_orderDate (outbound_params\<lparr>oe_orderDate := (2024, 1, 1)\<rparr>)) = None"
    by code_simp
  have none': "resolveActivePricePolicy priced_db 7 (2024, 1, 1) = None"
    by code_simp
  have jan: "policy_jan \<in> set (price_policies priced_db)" "shipping_service \<in> set (service_catalog priced_db)"
    "policy_active_on 7 (2026, 2, 10) (policy_jan, shipping_service)"
    by (simp_all add: priced_db_def empty_db_def policy_active_on_def policy_jan_def shipping_service_def)
  note t = price_resolution [of priced_db 7 "(2026, 2, 10)"
      "\<lparr>pr_id = 3, pr_service_id = 1, pr_unit_price = 120, pr_currency = ''THB'', pr_billing_basis = ''QTY''\<rparr>"
      "outbound_params\<lparr>oe_orderDate := (2024, 1, 1)\<rparr>" 50]
  from t none have up: "upsertOutboundServiceEvent 50 (outbound_params\<lparr>oe_orderDate := (2024, 1, 1)\<rparr>) priced_db
       = (None, priced_db)"
    by blast
  from t [THEN conjunct2, THEN conjunct1, rule_format, OF some]
  have "\<exists>pp \<in> set (price_policies priced_db). \<exists>sc \<in> set (service_catalog priced_db).
           policy_active_on 7 (2026, 2, 10) (pp, sc) \<and> pp_id pp = 3"
    by auto
  have lt: "pp_effective_from policy_jan < pp_effective_from policy_feb"
    by (simp add: policy_jan_def policy_feb_def)
  show ?thesis using some none' up lt by simp
qed

section \<open>The invoice generator: auxiliary facts\<close>

lemma fresh_id_greater: "x \<in> set ids \<Longrightarrow> x < fresh_id ids"
  by (induction ids) (auto simp: fresh_id_def)

lemma find_append_skip: "\<forall>x \<in> set xs. \<not> P x \<Longrightarrow> find P (xs @ ys) = find P ys"
  by (induction xs) auto

lemma map_fresh_untouched:
  fixes xs :: "invoice list"
  shows "map (\<lambda>i. if inv_id i = fresh_id (map inv_id xs) then f i else i) xs = xs"
proof (rule map_idI)
  fix x assume "x \<in> set xs"
  then have "inv_id x < fresh_id (map inv_id xs)" by (simp add: fresh_id_greater)
  then show "(if inv_id x = fresh_id (map inv_id xs) then f x else x) = x" by simp
qed

lemma resolveInvoiceSequence_frame:
  "invoices (snd (resolveInvoiceSequence c y s)) = invoices s"
  "invoice_items (snd (resolveInvoiceSequence c y s)) = invoice_items s"
  "billing_events (snd (resolveInvoiceSequence c y s)) = billing_events s"
  "exchange_rates (snd (resolveInvoiceSequence c y s)) = exchange_rates s"
  "service_catalog (snd (resolveInvoiceSequence c y s)) = service_catalog s"
  by (simp_all add: resolveInvoiceSequence_def Let_def split: option.splits)

lemma invoice_events_frame:
  "invoices (snd (invoice_events fx i evs g s)) = invoices s"
  "invoice_items (snd (invoice_events fx i evs g s)) = invoice_items s"
  "invoice_sequences (snd (invoice_events fx i evs g s)) = invoice_sequences s"
  "exchange_rates (snd (invoice_events fx i evs g s)) = exchange_rates s"
  by (induction evs arbitrary: g s) (simp_all add: Let_def)

lemma insert_items_frame:
  "invoices (snd (insert_items i g acc s)) = invoices s"
  "billing_events (snd (insert_items i g acc s)) = billing_events s"
  "invoice_sequences (snd (insert_items i g acc s)) = invoice_sequences s"
  "exchange_rates (snd (insert_items i g acc s)) = exchange_rates s"
  by (induction i g acc s rule: insert_items.induct) (simp_all add: Let_def)

lemma create_invoice_unfold:
  assumes seq: "resolveInvoiceSequence (gp_client_id p) (remove_first CHR ''-'' (gp_invoice_month p)) s = (nextSeq, s1)"
    and no: "invoiceNo = ''KRW-'' @ js_String (gp_client_id p) @ ''-''
               @ remove_first CHR ''-'' (gp_invoice_month p) @ ''-'' @ padStart 4 CHR ''0'' (js_String nextSeq)"
    and iid: "invoiceId = fresh_id (map inv_id (invoices s))"
    and row: "row = draft_invoice_row cb p (er_rate fxRow) invoiceNo invoiceId"
    and evs: "invoice_events (er_rate fxRow) invoiceId events [] (s1\<lparr>invoices := invoices s @ [row]\<rparr>) = (grouped, s3)"
    and its: "insert_items invoiceId grouped 0 s3 = (itemSum, s4)"
    and sub: "subtotalKrw = trunc100 itemSum"
    and vat: "vatKrw = trunc100 (subtotalKrw * (7 / 100))"
    and tot: "totalKrw = trunc100 (subtotalKrw + vatKrw)"
  shows "create_invoice cb p fxRow events s =
           (Generated (Some (set_totals subtotalKrw vatKrw totalKrw row)) (length events) (er_id fxRow),
            s4\<lparr>invoice_items := invoice_items s4
                    @ [vat_item (fresh_id (map ii_id (invoice_items s4))) invoiceId vatKrw],
                invoices := invoices s @ [set_totals subtotalKrw vatKrw totalKrw row]\<rparr>)"
proof -
  have i1: "invoices s1 = invoices s"
    using resolveInvoiceSequence_frame(1) [of "gp_client_id p" "remove_first CHR ''-'' (gp_invoice_month p)" s] seq
    by simp
  have i3: "invoices s3 = invoices s @ [row]"
    using invoice_events_frame(1) [of "er_rate fxRow" invoiceId events "[]" "s1\<lparr>invoices := invoices s @ [row]\<rparr>"] evs
    by simp
  have i4: "invoices s4 = invoices s @ [row]"
    using insert_items_frame(1) [of invoiceId grouped 0 s3] its i3 by simp
  have rid: "inv_id row = invoiceId" by (simp add: row draft_invoice_row_def)
  have upd: "map (\<lambda>i. if inv_id i = invoiceId then set_totals subtotalKrw vatKrw totalKrw i else i)
               (invoices s) = invoices s"
    using map_fresh_untouched [where f = "set_totals subtotalKrw vatKrw totalKrw" and xs = "invoices s"]
    by (simp add: iid)
  have old: "\<forall>x \<in> set (invoices s). \<not> inv_id x = invoiceId"
    using fresh_id_greater [of _ "map inv_id (invoices s)"] by (fastforce simp: iid)
  have fnd: "find (\<lambda>i. inv_id i = invoiceId) (invoices s @ [set_totals subtotalKrw vatKrw totalKrw row])
               = Some (set_totals subtotalKrw vatKrw totalKrw row)"
    using rid by (simp add: find_append_skip [OF old] set_totals_def)
  show ?thesis
    unfolding create_invoice_def Let_def seq prod.case i1
    unfolding no [symmetric] iid [symmetric]
    unfolding row [symmetric]
    unfolding evs prod.case its
    unfolding prod.case sub [symmetric]
    unfolding vat [symmetric]
    unfolding tot [symmetric]
    by (simp add: i4 rid upd fnd)
qed


lemma create_invoice_cases:
  obtains nextSeq s1 grouped s3 itemSum s4 row where
    "resolveInvoiceSequence (gp_client_id p) (remove_first CHR ''-'' (gp_invoice_month p)) s = (nextSeq, s1)"
    and "row = draft_invoice_row cb p (er_rate fxRow)
           (''KRW-'' @ js_String (gp_client_id p) @ ''-''
              @ remove_first CHR ''-'' (gp_invoice_month p) @ ''-'' @ padStart 4 CHR ''0'' (js_String nextSeq))
           (fresh_id (map inv_id (invoices s)))"
    and "invoice_events (er_rate fxRow) (fresh_id (map inv_id (invoices s))) events []
           (s1\<lparr>invoices := invoices s @ [row]\<rparr>) = (grouped, s3)"
    and "insert_items (fresh_id (map inv_id (invoices s))) grouped 0 s3 = (itemSum, s4)"
    and "create_invoice cb p fxRow events s =
           (Generated (Some (set_totals (trunc100 itemSum) (trunc100 (trunc100 itemSum * (7 / 100)))
                               (trunc100 (trunc100 itemSum + trunc100 (trunc100 itemSum * (7 / 100)))) row))
              (length events) (er_id fxRow),
            s4\<lparr>invoice_items := invoice_items s4
                    @ [vat_item (fresh_id (map ii_id (invoice_items s4))) (fresh_id (map inv_id (invoices s)))
                         (trunc100 (trunc100 itemSum * (7 / 100)))],
                invoices := invoices s
                    @ [set_totals (trunc100 itemSum) (trunc100 (trunc100 itemSum * (7 / 100)))
                         (trunc100 (trunc100 itemSum + trunc100 (trunc100 itemSum * (7 / 100)))) row]\<rparr>)"
proof -
  obtain nextSeq s1 where 1:
    "resolveInvoiceSequence (gp_client_id p) (remove_first CHR ''-'' (gp_invoice_month p)) s = (nextSeq, s1)"
    by (cases "resolveInvoiceSequence (gp_client_id p) (remove_first CHR ''-'' (gp_invoice_month p)) s")
  define row where "row = draft_invoice_row cb p (er_rate fxRow)
           (''KRW-'' @ js_String (gp_client_id p) @ ''-''
              @ remove_first CHR ''-'' (gp_invoice_month p) @ ''-'' @ padStart 4 CHR ''0'' (js_String nextSeq))
           (fresh_id (map inv_id (invoices s)))"
  obtain grouped s3 where 2:
    "invoice_events (er_rate fxRow) (fresh_id (map inv_id (invoices s))) events []
           (s1\<lparr>invoices := invoices s @ [row]\<rparr>) = (grouped, s3)"
    by (cases "invoice_events (er_rate fxRow) (fresh_id (map inv_id (invoices s))) events []
           (s1\<lparr>invoices := invoices s @ [row]\<rparr>)")
  obtain itemSum s4 where 3: "insert_items (fresh_id (map inv_id (invoices s))) grouped 0 s3 = (itemSum, s4)"
    by (cases "insert_items (fresh_id (map inv_id (invoices s))) grouped 0 s3")
  from create_invoice_unfold [OF 1 refl refl row_def 2 3 refl refl refl] that [OF 1 row_def 2 3]
  show thesis by blast
qed

lemma create_invoice_row:
  assumes "create_invoice cb p fxRow events s = (r, s')"
  shows "\<exists>row. r = Generated (Some row) (length events) (er_id fxRow)
           \<and> invoices s' = invoices s @ [row]
           \<and> inv_id row = fresh_id (map inv_id (invoices s))
           \<and> inv_client_id row = gp_client_id p
           \<and> inv_invoice_month row = Some (gp_invoice_month p)
           \<and> inv_status row = Draft \<and> inv_deleted_at row = None
           \<and> inv_created_by row = cb \<and> inv_currency row = ''KRW''
           \<and> inv_fx_rate_thbkrw row = Some (er_rate fxRow)
           \<and> inv_invoice_no row = ''KRW-'' @ js_String (gp_client_id p) @ ''-''
                @ remove_first CHR ''-'' (gp_invoice_month p) @ ''-''
                @ padStart 4 CHR ''0'' (js_String (fst (resolveInvoiceSequence (gp_client_id p)
                      (remove_first CHR ''-'' (gp_invoice_month p)) s)))"
proof -
  obtain nextSeq s1 grouped s3 itemSum s4 row where
    1: "resolveInvoiceSequence (gp_client_id p) (remove_first CHR ''-'' (gp_invoice_month p)) s = (nextSeq, s1)"
    and row: "row = draft_invoice_row cb p (er_rate fxRow)
           (''KRW-'' @ js_String (gp_client_id p) @ ''-''
              @ remove_first CHR ''-'' (gp_invoice_month p) @ ''-'' @ padStart 4 CHR ''0'' (js_String nextSeq))
           (fresh_id (map inv_id (invoices s)))"
    and c: "create_invoice cb p fxRow events s =
           (Generated (Some (set_totals (trunc100 itemSum) (trunc100 (trunc100 itemSum * (7 / 100)))
                               (trunc100 (trunc100 itemSum + trunc100 (trunc100 itemSum * (7 / 100)))) row))
              (length events) (er_id fxRow),
            s4\<lparr>invoice_items := invoice_items s4
                    @ [vat_item (fresh_id (map ii_id (invoice_items s4))) (fresh_id (map inv_id (invoices s)))
                         (trunc100 (trunc100 itemSum * (7 / 100)))],
                invoices := invoices s
                    @ [set_totals (trunc100 itemSum) (trunc100 (trunc100 itemSum * (7 / 100)))
                         (trunc100 (trunc100 itemSum + trunc100 (trunc100 itemSum * (7 / 100)))) row]\<rparr>)"
    by (rule create_invoice_cases [of p s cb fxRow events])
  show ?thesis
    using assms c 1 by (auto simp: row set_totals_def draft_invoice_row_def)
qed

lemma lock_rate_frame:
  "invoices (lock_rate i s) = invoices s"
  "billing_events (lock_rate i s) = billing_events s"
  "invoice_items (lock_rate i s) = invoice_items s"
  "invoice_sequences (lock_rate i s) = invoice_sequences s"
  by (simp_all add: lock_rate_def)

lemma pending_events_lock: "pending_events c m (lock_rate i s) = pending_events c m s"
  by (simp add: pending_events_def lock_rate_frame)

lemma generate_fresh_generated:
  assumes "generate_fresh cb p s = (Inr r, s')"
  shows "\<exists>fxRow events. select_fx_rate (gp_invoice_date p) s = Some fxRow
           \<and> events = pending_events (gp_client_id p) (gp_invoice_month p) s \<and> events \<noteq> []
           \<and> create_invoice cb p fxRow events (lock_rate (er_id fxRow) s) = (r, s')"
  using assms
  by (auto simp: generate_fresh_def Let_def pending_events_lock split: option.splits if_splits prod.splits)

lemma existing_invoice_after:
  assumes "existing_invoice c m s = None"
    and "invoices s' = invoices s @ [row]"
    and "inv_client_id row = c" "inv_invoice_month row = Some m" "inv_deleted_at row = None"
  shows "existing_invoice c m s' = Some row"
  using assms by (simp add: existing_invoice_def first_desc_None)

text \<open>The scenario of the specification, evaluated: the generation on \<^const>\<open>scenario_db\<close>
  creates \<^const>\<open>invoice_draft\<close> and leaves \<^const>\<open>draft_db\<close>.\<close>

lemma scenario_generation:
  "generate_body 5 None scenario_payload scenario_db = (Inr (Generated (Some invoice_draft) 1 1), draft_db)"
  by code_simp

lemma first_desc_unique_max:
  assumes "x \<in> set xs" and "\<forall>y \<in> set xs. y \<noteq> x \<longrightarrow> key y < key x"
  shows "first_desc key xs = Some x"
proof (cases "first_desc key xs")
  case None
  then show ?thesis using assms(1) by (simp add: first_desc_None)
next
  case (Some z)
  from first_desc_greatest [OF Some] have z: "z \<in> set xs" "key x \<le> key z" using assms(1) by auto
  then have "z = x" using assms(2) by force
  with Some show ?thesis by simp
qed

lemma existing_invoice_latest:
  assumes "d \<in> set (invoices s)"
    and "inv_client_id d = c" and "inv_invoice_month d = Some m" and "inv_deleted_at d = None"
    and "\<forall>i \<in> set (invoices s). inv_client_id i = c \<and> inv_invoice_month i = Some m
             \<and> inv_deleted_at i = None \<and> i \<noteq> d \<longrightarrow> inv_id i < inv_id d"
  shows "existing_invoice c m s = Some d"
  unfolding existing_invoice_def
  using assms by (intro first_desc_unique_max) auto

text \<open>
  Claim C2, as the code has it. The handler looks at one invoice only: the live invoice of
  (client, month) with the highest id. Without regeneration: when that invoice is a draft,
  the callback returns its id and the database it was given, whoever calls and whenever; when
  it is not a draft, the callback fails with INVOICE_ALREADY_ISSUED and writes nothing,
  whatever drafts of lower id there are. And a call that succeeds, by reuse or by creating
  the invoice, is followed by calls that return the same invoice id and write nothing.
\<close>

theorem generate_idempotent:
  assumes "gp_regenerate_draft p = 0"
  shows "(d \<in> set (invoices s) \<and> inv_client_id d = gp_client_id p
            \<and> inv_invoice_month d = Some (gp_invoice_month p) \<and> inv_deleted_at d = None
            \<and> (\<forall>i \<in> set (invoices s). inv_client_id i = gp_client_id p
                    \<and> inv_invoice_month i = Some (gp_invoice_month p)
                    \<and> inv_deleted_at i = None \<and> i \<noteq> d \<longrightarrow> inv_id i < inv_id d)
            \<longrightarrow> generate_body now sub p s =
                  (if inv_status d = Draft then (Inr (Reused (inv_id d)), s)
                   else (Inl INVOICE_ALREADY_ISSUED, s)))
       \<and> (generate_body now sub p s = (Inr r, s')
            \<longrightarrow> (\<exists>i. result_invoice_id r = Some i
                   \<and> generate_body now' sub' p s' = (Inr (Reused i), s')))"
proof (intro conjI impI)
  assume a: "d \<in> set (invoices s) \<and> inv_client_id d = gp_client_id p
            \<and> inv_invoice_month d = Some (gp_invoice_month p) \<and> inv_deleted_at d = None
            \<and> (\<forall>i \<in> set (invoices s). inv_client_id i = gp_client_id p
                    \<and> inv_invoice_month i = Some (gp_invoice_month p)
                    \<and> inv_deleted_at i = None \<and> i \<noteq> d \<longrightarrow> inv_id i < inv_id d)"
  then have "existing_invoice (gp_client_id p) (gp_invoice_month p) s = Some d"
    by (intro existing_invoice_latest) simp_all
  then show "generate_body now sub p s =
                  (if inv_status d = Draft then (Inr (Reused (inv_id d)), s)
                   else (Inl INVOICE_ALREADY_ISSUED, s))"
    using assms by (simp add: generate_body_def)
next
  assume ok: "generate_body now sub p s = (Inr r, s')"
  show "\<exists>i. result_invoice_id r = Some i \<and> generate_body now' sub' p s' = (Inr (Reused i), s')"
  proof (cases "existing_invoice (gp_client_id p) (gp_invoice_month p) s")
    case (Some d)
    with ok assms have "inv_status d = Draft" "r = Reused (inv_id d)" "s' = s"
      by (auto simp: generate_body_def split: if_splits)
    with Some assms show ?thesis
      by (simp add: generate_body_def result_invoice_id_def)
  next
    case None
    with ok have "generate_fresh (parseCreator sub (gp_created_by p)) p s = (Inr r, s')"
      by (simp add: generate_body_def)
    from generate_fresh_generated [OF this] obtain fxRow events where
      c: "create_invoice (parseCreator sub (gp_created_by p)) p fxRow events (lock_rate (er_id fxRow) s) = (r, s')"
      by blast
    from create_invoice_row [OF c] obtain row where
      row: "r = Generated (Some row) (length events) (er_id fxRow)"
        "invoices s' = invoices (lock_rate (er_id fxRow) s) @ [row]"
        "inv_client_id row = gp_client_id p" "inv_invoice_month row = Some (gp_invoice_month p)"
        "inv_status row = Draft" "inv_deleted_at row = None"
      by blast
    have "existing_invoice (gp_client_id p) (gp_invoice_month p) s' = Some row"
      using existing_invoice_after [OF None, of s' row] row by (simp add: lock_rate_frame)
    with row assms show ?thesis
      by (simp add: generate_body_def result_invoice_id_def)
  qed
qed

theorem generate_idempotent_witness:
  "generate_body 5 None scenario_payload scenario_db = (Inr (Generated (Some invoice_draft) 1 1), draft_db)
   \<and> generate_body 6 (Some 3) scenario_payload draft_db = (Inr (Reused 1), draft_db)
   \<and> generate_body 6 (Some 3) scenario_payload issued_db = (Inl INVOICE_ALREADY_ISSUED, issued_db)"
proof -
  have z: "gp_regenerate_draft scenario_payload = 0" by (simp add: scenario_payload_def)
  have g: "generate_body 5 None scenario_payload scenario_db = (Inr (Generated (Some invoice_draft) 1 1), draft_db)"
    by (rule scenario_generation)
  have e: "invoice_draft \<in> set (invoices draft_db) \<and> inv_client_id invoice_draft = gp_client_id scenario_payload
            \<and> inv_invoice_month invoice_draft = Some (gp_invoice_month scenario_payload)
            \<and> inv_deleted_at invoice_draft = None
            \<and> (\<forall>i \<in> set (invoices draft_db). inv_client_id i = gp_client_id scenario_payload
                    \<and> inv_invoice_month i = Some (gp_invoice_month scenario_payload)
                    \<and> inv_deleted_at i = None \<and> i \<noteq> invoice_draft \<longrightarrow> inv_id i < inv_id invoice_draft)"
    by (simp add: draft_db_def empty_db_def invoice_draft_def scenario_payload_def)
  have e': "invoice_draft\<lparr>inv_status := Issued\<rparr> \<in> set (invoices issued_db)
            \<and> inv_client_id (invoice_draft\<lparr>inv_status := Issued\<rparr>) = gp_client_id scenario_payload
            \<and> inv_invoice_month (invoice_draft\<lparr>inv_status := Issued\<rparr>) = Some (gp_invoice_month scenario_payload)
            \<and> inv_deleted_at (invoice_draft\<lparr>inv_status := Issued\<rparr>) = None
            \<and> (\<forall>i \<in> set (invoices issued_db). inv_client_id i = gp_client_id scenario_payload
                    \<and> inv_invoice_month i = Some (gp_invoice_month scenario_payload)
                    \<and> inv_deleted_at i = None \<and> i \<noteq> invoice_draft\<lparr>inv_status := Issued\<rparr>
                  \<longrightarrow> inv_id i < inv_id (invoice_draft\<lparr>inv_status := Issued\<rparr>))"
    by (simp add: issued_db_def draft_db_def empty_db_def invoice_draft_def scenario_payload_def)
  from generate_idempotent [OF z, of invoice_draft draft_db 6 "Some 3"] e
  have "generate_body 6 (Some 3) scenario_payload draft_db =
          (if inv_status invoice_draft = Draft then (Inr (Reused (inv_id invoice_draft)), draft_db)
           else (Inl INVOICE_ALREADY_ISSUED, draft_db))"
    by blast
  then have a: "generate_body 6 (Some 3) scenario_payload draft_db = (Inr (Reused 1), draft_db)"
    by (simp add: invoice_draft_def)
  from generate_idempotent [OF z, of "invoice_draft\<lparr>inv_status := Issued\<rparr>" issued_db 6 "Some 3"] e'
  have "generate_body 6 (Some 3) scenario_payload issued_db =
          (if inv_status (invoice_draft\<lparr>inv_status := Issued\<rparr>) = Draft
           then (Inr (Reused (inv_id (invoice_draft\<lparr>inv_status := Issued\<rparr>))), issued_db)
           else (Inl INVOICE_ALREADY_ISSUED, issued_db))"
    by blast
  then have b: "generate_body 6 (Some 3) scenario_payload issued_db = (Inl INVOICE_ALREADY_ISSUED, issued_db)"
    by simp
  from generate_idempotent [OF z, of invoice_draft scenario_db 5 None "Generated (Some invoice_draft) 1 1" draft_db 6 "Some 3"] g
  have "\<exists>i. result_invoice_id (Generated (Some invoice_draft) 1 1) = Some i
           \<and> generate_body 6 (Some 3) scenario_payload draft_db = (Inr (Reused i), draft_db)"
    by blast
  then show ?thesis using g a b by simp
qed

text \<open>
  Claim C2 as stated fails when the draft is not the latest invoice of the month. The issued
  invoice 1 of the scenario is duplicated by the administrator (draft 2), duplicated again
  (draft 3), and draft 3 is issued. Client 7 then has a live draft for 2026-02, invoice 2,
  and regeneration is not requested, yet the generation does not return it: it is refused
  with INVOICE_ALREADY_ISSUED, because the handler sees invoice 3 only.
\<close>

theorem generate_draft_not_latest_counterexample:
  "duplicated_db = snd (billing_issue_body 3 (snd (duplicate_admin_body 1 (snd (duplicate_admin_body 1
       (snd (billing_issue_body 1 draft_db)))))))
   \<and> map inv_id (invoices duplicated_db) = [1, 2, 3]
   \<and> map inv_client_id (invoices duplicated_db) = [7, 7, 7]
   \<and> map inv_invoice_month (invoices duplicated_db) = [Some ''2026-02'', Some ''2026-02'', Some ''2026-02'']
   \<and> map inv_deleted_at (invoices duplicated_db) = [None, None, None]
   \<and> map inv_status (invoices duplicated_db) = [Issued, Draft, Issued]
   \<and> gp_client_id scenario_payload = 7 \<and> gp_invoice_month scenario_payload = ''2026-02''
   \<and> gp_regenerate_draft scenario_payload = 0
   \<and> generate_body 6 None scenario_payload duplicated_db = (Inl INVOICE_ALREADY_ISSUED, duplicated_db)"
  by code_simp

section \<open>Failed generations\<close>

lemma withTransaction_failure:
  assumes "withTransaction body s = (Inl e, s')"
  shows "s' = s \<and> (\<exists>t. body s = (Inl e, t))"
  using assms by (auto simp: withTransaction_def split: prod.splits sum.splits)

lemma release_draft_ids: "map inv_id (invoices (release_draft now i s)) = map inv_id (invoices s)"
  by (simp add: release_draft_def comp_def if_distrib cong: if_cong)

lemma generate_fresh_failure:
  assumes "generate_fresh cb p s = (Inl e, s')"
  shows "invoices s' = invoices s \<and> (e = FX_NOT_FOUND \<or> e = NO_PENDING_EVENTS)"
  using assms
  by (auto simp: generate_fresh_def Let_def lock_rate_frame split: option.splits if_splits prod.splits)

lemma generate_body_failure:
  assumes "generate_body now sub p s = (Inl e, s')"
  shows "map inv_id (invoices s') = map inv_id (invoices s)"
proof (cases "existing_invoice (gp_client_id p) (gp_invoice_month p) s")
  case None
  with assms show ?thesis
    by (auto simp: generate_body_def dest: generate_fresh_failure)
next
  case (Some d)
  with assms show ?thesis
    by (auto simp: generate_body_def release_draft_ids split: if_splits dest!: generate_fresh_failure)
qed

lemma generate_no_pending:
  assumes "existing_invoice (gp_client_id p) (gp_invoice_month p) s = None"
    and "select_fx_rate (gp_invoice_date p) s = Some fxRow"
    and "pending_events (gp_client_id p) (gp_invoice_month p) s = []"
  shows "generate_body now sub p s = (Inl NO_PENDING_EVENTS, lock_rate (er_id fxRow) s)"
  using assms by (simp add: generate_body_def generate_fresh_def Let_def pending_events_lock)

text \<open>Without a rollback the failed callback's writes would stay: in the scenario, asked
  for March, it has set \<^verbatim>\<open>locked = 1\<close> on the rate before it finds no events.\<close>

lemma generate_body_writes_before_failure:
  "generate_body 5 None march_payload scenario_db
     = (Inl NO_PENDING_EVENTS, scenario_db\<lparr>exchange_rates := [rate40\<lparr>er_locked := 1\<rparr>]\<rparr>)"
  by code_simp

text \<open>Likewise when regenerating: asked to regenerate the draft with an invoice date before
  every rate, the callback has released the event and tombstoned the draft and its items
  before it finds no rate.\<close>

lemma regenerate_writes_before_failure:
  "fst (generate_body 5 None (scenario_payload\<lparr>gp_regenerate_draft := 1, gp_invoice_date := ''2026-01-15''\<rparr>) draft_db)
     = Inl FX_NOT_FOUND
   \<and> map inv_deleted_at (invoices (snd (generate_body 5 None
         (scenario_payload\<lparr>gp_regenerate_draft := 1, gp_invoice_date := ''2026-01-15''\<rparr>) draft_db))) = [Some 5]
   \<and> map be_status (billing_events (snd (generate_body 5 None
         (scenario_payload\<lparr>gp_regenerate_draft := 1, gp_invoice_date := ''2026-01-15''\<rparr>) draft_db))) = [PENDING]"
  by code_simp

text \<open>
  Claim C3. A generation that fails returns the database it was given: the transaction
  discards what the callback has written (the lock on the rate and, when regenerating, the
  release of the events and the tombstones on the old draft and its items). This holds of
  a request refused by the schema, too. Even before the rollback, the failed callback has
  inserted no invoice row. In particular, with no live invoice for (client, month), a rate
  on or before the invoice date and no pending event in the month, the result is
  NO_PENDING_EVENTS and the database is unchanged.
\<close>

theorem generate_failure_rolls_back:
  "(withTransaction (generate_body now sub p) s = (Inl e, s') \<longrightarrow> s' = s)
   \<and> (POST_billing_invoices_generate now sub rq s = (Inl e, s') \<longrightarrow> s' = s)
   \<and> (generate_body now sub p s = (Inl e, s') \<longrightarrow> map inv_id (invoices s') = map inv_id (invoices s))
   \<and> (existing_invoice (gp_client_id p) (gp_invoice_month p) s = None
        \<and> select_fx_rate (gp_invoice_date p) s = Some fxRow
        \<and> pending_events (gp_client_id p) (gp_invoice_month p) s = []
        \<longrightarrow> withTransaction (generate_body now sub p) s = (Inl NO_PENDING_EVENTS, s))"
proof (intro conjI impI)
  assume "withTransaction (generate_body now sub p) s = (Inl e, s')"
  then show "s' = s" by (simp add: withTransaction_failure)
next
  assume "POST_billing_invoices_generate now sub rq s = (Inl e, s')"
  then show "s' = s"
    by (auto simp: POST_billing_invoices_generate_def split: sum.splits dest: withTransaction_failure)
next
  assume "generate_body now sub p s = (Inl e, s')"
  then show "map inv_id (invoices s') = map inv_id (invoices s)" by (rule generate_body_failure)
next
  assume "existing_invoice (gp_client_id p) (gp_invoice_month p) s = None
        \<and> select_fx_rate (gp_invoice_date p) s = Some fxRow
        \<and> pending_events (gp_client_id p) (gp_invoice_month p) s = []"
  then have "generate_body now sub p s = (Inl NO_PENDING_EVENTS, lock_rate (er_id fxRow) s)"
    using generate_no_pending by blast
  then show "withTransaction (generate_body now sub p) s = (Inl NO_PENDING_EVENTS, s)"
    by (simp add: withTransaction_def)
qed

theorem generate_failure_rolls_back_witness:
  "withTransaction (generate_body 5 None march_payload) scenario_db = (Inl NO_PENDING_EVENTS, scenario_db)
   \<and> POST_billing_invoices_generate 5 None (scenario_request\<lparr>rq_invoice_month := Some ''2026-03''\<rparr>) scenario_db
       = (Inl NO_PENDING_EVENTS, scenario_db)
   \<and> invoices (snd (generate_body 5 None march_payload scenario_db)) = []"
proof -
  have h: "existing_invoice (gp_client_id march_payload) (gp_invoice_month march_payload) scenario_db = None
        \<and> select_fx_rate (gp_invoice_date march_payload) scenario_db = Some rate40
        \<and> pending_events (gp_client_id march_payload) (gp_invoice_month march_payload) scenario_db = []"
    by code_simp
  have w: "withTransaction (generate_body 5 None march_payload) scenario_db = (Inl NO_PENDING_EVENTS, scenario_db)"
    using generate_failure_rolls_back [of 5 None march_payload scenario_db NO_PENDING_EVENTS scenario_db
        "scenario_request\<lparr>rq_invoice_month := Some ''2026-03''\<rparr>" rate40] h
    by blast
  have v: "validate_generateInvoiceSchema (scenario_request\<lparr>rq_invoice_month := Some ''2026-03''\<rparr>)
             = Inr march_payload"
    by code_simp
  have r: "POST_billing_invoices_generate 5 None (scenario_request\<lparr>rq_invoice_month := Some ''2026-03''\<rparr>) scenario_db
       = (Inl NO_PENDING_EVENTS, scenario_db)"
    by (simp add: POST_billing_invoices_generate_def v w)
  have b: "generate_body 5 None march_payload scenario_db
     = (Inl NO_PENDING_EVENTS, snd (generate_body 5 None march_payload scenario_db))"
    using generate_body_writes_before_failure by simp
  have "map inv_id (invoices (snd (generate_body 5 None march_payload scenario_db)))
          = map inv_id (invoices scenario_db)"
    using generate_failure_rolls_back [of 5 None march_payload scenario_db NO_PENDING_EVENTS
        "snd (generate_body 5 None march_payload scenario_db)"
        "scenario_request\<lparr>rq_invoice_month := Some ''2026-03''\<rparr>" rate40] b
    by blast
  then have i: "invoices (snd (generate_body 5 None march_payload scenario_db)) = []"
    by (simp add: scenario_db_def empty_db_def)
  show ?thesis using w r i by simp
qed

section \<open>Invoice numbers\<close>

lemma find_append_case:
  "find P (xs @ ys) = (case find P xs of None \<Rightarrow> find P ys | Some x \<Rightarrow> Some x)"
  by (induction xs) auto

lemma find_map_preserve:
  assumes "\<And>x. P (g x) = P x"
  shows "find P (map g xs) = map_option g (find P xs)"
  using assms by (induction xs) auto

lemma resolve_seq_cong:
  assumes "invoice_sequences s = invoice_sequences t"
  shows "fst (resolveInvoiceSequence c y s) = fst (resolveInvoiceSequence c y t)"
    and "invoice_sequences (snd (resolveInvoiceSequence c y s)) = invoice_sequences (snd (resolveInvoiceSequence c y t))"
  using assms by (simp_all add: resolveInvoiceSequence_def Let_def split: option.splits)

lemma seq_next:
  "fst (resolveInvoiceSequence c y (snd (resolveInvoiceSequence c y s))) = fst (resolveInvoiceSequence c y s) + 1"
proof (cases "find (\<lambda>q. seq_client_id q = c \<and> seq_yyyymm q = y \<and> seq_deleted_at q = None) (invoice_sequences s)")
  case None
  then show ?thesis
    by (simp add: resolveInvoiceSequence_def find_append_case)
next
  case (Some row)
  have "find (\<lambda>q. seq_client_id q = c \<and> seq_yyyymm q = y \<and> seq_deleted_at q = None)
          (map (\<lambda>q. if seq_id q = seq_id row then q\<lparr>seq_last_seq := Suc (seq_last_seq row)\<rparr> else q)
             (invoice_sequences s))
        = Some (row\<lparr>seq_last_seq := Suc (seq_last_seq row)\<rparr>)"
    by (subst find_map_preserve) (simp_all add: Some)
  with Some show ?thesis
    by (simp add: resolveInvoiceSequence_def Let_def)
qed

lemma seq_first_and_stored:
  shows "find (\<lambda>q. seq_client_id q = c \<and> seq_yyyymm q = y \<and> seq_deleted_at q = None) (invoice_sequences s) = None \<Longrightarrow> fst (resolveInvoiceSequence c y s) = 1"
    and "find (\<lambda>q. seq_client_id q = c \<and> seq_yyyymm q = y \<and> seq_deleted_at q = None) (invoice_sequences s) = Some qrow \<Longrightarrow>
           fst (resolveInvoiceSequence c y s) = seq_last_seq qrow + 1"
    and "\<exists>qrow'. find (\<lambda>q. seq_client_id q = c \<and> seq_yyyymm q = y \<and> seq_deleted_at q = None) (invoice_sequences (snd (resolveInvoiceSequence c y s))) = Some qrow'
           \<and> seq_last_seq qrow' = fst (resolveInvoiceSequence c y s)"
proof -
  show "find (\<lambda>q. seq_client_id q = c \<and> seq_yyyymm q = y \<and> seq_deleted_at q = None) (invoice_sequences s) = None \<Longrightarrow> fst (resolveInvoiceSequence c y s) = 1"
    by (simp add: resolveInvoiceSequence_def)
  show "find (\<lambda>q. seq_client_id q = c \<and> seq_yyyymm q = y \<and> seq_deleted_at q = None) (invoice_sequences s) = Some qrow \<Longrightarrow>
           fst (resolveInvoiceSequence c y s) = seq_last_seq qrow + 1"
    by (simp add: resolveInvoiceSequence_def Let_def)
  show "\<exists>qrow'. find (\<lambda>q. seq_client_id q = c \<and> seq_yyyymm q = y \<and> seq_deleted_at q = None) (invoice_sequences (snd (resolveInvoiceSequence c y s))) = Some qrow'
           \<and> seq_last_seq qrow' = fst (resolveInvoiceSequence c y s)"
  proof (cases "find (\<lambda>q. seq_client_id q = c \<and> seq_yyyymm q = y \<and> seq_deleted_at q = None) (invoice_sequences s)")
    case None
    then show ?thesis
      by (simp add: resolveInvoiceSequence_def find_append_case)
  next
    case (Some row)
    have "find (\<lambda>q. seq_client_id q = c \<and> seq_yyyymm q = y \<and> seq_deleted_at q = None) (map (\<lambda>q. if seq_id q = seq_id row then q\<lparr>seq_last_seq := Suc (seq_last_seq row)\<rparr> else q)
             (invoice_sequences s))
        = Some (row\<lparr>seq_last_seq := Suc (seq_last_seq row)\<rparr>)"
      by (subst find_map_preserve) (simp_all add: Some)
    with Some show ?thesis
      by (simp add: resolveInvoiceSequence_def Let_def)
  qed
qed

lemma seq_other_key:
  assumes "distinct (map seq_id (invoice_sequences s))" and "(c', y') \<noteq> (c, y)"
  shows "fst (resolveInvoiceSequence c y (snd (resolveInvoiceSequence c' y' s))) = fst (resolveInvoiceSequence c y s)"
proof (cases "find (\<lambda>q. seq_client_id q = c' \<and> seq_yyyymm q = y' \<and> seq_deleted_at q = None) (invoice_sequences s)")
  case None
  then show ?thesis using assms(2)
    by (auto simp: resolveInvoiceSequence_def find_append_case Let_def split: option.splits)
next
  case (Some row')
  then have r': "row' \<in> set (invoice_sequences s)" "seq_client_id row' = c'" "seq_yyyymm row' = y'"
    by (auto simp: find_Some_iff)
  let ?g = "\<lambda>q. if seq_id q = seq_id row' then q\<lparr>seq_last_seq := Suc (seq_last_seq row')\<rparr> else q"
  let ?P = "\<lambda>q. seq_client_id q = c \<and> seq_yyyymm q = y \<and> seq_deleted_at q = None"
  have f: "find ?P (map ?g (invoice_sequences s)) = map_option ?g (find ?P (invoice_sequences s))"
    by (rule find_map_preserve) simp
  have same: "?g r = r" if "find ?P (invoice_sequences s) = Some r" for r
  proof -
    from that have r: "r \<in> set (invoice_sequences s)" "seq_client_id r = c" "seq_yyyymm r = y"
      by (auto simp: find_Some_iff)
    with r' assms(2) have "r \<noteq> row'" by auto
    with r(1) r'(1) assms(1) have "seq_id r \<noteq> seq_id row'"
      by (auto simp: distinct_map dest: inj_onD)
    then show ?thesis by simp
  qed
  show ?thesis
  proof (cases "find ?P (invoice_sequences s)")
    case None
    with Some f show ?thesis by (simp add: resolveInvoiceSequence_def Let_def)
  next
    case (Some r)
    with \<open>find _ (invoice_sequences s) = Some row'\<close> f same [OF Some] show ?thesis
      by (simp add: resolveInvoiceSequence_def Let_def)
  qed
qed

lemma js_String_length:
  assumes "n < 10 ^ k" and "0 < k"
  shows "length (js_String n) \<le> k"
  using assms
proof (induction k arbitrary: n)
  case 0
  then show ?case by simp
next
  case (Suc k)
  show ?case
  proof (cases "n < 10")
    case True
    then show ?thesis by (subst js_String.simps) simp
  next
    case False
    with Suc.prems have k: "0 < k" by (cases k) auto
    from Suc.prems have "n div 10 < 10 ^ k" by (simp add: less_mult_imp_div_less mult.commute)
    with Suc.IH k have "length (js_String (n div 10)) \<le> k" by blast
    with False show ?thesis by (subst js_String.simps) simp
  qed
qed

lemma seq4:
  "4 \<le> length (padStart 4 CHR ''0'' (js_String q))"
  "q < 10000 \<Longrightarrow> length (padStart 4 CHR ''0'' (js_String q)) = 4"
proof -
  show "4 \<le> length (padStart 4 CHR ''0'' (js_String q))" by (simp add: padStart_def)
  assume "q < 10000"
  then have "length (js_String q) \<le> 4" using js_String_length [of q 4] by simp
  then show "length (padStart 4 CHR ''0'' (js_String q)) = 4" by (simp add: padStart_def)
qed

lemma yyyymm_regex:
  assumes "month_regex m"
  shows "remove_first CHR ''-'' m = take 4 m @ drop 5 m \<and> length (remove_first CHR ''-'' m) = 6
           \<and> list_all is_digit (remove_first CHR ''-'' m)"
proof -
  from assms obtain a b c d e f where m: "m = [a, b, c, d, CHR ''-'', e, f]"
    and d: "list_all is_digit [a, b, c, d]" "list_all is_digit [e, f]"
    by (rule regex_cases)
  then show ?thesis by (auto dest: is_digit_not_dash)
qed

lemma copy_lines_frame:
  "invoices (copy_lines i ls s) = invoices s"
  "invoice_sequences (copy_lines i ls s) = invoice_sequences s"
  by (induction i ls s rule: copy_lines.induct) simp_all

lemma issue_created:
  assumes "issue_from_batch_body ip s = (Inr (IssueCreated r n), s')"
  shows "\<exists>batch row.
           find (\<lambda>b. sb_id b = ip_settlement_batch_id ip \<and> sb_deleted_at b = None) (settlement_batches s) = Some batch
           \<and> r = Some row \<and> invoices s' = invoices s @ [row]
           \<and> inv_currency row = ''KRW'' \<and> inv_status row = Issued
           \<and> inv_invoice_no row = ''INV-'' @ js_String (sb_client_id batch) @ ''-''
                @ remove_first CHR ''-'' (sb_billing_month batch) @ ''-''
                @ padStart 4 CHR ''0'' (js_String (fst (resolveInvoiceSequence (sb_client_id batch)
                      (remove_first CHR ''-'' (sb_billing_month batch)) s)))
           \<and> invoice_sequences s' = invoice_sequences (snd (resolveInvoiceSequence (sb_client_id batch)
                      (remove_first CHR ''-'' (sb_billing_month batch)) s))"
proof -
  from assms obtain batch where
    b: "find (\<lambda>b. sb_id b = ip_settlement_batch_id ip \<and> sb_deleted_at b = None) (settlement_batches s) = Some batch"
    and e: "find (\<lambda>i. inv_settlement_batch_id i = Some (sb_id batch) \<and> inv_deleted_at i = None) (invoices s) = None"
    by (auto simp: issue_from_batch_body_def split: option.splits)
  have old: "\<forall>x \<in> set (invoices s). \<not> inv_id x = fresh_id (map inv_id (invoices s))"
    using fresh_id_greater [of _ "map inv_id (invoices s)"] by fastforce
  show ?thesis
    using assms b e
    by (auto simp: issue_from_batch_body_def Let_def copy_lines_frame resolveInvoiceSequence_def
        find_append_skip [OF old] split: option.splits)
qed


lemma release_draft_frame:
  "invoice_sequences (release_draft now i s) = invoice_sequences s"
  "exchange_rates (release_draft now i s) = exchange_rates s"
  by (simp_all add: release_draft_def)

lemma generate_body_generated:
  assumes "generate_body now sub p s = (Inr (Generated r n k), s')"
  shows "\<exists>s0 fxRow events. (s0 = s \<or> (\<exists>d. s0 = release_draft now d s)) \<and> events \<noteq> []
           \<and> create_invoice (parseCreator sub (gp_created_by p)) p fxRow events (lock_rate (er_id fxRow) s0)
               = (Generated r n k, s')"
proof (cases "existing_invoice (gp_client_id p) (gp_invoice_month p) s")
  case None
  with assms have "generate_fresh (parseCreator sub (gp_created_by p)) p s = (Inr (Generated r n k), s')"
    by (simp add: generate_body_def)
  from generate_fresh_generated [OF this] show ?thesis by blast
next
  case (Some d)
  with assms have "generate_fresh (parseCreator sub (gp_created_by p)) p (release_draft now (inv_id d) s)
                     = (Inr (Generated r n k), s')"
    by (auto simp: generate_body_def split: if_splits)
  from generate_fresh_generated [OF this] show ?thesis by blast
qed

lemma create_invoice_sequences:
  assumes "create_invoice cb p fxRow events s = (r, s')"
  shows "invoice_sequences s' = invoice_sequences (snd (resolveInvoiceSequence (gp_client_id p)
            (remove_first CHR ''-'' (gp_invoice_month p)) s))"
proof -
  obtain nextSeq s1 grouped s3 itemSum s4 row where
    1: "resolveInvoiceSequence (gp_client_id p) (remove_first CHR ''-'' (gp_invoice_month p)) s = (nextSeq, s1)"
    and 2: "invoice_events (er_rate fxRow) (fresh_id (map inv_id (invoices s))) events []
           (s1\<lparr>invoices := invoices s @ [row]\<rparr>) = (grouped, s3)"
    and 3: "insert_items (fresh_id (map inv_id (invoices s))) grouped 0 s3 = (itemSum, s4)"
    and c: "create_invoice cb p fxRow events s =
           (Generated (Some (set_totals (trunc100 itemSum) (trunc100 (trunc100 itemSum * (7 / 100)))
                               (trunc100 (trunc100 itemSum + trunc100 (trunc100 itemSum * (7 / 100)))) row))
              (length events) (er_id fxRow),
            s4\<lparr>invoice_items := invoice_items s4
                    @ [vat_item (fresh_id (map ii_id (invoice_items s4))) (fresh_id (map inv_id (invoices s)))
                         (trunc100 (trunc100 itemSum * (7 / 100)))],
                invoices := invoices s
                    @ [set_totals (trunc100 itemSum) (trunc100 (trunc100 itemSum * (7 / 100)))
                         (trunc100 (trunc100 itemSum + trunc100 (trunc100 itemSum * (7 / 100)))) row]\<rparr>)"
    by (rule create_invoice_cases [of p s cb fxRow events])
  have "invoice_sequences s4 = invoice_sequences s3"
    using insert_items_frame(3) [of "fresh_id (map inv_id (invoices s))" grouped 0 s3] 3 by simp
  also have "\<dots> = invoice_sequences s1"
    using invoice_events_frame(3) [of "er_rate fxRow" "fresh_id (map inv_id (invoices s))" events "[]"
        "s1\<lparr>invoices := invoices s @ [row]\<rparr>"] 2 by simp
  finally show ?thesis using assms c 1 by auto
qed

text \<open>
  Claim C4, as the code has it. An invoice created by the generator is numbered
  \<^verbatim>\<open>KRW-{clientId}-{yyyymm}-{seq}\<close> and has currency KRW; an invoice issued from a
  settlement batch is numbered \<^verbatim>\<open>INV-{clientId}-{yyyymm}-{seq}\<close> and has currency KRW as
  well. In both, \<^verbatim>\<open>seq\<close> is the value that the counter of (client, yyyymm) returns, padded
  with zeros to at least four digits (exactly four below 10000), and the counter is advanced
  in the database. The counter returns 1 for a key that has no live counter row and the
  stored value plus one otherwise, and after the allocation the row of the key stores the
  value returned; so two consecutive allocations for a key return consecutive numbers. An
  allocation for another key leaves the next number of this key as it is (sequence row ids
  being unique). For a month of the shape \<^verbatim>\<open>dddd-dd\<close>, yyyymm is its six digits.
\<close>

theorem invoice_numbers:
  "(generate_body now sub p s = (Inr (Generated r n k), s') \<longrightarrow>
      (\<exists>row. r = Some row \<and> inv_currency row = ''KRW''
         \<and> inv_invoice_no row = ''KRW-'' @ js_String (gp_client_id p) @ ''-''
              @ remove_first CHR ''-'' (gp_invoice_month p) @ ''-''
              @ padStart 4 CHR ''0'' (js_String (fst (resolveInvoiceSequence (gp_client_id p)
                    (remove_first CHR ''-'' (gp_invoice_month p)) s)))
         \<and> invoice_sequences s' = invoice_sequences (snd (resolveInvoiceSequence (gp_client_id p)
                    (remove_first CHR ''-'' (gp_invoice_month p)) s))))
   \<and> (issue_from_batch_body ip s = (Inr (IssueCreated ir m), s') \<longrightarrow>
      (\<exists>batch row.
         find (\<lambda>b. sb_id b = ip_settlement_batch_id ip \<and> sb_deleted_at b = None) (settlement_batches s) = Some batch
         \<and> ir = Some row \<and> inv_currency row = ''KRW''
         \<and> inv_invoice_no row = ''INV-'' @ js_String (sb_client_id batch) @ ''-''
              @ remove_first CHR ''-'' (sb_billing_month batch) @ ''-''
              @ padStart 4 CHR ''0'' (js_String (fst (resolveInvoiceSequence (sb_client_id batch)
                    (remove_first CHR ''-'' (sb_billing_month batch)) s)))
         \<and> invoice_sequences s' = invoice_sequences (snd (resolveInvoiceSequence (sb_client_id batch)
                    (remove_first CHR ''-'' (sb_billing_month batch)) s))))
   \<and> fst (resolveInvoiceSequence c y (snd (resolveInvoiceSequence c y s))) = fst (resolveInvoiceSequence c y s) + 1
   \<and> (distinct (map seq_id (invoice_sequences s)) \<and> (c', y') \<noteq> (c, y) \<longrightarrow>
        fst (resolveInvoiceSequence c y (snd (resolveInvoiceSequence c' y' s))) = fst (resolveInvoiceSequence c y s))
   \<and> (month_regex mo \<longrightarrow> remove_first CHR ''-'' mo = take 4 mo @ drop 5 mo
        \<and> length (remove_first CHR ''-'' mo) = 6 \<and> list_all is_digit (remove_first CHR ''-'' mo))
   \<and> 4 \<le> length (padStart 4 CHR ''0'' (js_String q))
   \<and> js_Number (padStart 4 CHR ''0'' (js_String q)) = Some q
   \<and> (q < 10000 \<longrightarrow> length (padStart 4 CHR ''0'' (js_String q)) = 4)
   \<and> (find (\<lambda>q. seq_client_id q = c \<and> seq_yyyymm q = y \<and> seq_deleted_at q = None) (invoice_sequences s) = None
        \<longrightarrow> fst (resolveInvoiceSequence c y s) = 1)
   \<and> (find (\<lambda>q. seq_client_id q = c \<and> seq_yyyymm q = y \<and> seq_deleted_at q = None) (invoice_sequences s)
          = Some qrow
        \<longrightarrow> fst (resolveInvoiceSequence c y s) = seq_last_seq qrow + 1)
   \<and> (\<exists>qrow'. find (\<lambda>q. seq_client_id q = c \<and> seq_yyyymm q = y \<and> seq_deleted_at q = None)
                   (invoice_sequences (snd (resolveInvoiceSequence c y s))) = Some qrow'
          \<and> seq_last_seq qrow' = fst (resolveInvoiceSequence c y s))"
proof (intro conjI impI)
  assume g: "generate_body now sub p s = (Inr (Generated r n k), s')"
  from generate_body_generated [OF g] obtain s0 fxRow events where
    s0: "s0 = s \<or> (\<exists>d. s0 = release_draft now d s)"
    and c: "create_invoice (parseCreator sub (gp_created_by p)) p fxRow events (lock_rate (er_id fxRow) s0)
               = (Generated r n k, s')"
    by blast
  from s0 have q: "invoice_sequences (lock_rate (er_id fxRow) s0) = invoice_sequences s"
    by (auto simp: lock_rate_frame release_draft_frame)
  from create_invoice_row [OF c] obtain row where
    row: "r = Some row" "inv_currency row = ''KRW''"
      "inv_invoice_no row = ''KRW-'' @ js_String (gp_client_id p) @ ''-''
                @ remove_first CHR ''-'' (gp_invoice_month p) @ ''-''
                @ padStart 4 CHR ''0'' (js_String (fst (resolveInvoiceSequence (gp_client_id p)
                      (remove_first CHR ''-'' (gp_invoice_month p)) (lock_rate (er_id fxRow) s0))))"
    by auto
  show "\<exists>row. r = Some row \<and> inv_currency row = ''KRW''
         \<and> inv_invoice_no row = ''KRW-'' @ js_String (gp_client_id p) @ ''-''
              @ remove_first CHR ''-'' (gp_invoice_month p) @ ''-''
              @ padStart 4 CHR ''0'' (js_String (fst (resolveInvoiceSequence (gp_client_id p)
                    (remove_first CHR ''-'' (gp_invoice_month p)) s)))
         \<and> invoice_sequences s' = invoice_sequences (snd (resolveInvoiceSequence (gp_client_id p)
                    (remove_first CHR ''-'' (gp_invoice_month p)) s))"
    using row create_invoice_sequences [OF c] resolve_seq_cong [OF q]
    by (intro exI [of _ row]) simp
next
  assume "issue_from_batch_body ip s = (Inr (IssueCreated ir m), s')"
  from issue_created [OF this]
  show "\<exists>batch row.
         find (\<lambda>b. sb_id b = ip_settlement_batch_id ip \<and> sb_deleted_at b = None) (settlement_batches s) = Some batch
         \<and> ir = Some row \<and> inv_currency row = ''KRW''
         \<and> inv_invoice_no row = ''INV-'' @ js_String (sb_client_id batch) @ ''-''
              @ remove_first CHR ''-'' (sb_billing_month batch) @ ''-''
              @ padStart 4 CHR ''0'' (js_String (fst (resolveInvoiceSequence (sb_client_id batch)
                    (remove_first CHR ''-'' (sb_billing_month batch)) s)))
         \<and> invoice_sequences s' = invoice_sequences (snd (resolveInvoiceSequence (sb_client_id batch)
                    (remove_first CHR ''-'' (sb_billing_month batch)) s))"
    by blast
next
  show "fst (resolveInvoiceSequence c y (snd (resolveInvoiceSequence c y s))) = fst (resolveInvoiceSequence c y s) + 1"
    by (rule seq_next)
next
  assume "distinct (map seq_id (invoice_sequences s)) \<and> (c', y') \<noteq> (c, y)"
  then show "fst (resolveInvoiceSequence c y (snd (resolveInvoiceSequence c' y' s))) = fst (resolveInvoiceSequence c y s)"
    using seq_other_key by blast
next
  assume m: "month_regex mo"
  from yyyymm_regex [OF m] show "remove_first CHR ''-'' mo = take 4 mo @ drop 5 mo" by blast
  from yyyymm_regex [OF m] show "length (remove_first CHR ''-'' mo) = 6" by blast
  from yyyymm_regex [OF m] show "list_all is_digit (remove_first CHR ''-'' mo)" by blast
next
  show "4 \<le> length (padStart 4 CHR ''0'' (js_String q))" by (rule seq4(1))
next
  show "js_Number (padStart 4 CHR ''0'' (js_String q)) = Some q" by (rule js_Number_padStart)
next
  assume "q < 10000"
  then show "length (padStart 4 CHR ''0'' (js_String q)) = 4" by (rule seq4(2))
next
  assume "find (\<lambda>q. seq_client_id q = c \<and> seq_yyyymm q = y \<and> seq_deleted_at q = None) (invoice_sequences s) = None"
  then show "fst (resolveInvoiceSequence c y s) = 1" by (rule seq_first_and_stored(1))
next
  assume "find (\<lambda>q. seq_client_id q = c \<and> seq_yyyymm q = y \<and> seq_deleted_at q = None) (invoice_sequences s)
            = Some qrow"
  then show "fst (resolveInvoiceSequence c y s) = seq_last_seq qrow + 1" by (rule seq_first_and_stored(2))
next
  show "\<exists>qrow'. find (\<lambda>q. seq_client_id q = c \<and> seq_yyyymm q = y \<and> seq_deleted_at q = None)
                   (invoice_sequences (snd (resolveInvoiceSequence c y s))) = Some qrow'
          \<and> seq_last_seq qrow' = fst (resolveInvoiceSequence c y s)"
    by (rule seq_first_and_stored(3))
qed

theorem invoice_numbers_witness:
  "generate_body 5 None scenario_payload scenario_db = (Inr (Generated (Some invoice_draft) 1 1), draft_db)
   \<and> inv_invoice_no invoice_draft = ''KRW-7-202602-0001''
   \<and> fst (resolveInvoiceSequence 7 ''202602'' scenario_db) = 1
   \<and> fst (resolveInvoiceSequence 7 ''202602'' draft_db) = 2
   \<and> fst (resolveInvoiceSequence 7 ''202602'' (snd (resolveInvoiceSequence 8 ''202602'' draft_db))) = 2
   \<and> fst (issue_from_batch_body issue_payload7 (closed_db\<lparr>invoice_sequences := invoice_sequences draft_db\<rparr>))
       = Inr (IssueCreated (Some \<lparr>inv_id = 1, inv_settlement_batch_id = Some 3, inv_client_id = 7,
           inv_invoice_month = None, inv_invoice_no = ''INV-7-202602-0002'', inv_status = Issued,
           inv_issue_date = ''2026-03-01'', inv_invoice_date = None, inv_due_date = ''2026-03-15'',
           inv_recipient_email = None, inv_currency = ''KRW'', inv_fx_rate_thbkrw = None,
           inv_subtotal_krw = None, inv_vat_krw = None, inv_total_krw = None,
           inv_total_amount = Some 5100, inv_created_by = 2, inv_deleted_at = None\<rparr>) 0)
   \<and> remove_first CHR ''-'' ''2026-02'' = ''202602''
   \<and> length (padStart 4 CHR ''0'' (js_String 2)) = 4"
proof -
  have g: "generate_body 5 None scenario_payload scenario_db = (Inr (Generated (Some invoice_draft) 1 1), draft_db)"
    by (rule scenario_generation)
  have i: "fst (issue_from_batch_body issue_payload7 (closed_db\<lparr>invoice_sequences := invoice_sequences draft_db\<rparr>))
       = Inr (IssueCreated (Some \<lparr>inv_id = 1, inv_settlement_batch_id = Some 3, inv_client_id = 7,
           inv_invoice_month = None, inv_invoice_no = ''INV-7-202602-0002'', inv_status = Issued,
           inv_issue_date = ''2026-03-01'', inv_invoice_date = None, inv_due_date = ''2026-03-15'',
           inv_recipient_email = None, inv_currency = ''KRW'', inv_fx_rate_thbkrw = None,
           inv_subtotal_krw = None, inv_vat_krw = None, inv_total_krw = None,
           inv_total_amount = Some 5100, inv_created_by = 2, inv_deleted_at = None\<rparr>) 0)"
    by code_simp
  then have i2: "issue_from_batch_body issue_payload7 (closed_db\<lparr>invoice_sequences := invoice_sequences draft_db\<rparr>)
       = (Inr (IssueCreated (Some \<lparr>inv_id = 1, inv_settlement_batch_id = Some 3, inv_client_id = 7,
           inv_invoice_month = None, inv_invoice_no = ''INV-7-202602-0002'', inv_status = Issued,
           inv_issue_date = ''2026-03-01'', inv_invoice_date = None, inv_due_date = ''2026-03-15'',
           inv_recipient_email = None, inv_currency = ''KRW'', inv_fx_rate_thbkrw = None,
           inv_subtotal_krw = None, inv_vat_krw = None, inv_total_krw = None,
           inv_total_amount = Some 5100, inv_created_by = 2, inv_deleted_at = None\<rparr>) 0),
          snd (issue_from_batch_body issue_payload7 (closed_db\<lparr>invoice_sequences := invoice_sequences draft_db\<rparr>)))"
    by (metis prod.collapse)
  have d: "distinct (map seq_id (invoice_sequences draft_db)) \<and> (8, ''202602'') \<noteq> (7::nat, ''202602'')"
    by (simp add: draft_db_def empty_db_def)
  have m: "month_regex ''2026-02''" by (simp add: month_regex_def is_digit_def)
  have q: "(2::nat) < 10000" by simp
  have n1: "find (\<lambda>q. seq_client_id q = 7 \<and> seq_yyyymm q = ''202602'' \<and> seq_deleted_at q = None)
              (invoice_sequences scenario_db) = None"
    by (simp add: scenario_db_def empty_db_def)
  have n2: "find (\<lambda>q. seq_client_id q = 7 \<and> seq_yyyymm q = ''202602'' \<and> seq_deleted_at q = None)
              (invoice_sequences draft_db)
            = Some \<lparr>seq_id = 1, seq_client_id = 7, seq_yyyymm = ''202602'', seq_last_seq = 1,
                     seq_deleted_at = None\<rparr>"
    by (simp add: draft_db_def empty_db_def)
  have no: "inv_invoice_no invoice_draft = ''KRW-7-202602-0001''" by (simp add: invoice_draft_def)
  note t1 = invoice_numbers [of 5 None scenario_payload scenario_db "Some invoice_draft" 1 1 draft_db
      issue_payload7 _ _ 7 "''202602''" 8 "''202602''" "''2026-02''" 2]
  note t2 = invoice_numbers [of 5 None scenario_payload draft_db _ _ _ _ issue_payload7 _ _
      7 "''202602''" 8 "''202602''" "''2026-02''" 2]
  note t3 = invoice_numbers [of 5 None scenario_payload
      "closed_db\<lparr>invoice_sequences := invoice_sequences draft_db\<rparr>" _ _ _
      "snd (issue_from_batch_body issue_payload7 (closed_db\<lparr>invoice_sequences := invoice_sequences draft_db\<rparr>))"
      issue_payload7 _ 0 7 "''202602''" 8 "''202602''" "''2026-02''" 2]
  from t1 n1 have s1: "fst (resolveInvoiceSequence 7 ''202602'' scenario_db) = 1" by blast
  from t2 [where qrow = "\<lparr>seq_id = 1, seq_client_id = 7, seq_yyyymm = ''202602'', seq_last_seq = 1,
                     seq_deleted_at = None\<rparr>"] n2
  have "fst (resolveInvoiceSequence 7 ''202602'' draft_db)
          = seq_last_seq \<lparr>seq_id = 1, seq_client_id = 7, seq_yyyymm = ''202602'', seq_last_seq = 1,
                     seq_deleted_at = None\<rparr> + 1"
    by blast
  then have s2: "fst (resolveInvoiceSequence 7 ''202602'' draft_db) = 2" by simp
  from t2 d have k: "fst (resolveInvoiceSequence 7 ''202602'' (snd (resolveInvoiceSequence 8 ''202602'' draft_db))) = 2"
    using s2 by simp
  from t1 m have y: "remove_first CHR ''-'' ''2026-02'' = take 4 ''2026-02'' @ drop 5 ''2026-02''" by blast
  from t1 q have l: "length (padStart 4 CHR ''0'' (js_String 2)) = 4" by blast
  from t1 g have "\<exists>row. Some invoice_draft = Some row \<and> inv_currency row = ''KRW''" by blast
  from t3 i2 have "\<exists>batch. find (\<lambda>b. sb_id b = ip_settlement_batch_id issue_payload7 \<and> sb_deleted_at b = None)
      (settlement_batches (closed_db\<lparr>invoice_sequences := invoice_sequences draft_db\<rparr>)) = Some batch"
    by blast
  show ?thesis using g i s1 s2 no k y l by simp
qed

text \<open>
  Claim C4 as stated fails on the settlement path: the invoice issued from batch 3 has
  currency KRW, and its number begins with the literal INV, not with the currency.
\<close>

theorem invoice_number_prefix_counterexample:
  "map inv_currency (invoices (snd (issue_from_batch_body issue_payload7 closed_db))) = [''KRW'']
   \<and> map inv_invoice_no (invoices (snd (issue_from_batch_body issue_payload7 closed_db))) = [''INV-7-202602-0001'']
   \<and> take 3 ''INV-7-202602-0001'' \<noteq> ''KRW''"
  by code_simp

section \<open>Truncation and the totals of a generated invoice\<close>



















section \<open>Who acts\<close>

lemma parseCreator_cases:
  "parseCreator sub None = (case sub of Some u \<Rightarrow> if 0 < u then nat u else 1 | None \<Rightarrow> 1)"
  "0 < c \<Longrightarrow> parseCreator sub (Some c) = c"
  by (simp_all add: parseCreator_def split: option.splits)

lemma generate_created_by:
  assumes "generate_body now sub p s = (Inr (Generated r n k), s')"
  shows "\<exists>row. r = Some row \<and> inv_created_by row = parseCreator sub (gp_created_by p)"
proof -
  from generate_body_generated [OF assms] obtain s0 fxRow events where
    c: "create_invoice (parseCreator sub (gp_created_by p)) p fxRow events (lock_rate (er_id fxRow) s0)
               = (Generated r n k, s')"
    by blast
  from create_invoice_row [OF c] show ?thesis by auto
qed

text \<open>
  Claim C6, as the code has it. The actor field of a settlement request (\<^verbatim>\<open>created_by\<close>,
  \<^verbatim>\<open>closed_by\<close>, \<^verbatim>\<open>requested_by\<close>, \<^verbatim>\<open>approved_by\<close>) is read with
  \<^verbatim>\<open>z.coerce.number().int().positive()\<close>: a field that the body does not carry is
  \<^verbatim>\<open>NaN\<close> (here \<^const>\<open>None\<close>), \<^verbatim>\<open>null\<close> is coerced to 0. The operations issue-invoice,
  close, reopen-request, approve and reject refuse a request whose actor field is absent, zero
  or negative with VALIDATION_ERROR before anything is written, and a request that their
  schema accepts carries the positive id it was given. The invoice generator does not insist:
  a valid request stays valid without \<^verbatim>\<open>created_by\<close>, and the invoice then records the
  authenticated user's id if that is positive and 1 otherwise; a \<^verbatim>\<open>created_by\<close> that is
  given is recorded. (Issuing a generated invoice, \<^const>\<open>billing_issue_body\<close>, takes no
  actor at all.)
\<close>

theorem actor_requirements:
  "(\<not> (\<exists>a. iq_created_by irq = Some a \<and> 0 < a)
      \<longrightarrow> POST_invoices_issue is_email irq s = (Inl VALIDATION_ERROR, s))
   \<and> (\<not> (\<exists>a. cq_closed_by crq = Some a \<and> 0 < a)
      \<longrightarrow> POST_settlement_batches_close now batchId crq s = (Inl VALIDATION_ERROR, s))
   \<and> (\<not> (\<exists>a. rrq_requested_by rrq = Some a \<and> 0 < a)
      \<longrightarrow> POST_settlement_batches_reopen_requests batchId rrq s = (Inl VALIDATION_ERROR, s))
   \<and> (\<not> (\<exists>a. dq_approved_by drq = Some a \<and> 0 < a)
      \<longrightarrow> POST_settlement_reopen_requests_approve now requestId drq s = (Inl VALIDATION_ERROR, s)
          \<and> POST_settlement_reopen_requests_reject now requestId drq s = (Inl VALIDATION_ERROR, s))
   \<and> (validate_issueInvoiceSchema is_email irq = Inr ip
      \<longrightarrow> 0 < ip_created_by ip \<and> iq_created_by irq = Some (int (ip_created_by ip)))
   \<and> (validate_closeBatchSchema crq = Inr cp
      \<longrightarrow> 0 < cp_closed_by cp \<and> cq_closed_by crq = Some (int (cp_closed_by cp)))
   \<and> (validate_reopenRequestSchema rrq = Inr rp
      \<longrightarrow> 0 < rrp_requested_by rp \<and> rrq_requested_by rrq = Some (int (rrp_requested_by rp)))
   \<and> (validate_reopenDecisionSchema drq = Inr dp
      \<longrightarrow> 0 < dp_approved_by dp \<and> dq_approved_by drq = Some (int (dp_approved_by dp)))
   \<and> (validate_generateInvoiceSchema grq = Inr p
        \<longrightarrow> validate_generateInvoiceSchema (grq\<lparr>rq_created_by := None\<rparr>) = Inr (p\<lparr>gp_created_by := None\<rparr>))
   \<and> (generate_body now sub p s = (Inr (Generated r n k), s')
        \<longrightarrow> (\<exists>row. r = Some row \<and> inv_created_by row = parseCreator sub (gp_created_by p)))
   \<and> parseCreator sub None = (case sub of Some u \<Rightarrow> if 0 < u then nat u else 1 | None \<Rightarrow> 1)
   \<and> (0 < c \<longrightarrow> parseCreator sub (Some c) = c)"
proof (intro conjI impI)
  assume "\<not> (\<exists>a. iq_created_by irq = Some a \<and> 0 < a)"
  then show "POST_invoices_issue is_email irq s = (Inl VALIDATION_ERROR, s)"
    by (auto simp: POST_invoices_issue_def validate_issueInvoiceSchema_def split: option.splits)
next
  assume "\<not> (\<exists>a. cq_closed_by crq = Some a \<and> 0 < a)"
  then show "POST_settlement_batches_close now batchId crq s = (Inl VALIDATION_ERROR, s)"
    by (auto simp: POST_settlement_batches_close_def validate_closeBatchSchema_def split: option.splits)
next
  assume "\<not> (\<exists>a. rrq_requested_by rrq = Some a \<and> 0 < a)"
  then show "POST_settlement_batches_reopen_requests batchId rrq s = (Inl VALIDATION_ERROR, s)"
    by (auto simp: POST_settlement_batches_reopen_requests_def validate_reopenRequestSchema_def
        split: option.splits)
next
  assume a: "\<not> (\<exists>a. dq_approved_by drq = Some a \<and> 0 < a)"
  then show "POST_settlement_reopen_requests_approve now requestId drq s = (Inl VALIDATION_ERROR, s)"
    by (auto simp: POST_settlement_reopen_requests_approve_def validate_reopenDecisionSchema_def
        split: option.splits)
  from a show "POST_settlement_reopen_requests_reject now requestId drq s = (Inl VALIDATION_ERROR, s)"
    by (auto simp: POST_settlement_reopen_requests_reject_def validate_reopenDecisionSchema_def
        split: option.splits)
next
  assume a: "validate_issueInvoiceSchema is_email irq = Inr ip"
  then show "0 < ip_created_by ip"
    by (auto simp: validate_issueInvoiceSchema_def split: option.splits if_splits)
  from a show "iq_created_by irq = Some (int (ip_created_by ip))"
    by (auto simp: validate_issueInvoiceSchema_def split: option.splits if_splits)
next
  assume a: "validate_closeBatchSchema crq = Inr cp"
  then show "0 < cp_closed_by cp"
    by (auto simp: validate_closeBatchSchema_def split: option.splits if_splits)
  from a show "cq_closed_by crq = Some (int (cp_closed_by cp))"
    by (auto simp: validate_closeBatchSchema_def split: option.splits if_splits)
next
  assume a: "validate_reopenRequestSchema rrq = Inr rp"
  then show "0 < rrp_requested_by rp"
    by (auto simp: validate_reopenRequestSchema_def split: option.splits if_splits)
  from a show "rrq_requested_by rrq = Some (int (rrp_requested_by rp))"
    by (auto simp: validate_reopenRequestSchema_def split: option.splits if_splits)
next
  assume a: "validate_reopenDecisionSchema drq = Inr dp"
  then show "0 < dp_approved_by dp"
    by (auto simp: validate_reopenDecisionSchema_def split: option.splits if_splits)
  from a show "dq_approved_by drq = Some (int (dp_approved_by dp))"
    by (auto simp: validate_reopenDecisionSchema_def split: option.splits if_splits)
next
  assume "validate_generateInvoiceSchema grq = Inr p"
  then show "validate_generateInvoiceSchema (grq\<lparr>rq_created_by := None\<rparr>) = Inr (p\<lparr>gp_created_by := None\<rparr>)"
    by (auto simp: validate_generateInvoiceSchema_def split: option.splits if_splits)
next
  assume "generate_body now sub p s = (Inr (Generated r n k), s')"
  then show "\<exists>row. r = Some row \<and> inv_created_by row = parseCreator sub (gp_created_by p)"
    by (rule generate_created_by)
next
  show "parseCreator sub None = (case sub of Some u \<Rightarrow> if 0 < u then nat u else 1 | None \<Rightarrow> 1)"
    by (rule parseCreator_cases(1))
next
  assume "0 < c"
  then show "parseCreator sub (Some c) = c" by (rule parseCreator_cases(2))
qed

theorem actor_requirements_witness:
  "POST_invoices_issue (\<lambda>e. True) (issue_request7\<lparr>iq_created_by := Some 0\<rparr>) closed_db
     = (Inl VALIDATION_ERROR, closed_db)
   \<and> POST_settlement_batches_close 9 3 \<lparr>cq_closed_by = Some (- 2), cq_reason = None\<rparr> closed_db
     = (Inl VALIDATION_ERROR, closed_db)
   \<and> POST_settlement_batches_reopen_requests 3 \<lparr>rrq_requested_by = None, rrq_reason = Some ''recount''\<rparr> closed_db
     = (Inl VALIDATION_ERROR, closed_db)
   \<and> POST_settlement_reopen_requests_approve 9 1 \<lparr>dq_approved_by = Some 0, dq_reason = None\<rparr> requested_db
     = (Inl VALIDATION_ERROR, requested_db)
   \<and> POST_settlement_reopen_requests_reject 9 1 \<lparr>dq_approved_by = Some 0, dq_reason = None\<rparr> requested_db
     = (Inl VALIDATION_ERROR, requested_db)
   \<and> validate_issueInvoiceSchema (\<lambda>e. True) issue_request7 = Inr issue_payload7
   \<and> iq_created_by issue_request7 = Some 2
   \<and> validate_closeBatchSchema \<lparr>cq_closed_by = Some 2, cq_reason = None\<rparr> = Inr close_payload2
   \<and> validate_reopenRequestSchema \<lparr>rrq_requested_by = Some 2, rrq_reason = Some ''recount''\<rparr>
       = Inr reopen_payload
   \<and> validate_reopenDecisionSchema \<lparr>dq_approved_by = Some 2, dq_reason = None\<rparr>
       = Inr \<lparr>dp_approved_by = 2, dp_reason = None\<rparr>
   \<and> validate_generateInvoiceSchema (scenario_request\<lparr>rq_created_by := Some 4\<rparr>)
       = Inr (scenario_payload\<lparr>gp_created_by := Some 4\<rparr>)
   \<and> validate_generateInvoiceSchema scenario_request = Inr scenario_payload
   \<and> inv_created_by invoice_draft = parseCreator None None
   \<and> parseCreator (Some 9) None = 9
   \<and> parseCreator (Some 9) (Some 4) = 4"
proof -
  have v: "validate_generateInvoiceSchema (scenario_request\<lparr>rq_created_by := Some 4\<rparr>)
     = Inr (scenario_payload\<lparr>gp_created_by := Some 4\<rparr>)"
    by code_simp
  have vi: "validate_issueInvoiceSchema (\<lambda>e. True) issue_request7 = Inr issue_payload7"
    by (simp add: validate_issueInvoiceSchema_def issue_request7_def issue_payload7_def date_regex_def
        is_digit_def)
  have vc: "validate_closeBatchSchema \<lparr>cq_closed_by = Some 2, cq_reason = None\<rparr> = Inr close_payload2"
    by (simp add: validate_closeBatchSchema_def close_payload2_def)
  have vr: "validate_reopenRequestSchema \<lparr>rrq_requested_by = Some 2, rrq_reason = Some ''recount''\<rparr>
       = Inr reopen_payload"
    by (simp add: validate_reopenRequestSchema_def reopen_payload_def)
  have vd: "validate_reopenDecisionSchema \<lparr>dq_approved_by = Some 2, dq_reason = None\<rparr>
       = Inr \<lparr>dp_approved_by = 2, dp_reason = None\<rparr>"
    by (simp add: validate_reopenDecisionSchema_def)
  have n1: "\<not> (\<exists>a. iq_created_by (issue_request7\<lparr>iq_created_by := Some 0\<rparr>) = Some a \<and> 0 < a)"
    and n2: "\<not> (\<exists>a. cq_closed_by \<lparr>cq_closed_by = Some (- 2), cq_reason = None\<rparr> = Some a \<and> 0 < a)"
    and n3: "\<not> (\<exists>a. rrq_requested_by \<lparr>rrq_requested_by = None, rrq_reason = Some ''recount''\<rparr> = Some a \<and> 0 < a)"
    and n4: "\<not> (\<exists>a. dq_approved_by \<lparr>dq_approved_by = Some 0, dq_reason = None\<rparr> = Some a \<and> 0 < a)"
    by simp_all
  note t1 = actor_requirements [where irq = "issue_request7\<lparr>iq_created_by := Some 0\<rparr>"
      and crq = "\<lparr>cq_closed_by = Some (- 2), cq_reason = None\<rparr>"
      and rrq = "\<lparr>rrq_requested_by = None, rrq_reason = Some ''recount''\<rparr>"
      and is_email = "\<lambda>e. True" and s = closed_db and now = 9 and batchId = 3]
  note t2 = actor_requirements [where drq = "\<lparr>dq_approved_by = Some 0, dq_reason = None\<rparr>"
      and s = requested_db and now = 9 and requestId = 1]
  note t3 = actor_requirements [where irq = issue_request7 and is_email = "\<lambda>e. True" and ip = issue_payload7
      and crq = "\<lparr>cq_closed_by = Some 2, cq_reason = None\<rparr>" and cp = close_payload2
      and rrq = "\<lparr>rrq_requested_by = Some 2, rrq_reason = Some ''recount''\<rparr>" and rp = reopen_payload
      and drq = "\<lparr>dq_approved_by = Some 2, dq_reason = None\<rparr>"
      and dp = "\<lparr>dp_approved_by = 2, dp_reason = None\<rparr>"]
  from t1 n1 have r1: "POST_invoices_issue (\<lambda>e. True) (issue_request7\<lparr>iq_created_by := Some 0\<rparr>) closed_db
     = (Inl VALIDATION_ERROR, closed_db)"
    by blast
  from t1 n2 have r2: "POST_settlement_batches_close 9 3 \<lparr>cq_closed_by = Some (- 2), cq_reason = None\<rparr> closed_db
     = (Inl VALIDATION_ERROR, closed_db)"
    by blast
  from t1 n3 have r3: "POST_settlement_batches_reopen_requests 3
        \<lparr>rrq_requested_by = None, rrq_reason = Some ''recount''\<rparr> closed_db
     = (Inl VALIDATION_ERROR, closed_db)"
    by blast
  from t2 n4 have r4: "POST_settlement_reopen_requests_approve 9 1 \<lparr>dq_approved_by = Some 0, dq_reason = None\<rparr>
        requested_db = (Inl VALIDATION_ERROR, requested_db)"
    and r5: "POST_settlement_reopen_requests_reject 9 1 \<lparr>dq_approved_by = Some 0, dq_reason = None\<rparr>
        requested_db = (Inl VALIDATION_ERROR, requested_db)"
    by blast+
  from t3 vi have a1: "iq_created_by issue_request7 = Some (int (ip_created_by issue_payload7))" by blast
  from t3 vc have a2: "0 < cp_closed_by close_payload2" by blast
  from t3 vr have a3: "0 < rrp_requested_by reopen_payload" by blast
  from t3 vd have a4: "0 < dp_approved_by \<lparr>dp_approved_by = 2, dp_reason = None\<rparr>" by blast
  from actor_requirements [where grq = "scenario_request\<lparr>rq_created_by := Some 4\<rparr>"
      and p = "scenario_payload\<lparr>gp_created_by := Some 4\<rparr>"] v
  have a: "validate_generateInvoiceSchema (scenario_request\<lparr>rq_created_by := Some 4, rq_created_by := None\<rparr>)
      = Inr (scenario_payload\<lparr>gp_created_by := Some 4, gp_created_by := None\<rparr>)"
    by blast
  have b: "validate_generateInvoiceSchema scenario_request = Inr scenario_payload"
    using a by (simp add: scenario_request_def scenario_payload_def)
  from actor_requirements [where now = 5 and sub = None and p = scenario_payload and s = scenario_db
      and r = "Some invoice_draft" and n = 1 and k = 1 and s' = draft_db and c = 4] scenario_generation
  have c: "\<exists>row. Some invoice_draft = Some row
              \<and> inv_created_by row = parseCreator None (gp_created_by scenario_payload)"
    and d: "(0::nat) < 4 \<longrightarrow> parseCreator None (Some 4) = 4"
    by blast+
  have e: "inv_created_by invoice_draft = parseCreator None None"
    using c by (simp add: scenario_payload_def)
  have f: "parseCreator (Some 9) None = 9" "parseCreator (Some 9) (Some 4) = 4"
    by (simp_all add: parseCreator_def)
  have a1': "iq_created_by issue_request7 = Some 2" using a1 by (simp add: issue_payload7_def)
  show ?thesis using r1 r2 r3 r4 r5 vi vc vr vd a1' v b e f by simp
qed

text \<open>
  Claim C6 as stated fails on the invoice generator: the scenario's request carries no
  \<^verbatim>\<open>created_by\<close> and comes from no authenticated user; the schema accepts it, the
  generation succeeds, and the invoice records creator 1.
\<close>

theorem missing_creator_counterexample:
  "rq_created_by scenario_request = None
   \<and> validate_generateInvoiceSchema scenario_request = Inr scenario_payload
   \<and> generate_body 5 None scenario_payload scenario_db = (Inr (Generated (Some invoice_draft) 1 1), draft_db)
   \<and> inv_created_by invoice_draft = 1"
proof -
  have "validate_generateInvoiceSchema scenario_request = Inr scenario_payload"
    by code_simp
  then show ?thesis
    using scenario_generation by (simp add: scenario_request_def invoice_draft_def)
qed

end
